theory Spec2Isabelle
  imports Complex_Main "HOL-Library.Log_Nat"
begin

text \<open>
  The warehouse audit application: the one-time codes with which a team leader approves a
  worker (\<^verbatim>\<open>src/lib/supabase.ts\<close>) and the counting session of a worker, from its start
  over the recorded counts to its end and its efficiency score
  (\<^verbatim>\<open>src/components/WorkerDashboard.tsx\<close>), over a model of the tables of the migration.
  The definitions come first, the properties after them.
\<close>

section \<open>Data model\<close>

text \<open>
  The rows follow the interfaces of \<^verbatim>\<open>src/types/index.ts\<close> and the tables of the
  migration. Identifiers (uuid) are natural numbers, timestamps are milliseconds since the
  epoch (what \<^verbatim>\<open>Date.now()\<close> returns), a date is the number of the UTC day. Field names
  carry a short table prefix where two tables share a column name. A column is optional
  where the table allows \<^verbatim>\<open>NULL\<close> or where the client code can send \<^verbatim>\<open>null\<close> for it; an
  integer column holds an \<open>int\<close>, and the table decides on every write whether the value
  fits.
\<close>

type_synonym uuid = nat
type_synonym timestamp = int

datatype role = admin | vendor | team_leader | worker

record user =
  u_id :: uuid
  u_username :: string
  u_role :: role
  u_vendor_id :: "uuid option"
  u_team_leader_id :: "uuid option"
  u_is_approved :: bool
  u_created_at :: timestamp
  u_warehouse_name :: "string option"

record otp_request =
  otp_id :: uuid
  otp_worker_id :: uuid
  otp_team_leader_id :: uuid
  otp_code :: string
  is_used :: bool
  expires_at :: timestamp
  otp_created_at :: timestamp

datatype session_status = active | completed

record counting_session =
  cs_id :: uuid
  cs_worker_id :: uuid
  start_time :: timestamp
  end_time :: "timestamp option"
  status :: session_status
  total_bins_counted :: "int option"
  total_qty_counted :: "int option"

record counting_record =
  cr_id :: uuid
  session_id :: uuid
  cr_warehouse_name :: "string option"
  cr_date :: int
  team_leader_name :: string
  cr_username :: string
  bin_no :: string
  cr_qty_counted :: "int option"
  qty_recounted :: "int option"
  qty_as_per_books :: "int option"
  difference :: "int option"
  reason_for_difference :: "string option"
  cr_created_at :: timestamp

record worker_efficiency =
  we_id :: uuid
  we_warehouse_name :: "string option"
  we_date :: int
  we_username :: string
  bins_counted :: "int option"
  qty_counted :: "int option"
  time_taken_minutes :: int
  efficiency_score :: int
  ranking :: int
  we_created_at :: timestamp

record bin_master =
  bin_id :: uuid
  bin_code :: string
  bin_warehouse_name :: string
  location :: string
  bin_created_at :: timestamp

text \<open>
  The datastore: one list of rows per table, in insertion order. A write that the client
  code issues is applied to these lists when the table accepts it. The table rejects a
  foreign key that references no row, \<^verbatim>\<open>null\<close> in a \<^verbatim>\<open>NOT NULL\<close> column and an integer
  outside the 32 bits of an \<^verbatim>\<open>integer\<close> column; a rejected write changes nothing and is
  reported to the caller as an error value, which the caller may ignore. A
  \<^verbatim>\<open>.single()\<close> read that does not find exactly one row is an error as well. The row level
  policies of the migration allow every request. The client and the database read the
  same clock, a handler call reads it once (the moments between the requests of one call
  are not modelled), and every request is answered.
\<close>

record store =
  users :: "user list"
  otp_requests :: "otp_request list"
  counting_sessions :: "counting_session list"
  counting_records :: "counting_record list"
  worker_efficiency_rows :: "worker_efficiency list"

datatype error = InvalidOrExpiredOTP | ForeignKeyViolation | NotSingleRow

section \<open>Numbers and strings of the host language\<close>

text \<open>
  A JavaScript number is an IEEE-754 binary64 value. The integers of the one-time codes
  and of the clock (ids, codes, milliseconds) are far below \<open>2^53\<close> and are modelled as
  \<open>int\<close>. The three places where the code leaves the integers
  (\<^verbatim>\<open>Math.random() * 900000\<close>, the division by \<^verbatim>\<open>1000 * 60\<close>, and
  \<^verbatim>\<open>(bins / minutes) * 60\<close>) are modelled on the rationals with the rounding of binary64
  written out: every arithmetic result is rounded to the nearest number with a 53-bit
  significand, a tie going to the even significand. The exponent range (overflow,
  subnormal numbers) plays no part in these three places.
\<close>

definition round_even :: "rat \<Rightarrow> int" where
  "round_even q =
     (let f = \<lfloor>q\<rfloor>; d = q - of_int f
      in if d < 1 / 2 then f else if 1 / 2 < d then f + 1 else if even f then f else f + 1)"

text \<open>For \<open>x > 0\<close>, \<open>binade x\<close> is the exponent \<open>e\<close> with \<open>2^e \<le> x < 2^(e+1)\<close>.\<close>

definition binade :: "rat \<Rightarrow> int" where
  "binade x = (if 1 \<le> x then bitlen \<lfloor>x\<rfloor> - 1 else - bitlen (\<lceil>1 / x\<rceil> - 1))"

definition round_double :: "rat \<Rightarrow> rat" where
  "round_double x =
     (if x = 0 then 0
      else let u = 2 powi (binade \<bar>x\<bar> - 52)
           in sgn x * of_int (round_even (\<bar>x\<bar> / u)) * u)"

definition js_add :: "rat \<Rightarrow> rat \<Rightarrow> rat" where
  "js_add x y = round_double (x + y)"

definition js_mul :: "rat \<Rightarrow> rat \<Rightarrow> rat" where
  "js_mul x y = round_double (x * y)"

text \<open>The divisors of this program are \<^verbatim>\<open>1000 * 60\<close> and \<^verbatim>\<open>Math.max(1, _)\<close>, never zero.\<close>

definition js_div :: "rat \<Rightarrow> rat \<Rightarrow> rat" where
  "js_div x y = round_double (x / y)"

text \<open>\<^verbatim>\<open>Math.round\<close> rounds to the nearest integer, a tie going up; \<^verbatim>\<open>Math.floor\<close> rounds down.\<close>

definition Math_round :: "rat \<Rightarrow> int" where
  "Math_round x = \<lfloor>x + 1 / 2\<rfloor>"

definition Math_floor :: "rat \<Rightarrow> int" where
  "Math_floor x = \<lfloor>x\<rfloor>"

text \<open>\<^verbatim>\<open>Number.prototype.toString\<close> on an integer: its decimal numeral.\<close>

definition digit_char :: "nat \<Rightarrow> char" where
  "digit_char d = ''0123456789'' ! d"

fun digits :: "nat \<Rightarrow> string" where
  "digits n = (if n < 10 then [digit_char n] else digits (n div 10) @ [digit_char (n mod 10)])"

declare digits.simps [simp del]

definition Number_toString :: "int \<Rightarrow> string" where
  "Number_toString n = (if n < 0 then CHR ''-'' # digits (nat (- n)) else digits (nat n))"

text \<open>
  The quantity that the worker types is parsed and added to a total, and what comes out is
  an integer or no finite number at all. \<open>Finite n\<close> is the number with the integer value
  \<open>n\<close>. \<open>Number_value n\<close> is the number that stands for the integer \<open>n\<close>: \<open>n\<close> rounded to
  binary64, which is \<open>n\<close> itself up to \<open>2^53\<close>, and an infinity from
  \<open>2^1024 - 2^970\<close> on, where the rounding reaches \<open>2^1024\<close>.
\<close>

datatype number = Finite int | Infinity | MinusInfinity | NaN

definition Number_value :: "int \<Rightarrow> number" where
  "Number_value n =
     (let x = round_double (of_int n)
      in if 2 ^ 1024 \<le> x then Infinity
         else if x \<le> - (2 ^ 1024) then MinusInfinity
         else Finite \<lfloor>x\<rfloor>)"

text \<open>The operator \<^verbatim>\<open>+\<close> on two such numbers.\<close>

fun number_add :: "number \<Rightarrow> number \<Rightarrow> number" where
  "number_add (Finite a) (Finite b) = Number_value (a + b)"
| "number_add (Finite a) y = y"
| "number_add NaN y = NaN"
| "number_add Infinity y = (if y = MinusInfinity \<or> y = NaN then NaN else Infinity)"
| "number_add MinusInfinity y = (if y = Infinity \<or> y = NaN then NaN else MinusInfinity)"

text \<open>
  A column value that arrives in the component is a number or \<^verbatim>\<open>null\<close>, and \<^verbatim>\<open>null\<close>
  counts as 0 in arithmetic. On the way back \<^verbatim>\<open>JSON.stringify\<close> writes a finite number as
  its numeral and every other number as \<^verbatim>\<open>null\<close>.
\<close>

definition ToNumber :: "int option \<Rightarrow> int" where
  "ToNumber v = (case v of None \<Rightarrow> 0 | Some n \<Rightarrow> n)"

definition JSON_number :: "number \<Rightarrow> int option" where
  "JSON_number x = (case x of Finite n \<Rightarrow> Some n | _ \<Rightarrow> None)"

text \<open>
  A string that is only stored and compared is a list of characters. The typed quantity is
  parsed, and \<^verbatim>\<open>parseInt\<close> looks at code units beyond the 8 bits of a character: it is a
  list of UTF-16 code units, each a natural number.

  \<^verbatim>\<open>parseInt\<close> with no radix: leading white space and line terminators are skipped, a sign
  is read, a prefix \<^verbatim>\<open>0x\<close> or \<^verbatim>\<open>0X\<close> selects radix 16, and the longest prefix of digits
  is the value, as the number that stands for it; with no digit the result is \<^verbatim>\<open>NaN\<close>.
  (The language standard allows an implementation to read the decimal digits after the
  twentieth as zeros; the model reads them all.)
\<close>

type_synonym code_unit = nat

definition code_units :: "string \<Rightarrow> code_unit list" where
  "code_units s = map of_char s"

definition is_white_space :: "code_unit \<Rightarrow> bool" where
  "is_white_space u =
     (u \<in> set [0x0009, 0x000A, 0x000B, 0x000C, 0x000D, 0x0020, 0x00A0, 0x1680, 0x2028,
                0x2029, 0x202F, 0x205F, 0x3000, 0xFEFF] \<or>
      (0x2000 \<le> u \<and> u \<le> 0x200A))"

definition digit_value :: "code_unit \<Rightarrow> nat option" where
  "digit_value k =
     (if 48 \<le> k \<and> k \<le> 57 then Some (k - 48)
      else if 97 \<le> k \<and> k \<le> 122 then Some (k - 87)
      else if 65 \<le> k \<and> k \<le> 90 then Some (k - 55)
      else None)"

definition is_digit :: "nat \<Rightarrow> code_unit \<Rightarrow> bool" where
  "is_digit R u = (case digit_value u of None \<Rightarrow> False | Some d \<Rightarrow> d < R)"

definition digits_value :: "nat \<Rightarrow> code_unit list \<Rightarrow> int" where
  "digits_value R ds =
     foldl (\<lambda>a u. a * int R + (case digit_value u of None \<Rightarrow> 0 | Some d \<Rightarrow> int d)) 0 ds"

definition parse_radix :: "nat \<Rightarrow> code_unit list \<Rightarrow> int option" where
  "parse_radix R s =
     (let ds = takeWhile (is_digit R) s
      in if ds = [] then None else Some (digits_value R ds))"

fun parse_unsigned :: "code_unit list \<Rightarrow> int option" where
  "parse_unsigned (z # x # s) =
     (if z = 48 \<and> (x = 120 \<or> x = 88) then parse_radix 16 s
      else parse_radix 10 (z # x # s))"
| "parse_unsigned s = parse_radix 10 s"

fun parse_signed :: "code_unit list \<Rightarrow> int option" where
  "parse_signed (u # s) =
     (if u = 45 then map_option uminus (parse_unsigned s)
      else if u = 43 then parse_unsigned s
      else parse_unsigned (u # s))"
| "parse_signed [] = None"

definition parseInt :: "code_unit list \<Rightarrow> number" where
  "parseInt s =
     (case parse_signed (dropWhile is_white_space s) of
        None \<Rightarrow> NaN
      | Some n \<Rightarrow> Number_value n)"

text \<open>\<^verbatim>\<open>new Date().toISOString().split('T')[0]\<close>: the UTC day of a timestamp.\<close>

definition date_of :: "timestamp \<Rightarrow> int" where
  "date_of t = t div 86400000"

section \<open>The query client and the tables\<close>

text \<open>
  \<^verbatim>\<open>.single()\<close> turns the selected rows into one object: the result must be exactly one
  row, otherwise the client returns an error and no data.
\<close>

fun single :: "'a list \<Rightarrow> error + 'a" where
  "single [r] = Inr r"
| "single rs = Inl NotSingleRow"

text \<open>The column default \<^verbatim>\<open>uuid_generate_v4()\<close>: an identifier no row of the table has.\<close>

definition fresh_id :: "uuid list \<Rightarrow> uuid" where
  "fresh_id ids = Suc (fold max ids 0)"

definition user_exists :: "store \<Rightarrow> uuid \<Rightarrow> bool" where
  "user_exists st i = (i \<in> set (map u_id (users st)))"

definition session_exists :: "store \<Rightarrow> uuid \<Rightarrow> bool" where
  "session_exists st i = (i \<in> set (map cs_id (counting_sessions st)))"

text \<open>
  \<^verbatim>\<open>update(fields).eq('id', i)\<close> on \<^verbatim>\<open>counting_sessions\<close> rewrites every row with that id.
\<close>

definition update_session ::
  "uuid \<Rightarrow> (counting_session \<Rightarrow> counting_session) \<Rightarrow> store \<Rightarrow> store" where
  "update_session i f st =
     st\<lparr>counting_sessions := map (\<lambda>s. if cs_id s = i then f s else s) (counting_sessions st)\<rparr>"

text \<open>
  The type \<^verbatim>\<open>integer\<close> of the tables has 32 bits. A column declared \<^verbatim>\<open>integer\<close> takes
  \<^verbatim>\<open>null\<close> or such an integer, a column declared \<^verbatim>\<open>integer NOT NULL\<close> only the integer.
\<close>

definition int32 :: "int \<Rightarrow> bool" where
  "int32 n = (- (2 ^ 31) \<le> n \<and> n < 2 ^ 31)"

definition integer_column :: "int option \<Rightarrow> bool" where
  "integer_column v = (case v of None \<Rightarrow> True | Some n \<Rightarrow> int32 n)"

definition integer_not_null :: "int option \<Rightarrow> bool" where
  "integer_not_null v = (case v of None \<Rightarrow> False | Some n \<Rightarrow> int32 n)"

text \<open>
  \<^verbatim>\<open>counting_records\<close>: \<^verbatim>\<open>session_id\<close> references \<^verbatim>\<open>counting_sessions\<close>;
  \<^verbatim>\<open>warehouse_name\<close> and \<^verbatim>\<open>qty_counted\<close> are \<^verbatim>\<open>NOT NULL\<close> (so are the date, the two
  names and the bin number, which the client always has); the quantities are integers.
\<close>

definition counting_records_accepts :: "store \<Rightarrow> counting_record \<Rightarrow> bool" where
  "counting_records_accepts st r =
     (session_exists st (session_id r) \<and> cr_warehouse_name r \<noteq> None \<and>
      integer_not_null (cr_qty_counted r) \<and> integer_column (qty_recounted r) \<and>
      integer_column (qty_as_per_books r) \<and> integer_column (difference r))"

definition insert_counting_record :: "counting_record \<Rightarrow> store \<Rightarrow> store" where
  "insert_counting_record r st =
     (if counting_records_accepts st r
      then st\<lparr>counting_records := counting_records st @ [r]\<rparr> else st)"

text \<open>
  \<^verbatim>\<open>worker_efficiency\<close>: every column is \<^verbatim>\<open>NOT NULL\<close>, and the five counts are integers.
\<close>

definition worker_efficiency_accepts :: "worker_efficiency \<Rightarrow> bool" where
  "worker_efficiency_accepts r =
     (we_warehouse_name r \<noteq> None \<and>
      integer_not_null (bins_counted r) \<and> integer_not_null (qty_counted r) \<and>
      int32 (time_taken_minutes r) \<and> int32 (efficiency_score r) \<and> int32 (ranking r))"

definition insert_worker_efficiency :: "worker_efficiency \<Rightarrow> store \<Rightarrow> store" where
  "insert_worker_efficiency r st =
     (if worker_efficiency_accepts r
      then st\<lparr>worker_efficiency_rows := worker_efficiency_rows st @ [r]\<rparr> else st)"

text \<open>
  \<^verbatim>\<open>update({total_bins_counted, total_qty_counted}).eq('id', i)\<close>: both columns are
  \<^verbatim>\<open>integer\<close> and allow \<^verbatim>\<open>null\<close>; a value that does not fit rejects the whole update.
\<close>

definition update_totals :: "uuid \<Rightarrow> int option \<Rightarrow> int option \<Rightarrow> store \<Rightarrow> store" where
  "update_totals i bins qty st =
     (if integer_column bins \<and> integer_column qty
      then update_session i (\<lambda>s. s\<lparr>total_bins_counted := bins, total_qty_counted := qty\<rparr>) st
      else st)"

section \<open>OTP issuance and verification (\<^verbatim>\<open>src/lib/supabase.ts\<close>)\<close>

text \<open>
  \<^verbatim>\<open>generateOTP\<close> is \<^verbatim>\<open>Math.floor(100000 + Math.random() * 900000).toString()\<close>; the
  value of \<^verbatim>\<open>Math.random()\<close>, a binary64 number in \<open>[0, 1)\<close>, is the argument.
\<close>

definition generateOTP :: "rat \<Rightarrow> string" where
  "generateOTP random = Number_toString (Math_floor (js_add 100000 (js_mul random 900000)))"

text \<open>
  \<^verbatim>\<open>createOTPRequest\<close> inserts a row with the worker, the team leader, a generated code
  and \<^verbatim>\<open>expires_at = Date.now() + 10 * 60 * 1000\<close>; the table supplies \<^verbatim>\<open>id\<close>,
  \<^verbatim>\<open>is_used = false\<close> and \<^verbatim>\<open>created_at\<close>, and rejects a worker or team leader that is no
  row of \<^verbatim>\<open>users\<close>. An insert error is thrown; otherwise the inserted row is returned.
\<close>

definition createOTPRequest ::
  "rat \<Rightarrow> timestamp \<Rightarrow> store \<Rightarrow> uuid \<Rightarrow> uuid \<Rightarrow> (error + otp_request) \<times> store" where
  "createOTPRequest random now st workerId teamLeaderId =
     (let otpCode = generateOTP random;
          expiresAt = now + 10 * 60 * 1000
      in if user_exists st workerId \<and> user_exists st teamLeaderId
         then let data = \<lparr>otp_id = fresh_id (map otp_id (otp_requests st)),
                          otp_worker_id = workerId,
                          otp_team_leader_id = teamLeaderId,
                          otp_code = otpCode,
                          is_used = False,
                          expires_at = expiresAt,
                          otp_created_at = now\<rparr>
              in (Inr data, st\<lparr>otp_requests := otp_requests st @ [data]\<rparr>)
         else (Inl ForeignKeyViolation, st))"

text \<open>
  \<^verbatim>\<open>verifyOTP\<close> selects the rows of \<^verbatim>\<open>otp_requests\<close> with the given worker and code that
  are unused and whose \<^verbatim>\<open>expires_at\<close> is greater than the current time, asks for a single
  row, throws \<^verbatim>\<open>Error('Invalid or expired OTP')\<close> on an error or on no data, and otherwise
  sets \<^verbatim>\<open>is_used\<close> on the rows with the id of the row it read and returns that row (as it
  was read). The model returns the store in both cases, so that what a failed call leaves
  behind is a statement about the result.
\<close>

definition eligible :: "timestamp \<Rightarrow> uuid \<Rightarrow> string \<Rightarrow> otp_request \<Rightarrow> bool" where
  "eligible now workerId otpCode r =
     (otp_worker_id r = workerId \<and> otp_code r = otpCode \<and> is_used r = False \<and> now < expires_at r)"

definition mark_used :: "uuid \<Rightarrow> otp_request list \<Rightarrow> otp_request list" where
  "mark_used i rs = map (\<lambda>r. if otp_id r = i then r\<lparr>is_used := True\<rparr> else r) rs"

definition verifyOTP :: "timestamp \<Rightarrow> store \<Rightarrow> uuid \<Rightarrow> string \<Rightarrow> (error + otp_request) \<times> store" where
  "verifyOTP now st workerId otpCode =
     (case single (filter (eligible now workerId otpCode) (otp_requests st)) of
        Inl e \<Rightarrow> (Inl InvalidOrExpiredOTP, st)
      | Inr data \<Rightarrow>
          (Inr data, st\<lparr>otp_requests := mark_used (otp_id data) (otp_requests st)\<rparr>))"

text \<open>
  The team leader's dashboard (\<^verbatim>\<open>handleOTPVerification\<close>): without a selected worker the
  handler returns at once; otherwise it verifies the entered code and, only when
  \<^verbatim>\<open>verifyOTP\<close> returned, approves the rows of \<^verbatim>\<open>users\<close> with the selected worker's id,
  closes the dialog and reports success. A thrown error is caught and reported.
\<close>

record team_leader_dashboard =
  tl_user :: user
  selectedWorker :: "user option"
  enteredOTP :: string
  showOTPModal :: bool

datatype alert = WorkerApproved | InvalidOrExpired

definition approve :: "uuid \<Rightarrow> user list \<Rightarrow> user list" where
  "approve i us = map (\<lambda>u. if u_id u = i then u\<lparr>u_is_approved := True\<rparr> else u) us"

definition handleOTPVerification ::
  "timestamp \<Rightarrow> store \<Rightarrow> team_leader_dashboard \<Rightarrow> alert option \<times> store \<times> team_leader_dashboard" where
  "handleOTPVerification now st d =
     (case selectedWorker d of
        None \<Rightarrow> (None, st, d)
      | Some w \<Rightarrow>
          (case verifyOTP now st (u_id w) (enteredOTP d) of
             (Inl e, st') \<Rightarrow> (Some InvalidOrExpired, st', d)
           | (Inr data, st') \<Rightarrow>
               (Some WorkerApproved,
                st'\<lparr>users := approve (u_id w) (users st')\<rparr>,
                d\<lparr>showOTPModal := False, selectedWorker := None, enteredOTP := []\<rparr>)))"

section \<open>The worker's dashboard (\<^verbatim>\<open>src/components/WorkerDashboard.tsx\<close>)\<close>

text \<open>
  The component state that the handlers read and write. The lists that are only displayed
  (bins, filtered bins, today's records) are left out.

  A handler is a function of the store and of the component state of the rendering in
  which it was invoked, the state that its closure holds. It returns the store after its
  own requests and that component state with its own state updates applied. What the
  handler reads of a session is the copy in \<open>currentSession\<close>, never the row in the store,
  and nothing makes the two agree: the row may have been written since the copy was
  taken, and a second invocation may come from the same rendering as the first, before
  the state updates of the first are drawn. The properties below therefore hold for
  every store and every component state.

  The requests of one call reach the store one after the other. What other clients write
  in between is not part of the function; each request acts on the store as it then is,
  as \<open>update_session\<close>, \<open>update_totals\<close>, \<open>insert_counting_record\<close> and
  \<open>insert_worker_efficiency\<close> say.

  \<^verbatim>\<open>endCounting\<close> and \<^verbatim>\<open>confirmQuantity\<close> end by calling \<^verbatim>\<open>loadData()\<close> without waiting for
  it. The reload is a step of its own: \<open>loadData\<close> applied to the store as it is when the
  query is answered.
\<close>

record worker_dashboard =
  wd_user :: user
  currentSession :: "counting_session option"
  selectedBin :: "bin_master option"
  quantity :: "code_unit list"
  showConfirmation :: bool
  searchTerm :: string

definition active_sessions :: "store \<Rightarrow> uuid \<Rightarrow> counting_session list" where
  "active_sessions st w =
     filter (\<lambda>s. cs_worker_id s = w \<and> status s = active) (counting_sessions st)"

text \<open>
  \<^verbatim>\<open>loadData\<close> asks for the single active session of the worker and stores it when there is
  one; with no data (no row, or more than one) the current session is left as it is.
\<close>

definition loadData :: "store \<Rightarrow> worker_dashboard \<Rightarrow> worker_dashboard" where
  "loadData st c =
     (case single (active_sessions st (u_id (wd_user c))) of
        Inl e \<Rightarrow> c
      | Inr sessionData \<Rightarrow> c\<lparr>currentSession := Some sessionData\<rparr>)"

text \<open>The page once a reload has been answered, with no write in between.\<close>

definition reloaded :: "store \<times> worker_dashboard \<Rightarrow> store \<times> worker_dashboard" where
  "reloaded sc = (fst sc, loadData (fst sc) (snd sc))"

text \<open>
  \<^verbatim>\<open>startCounting\<close> inserts an active session with zero totals for the worker and keeps the
  inserted row as the current session. It reads nothing before. The table rejects a worker
  that is no row of \<^verbatim>\<open>users\<close>; the error is thrown, caught and logged, and nothing changes.
\<close>

definition startCounting ::
  "timestamp \<Rightarrow> store \<Rightarrow> worker_dashboard \<Rightarrow> store \<times> worker_dashboard" where
  "startCounting now st c =
     (if user_exists st (u_id (wd_user c))
      then let data = \<lparr>cs_id = fresh_id (map cs_id (counting_sessions st)),
                       cs_worker_id = u_id (wd_user c),
                       start_time = now,
                       end_time = None,
                       status = active,
                       total_bins_counted = Some 0,
                       total_qty_counted = Some 0\<rparr>
           in (st\<lparr>counting_sessions := counting_sessions st @ [data]\<rparr>,
               c\<lparr>currentSession := Some data\<rparr>)
      else (st, c))"

text \<open>
  The two derivations of \<^verbatim>\<open>endCounting\<close>:
  \<^verbatim>\<open>Math.round((end - start) / (1000 * 60))\<close> and
  \<^verbatim>\<open>Math.min(100, Math.round((bins / Math.max(1, minutes)) * 60))\<close>.
\<close>

definition timeTakenMinutes :: "timestamp \<Rightarrow> timestamp \<Rightarrow> int" where
  "timeTakenMinutes endTime startTime =
     Math_round (js_div (of_int (endTime - startTime)) (1000 * 60))"

definition efficiencyScore :: "int \<Rightarrow> int \<Rightarrow> int" where
  "efficiencyScore bins minutes =
     min 100 (Math_round (js_mul (js_div (of_int bins) (of_int (max 1 minutes))) 60))"

text \<open>
  The formula of the specification, \<^verbatim>\<open>min(100, round((bins / max(1, minutes)) * 60))\<close>,
  read over the rationals, \<open>round\<close> taking a tie up as its example
  \<^verbatim>\<open>Score(5, 120) == 3\<close> requires.
\<close>

definition Score_spec :: "int \<Rightarrow> int \<Rightarrow> int" where
  "Score_spec bins minutes =
     min 100 \<lfloor>(of_int bins / of_int (max 1 minutes)) * 60 + 1 / (2 :: rat)\<rfloor>"

text \<open>
  The exact rate \<open>60 * bins / max(1, minutes)\<close> lies halfway between two integers.
\<close>

definition half_integer_rate :: "int \<Rightarrow> int \<Rightarrow> bool" where
  "half_integer_rate bins minutes =
     (let m = max 1 minutes in (120 * bins) mod m = 0 \<and> odd ((120 * bins) div m))"

text \<open>
  \<^verbatim>\<open>endCounting\<close> returns at once when the component holds no session. Otherwise it sets
  \<^verbatim>\<open>end_time\<close> and \<^verbatim>\<open>status = 'completed'\<close> on the rows with the id of the copy, whatever
  their status is, and asks the table to insert one efficiency row computed from the
  copy: its totals, the minutes since its \<^verbatim>\<open>start_time\<close>, the score. The code does not
  look at the answer of either request. Then it clears the current session (and starts
  the reload).
\<close>

definition endCounting ::
  "timestamp \<Rightarrow> store \<Rightarrow> worker_dashboard \<Rightarrow> store \<times> worker_dashboard" where
  "endCounting now st c =
     (case currentSession c of
        None \<Rightarrow> (st, c)
      | Some cs \<Rightarrow>
          (let endTime = now;
               minutes = timeTakenMinutes endTime (start_time cs);
               st1 = update_session (cs_id cs)
                       (\<lambda>s. s\<lparr>end_time := Some endTime, status := completed\<rparr>) st;
               score = efficiencyScore (ToNumber (total_bins_counted cs)) minutes;
               st2 = insert_worker_efficiency
                       \<lparr>we_id = fresh_id (map we_id (worker_efficiency_rows st1)),
                        we_warehouse_name = u_warehouse_name (wd_user c),
                        we_date = date_of now,
                        we_username = u_username (wd_user c),
                        bins_counted = total_bins_counted cs,
                        qty_counted = total_qty_counted cs,
                        time_taken_minutes = minutes,
                        efficiency_score = score,
                        ranking = 1,
                        we_created_at = now\<rparr> st1
           in (st2, c\<lparr>currentSession := None\<rparr>)))"

text \<open>The handlers of the bin list and of the quantity form.\<close>

definition handleBinSelect :: "bin_master \<Rightarrow> worker_dashboard \<Rightarrow> worker_dashboard" where
  "handleBinSelect b c = c\<lparr>selectedBin := Some b, quantity := []\<rparr>"

definition setQuantity :: "code_unit list \<Rightarrow> worker_dashboard \<Rightarrow> worker_dashboard" where
  "setQuantity q c = c\<lparr>quantity := q\<rparr>"

definition handleQuantitySubmit :: "worker_dashboard \<Rightarrow> worker_dashboard" where
  "handleQuantitySubmit c =
     (if selectedBin c = None \<or> quantity c = [] \<or> currentSession c = None then c
      else c\<lparr>showConfirmation := True\<rparr>)"

text \<open>
  \<^verbatim>\<open>confirmQuantity\<close> returns at once without a selected bin, a quantity or a current
  session. Otherwise it asks the table to insert a counting record with the parsed
  quantity, and then asks it to write, to the rows with the id of the copy, the totals of
  the copy plus one bin and plus the parsed quantity. The code does not look at the answer
  of either request. Then it resets the form (and starts the reload). The book quantity is
  \<^verbatim>\<open>Math.floor(Math.random() * 100) + 50\<close>.
\<close>

definition confirmQuantity ::
  "rat \<Rightarrow> timestamp \<Rightarrow> store \<Rightarrow> worker_dashboard \<Rightarrow> store \<times> worker_dashboard" where
  "confirmQuantity random now st c =
     (case (selectedBin c, currentSession c) of
        (Some b, Some cs) \<Rightarrow>
          (if quantity c = [] then (st, c)
           else
             (let st1 = insert_counting_record
                          \<lparr>cr_id = fresh_id (map cr_id (counting_records st)),
                           session_id = cs_id cs,
                           cr_warehouse_name = u_warehouse_name (wd_user c),
                           cr_date = date_of now,
                           team_leader_name = ''TL1'',
                           cr_username = u_username (wd_user c),
                           bin_no = bin_code b,
                           cr_qty_counted = JSON_number (parseInt (quantity c)),
                           qty_recounted = None,
                           qty_as_per_books = Some (Math_floor (js_mul random 100) + 50),
                           difference = Some 0,
                           reason_for_difference = None,
                           cr_created_at = now\<rparr> st;
                  st2 = update_totals (cs_id cs)
                          (JSON_number
                             (number_add (Finite (ToNumber (total_bins_counted cs))) (Finite 1)))
                          (JSON_number
                             (number_add (Finite (ToNumber (total_qty_counted cs)))
                                (parseInt (quantity c))))
                          st1;
                  c' = c\<lparr>showConfirmation := False, selectedBin := None,
                          quantity := [], searchTerm := []\<rparr>
              in (st2, c')))
      | _ \<Rightarrow> (st, c))"

text \<open>
  Recording a count is the sequence the page imposes: select the bin, type the quantity,
  submit the form, confirm.
\<close>

definition record_count ::
  "bin_master \<Rightarrow> code_unit list \<Rightarrow> rat \<Rightarrow> timestamp \<Rightarrow> store \<times> worker_dashboard \<Rightarrow>
     store \<times> worker_dashboard" where
  "record_count b q random now sc =
     confirmQuantity random now (fst sc)
       (handleQuantitySubmit (setQuantity q (handleBinSelect b (snd sc))))"

text \<open>
  The states of a counting session as the specification names them, for one dashboard:
  \<open>NoSession\<close> when the component holds no session and the store has no active session of
  the worker; \<open>Active\<close> when the component holds the one active session of the worker as the
  store has it.
\<close>

definition NoSession :: "store \<Rightarrow> worker_dashboard \<Rightarrow> bool" where
  "NoSession st c =
     (currentSession c = None \<and> active_sessions st (u_id (wd_user c)) = [])"

definition Active :: "store \<Rightarrow> worker_dashboard \<Rightarrow> counting_session \<Rightarrow> bool" where
  "Active st c cs =
     (currentSession c = Some cs \<and> active_sessions st (u_id (wd_user c)) = [cs])"

section \<open>A small store\<close>

text \<open>
  A team leader, an approved worker and a worker that waits for approval, as in the sample
  data, with empty tables otherwise, and the approved worker's dashboard as it is mounted.
\<close>

definition demo_team_leader :: user where
  "demo_team_leader =
     \<lparr>u_id = 1, u_username = ''tl1'', u_role = team_leader, u_vendor_id = None,
      u_team_leader_id = None, u_is_approved = True, u_created_at = 0,
      u_warehouse_name = Some ''Warehouse A''\<rparr>"

definition demo_worker :: user where
  "demo_worker =
     \<lparr>u_id = 2, u_username = ''worker1'', u_role = worker, u_vendor_id = None,
      u_team_leader_id = Some 1, u_is_approved = True, u_created_at = 0,
      u_warehouse_name = Some ''Warehouse A''\<rparr>"

definition demo_pending_worker :: user where
  "demo_pending_worker =
     \<lparr>u_id = 3, u_username = ''worker4'', u_role = worker, u_vendor_id = None,
      u_team_leader_id = Some 1, u_is_approved = False, u_created_at = 0,
      u_warehouse_name = Some ''Warehouse A''\<rparr>"

definition demo_store :: store where
  "demo_store =
     \<lparr>users = [demo_team_leader, demo_worker, demo_pending_worker], otp_requests = [],
      counting_sessions = [], counting_records = [], worker_efficiency_rows = []\<rparr>"

definition demo_dashboard :: worker_dashboard where
  "demo_dashboard =
     \<lparr>wd_user = demo_worker, currentSession = None, selectedBin = None, quantity = [],
      showConfirmation = False, searchTerm = []\<rparr>"

definition bin_A001 :: bin_master where
  "bin_A001 =
     \<lparr>bin_id = 1, bin_code = ''A001'', bin_warehouse_name = ''Warehouse A'',
      location = ''Aisle A, Level 1'', bin_created_at = 0\<rparr>"

definition bin_A002 :: bin_master where
  "bin_A002 =
     \<lparr>bin_id = 2, bin_code = ''A002'', bin_warehouse_name = ''Warehouse A'',
      location = ''Aisle A, Level 2'', bin_created_at = 0\<rparr>"

text \<open>
  The worker starts counting at time 0, which stores the session \<open>demo_session\<close>; and the
  Start handler is invoked a second time from the rendering of the first invocation,
  the one that holds no session.
\<close>

definition started_once :: "store \<times> worker_dashboard" where
  "started_once = startCounting 0 demo_store demo_dashboard"

definition started_twice :: "store \<times> worker_dashboard" where
  "started_twice = startCounting 1 (fst started_once) demo_dashboard"

definition demo_session :: counting_session where
  "demo_session =
     \<lparr>cs_id = 1, cs_worker_id = 2, start_time = 0, end_time = None, status = active,
      total_bins_counted = Some 0, total_qty_counted = Some 0\<rparr>"

text \<open>
  After the start, the worker ends the session two hours later; and the End handler is
  invoked a second time, a second later, from the rendering of the first invocation, the
  one that holds the session.
\<close>

definition ended_once :: "store \<times> worker_dashboard" where
  "ended_once = endCounting 7200000 (fst started_once) (snd started_once)"

definition ended_twice :: "store \<times> worker_dashboard" where
  "ended_twice = endCounting 7201000 (fst ended_once) (snd started_once)"

text \<open>
  After the start, the worker selects bin A001 and types a quantity; the dashboard with
  the confirmation dialog open.
\<close>

definition demo_typed :: "string \<Rightarrow> worker_dashboard" where
  "demo_typed q =
     handleQuantitySubmit (setQuantity (code_units q) (handleBinSelect bin_A001 (snd started_once)))"

text \<open>
  A worker whose row has no warehouse name (the column of \<^verbatim>\<open>users\<close> allows it), with a
  dashboard of its own, starts counting at time 0.
\<close>

definition demo_worker_nowhere :: user where
  "demo_worker_nowhere =
     \<lparr>u_id = 4, u_username = ''worker5'', u_role = worker, u_vendor_id = None,
      u_team_leader_id = Some 1, u_is_approved = True, u_created_at = 0,
      u_warehouse_name = None\<rparr>"

definition nowhere_store :: store where
  "nowhere_store =
     \<lparr>users = [demo_team_leader, demo_worker_nowhere], otp_requests = [],
      counting_sessions = [], counting_records = [], worker_efficiency_rows = []\<rparr>"

definition nowhere_dashboard :: worker_dashboard where
  "nowhere_dashboard =
     \<lparr>wd_user = demo_worker_nowhere, currentSession = None, selectedBin = None, quantity = [],
      showConfirmation = False, searchTerm = []\<rparr>"

definition nowhere_started :: "store \<times> worker_dashboard" where
  "nowhere_started = startCounting 0 nowhere_store nowhere_dashboard"

definition nowhere_session :: counting_session where
  "nowhere_session =
     \<lparr>cs_id = 1, cs_worker_id = 4, start_time = 0, end_time = None, status = active,
      total_bins_counted = Some 0, total_qty_counted = Some 0\<rparr>"

text \<open>
  The store after the team leader has issued a code to the waiting worker, after a second
  issue from the same draw, and after the first code has been used; and the team leader's
  dashboard with the verification dialog open for that worker.
\<close>

definition issued_once :: store where
  "issued_once = snd (createOTPRequest (1 / 2) 0 demo_store 3 1)"

definition issued_twice :: store where
  "issued_twice = snd (createOTPRequest (1 / 2) 0 issued_once 3 1)"

definition demo_request :: otp_request where
  "demo_request =
     \<lparr>otp_id = 1, otp_worker_id = 3, otp_team_leader_id = 1, otp_code = ''550000'',
      is_used = False, expires_at = 600000, otp_created_at = 0\<rparr>"

definition demo_dialog :: "string \<Rightarrow> team_leader_dashboard" where
  "demo_dialog entered =
     \<lparr>tl_user = demo_team_leader, selectedWorker = Some demo_pending_worker,
      enteredOTP = entered, showOTPModal = True\<rparr>"

definition used_once :: store where
  "used_once = issued_once\<lparr>otp_requests := [demo_request\<lparr>is_used := True\<rparr>]\<rparr>"

section \<open>Rounding to binary64\<close>

lemma round_even_cases: "round_even q = \<lfloor>q\<rfloor> \<or> round_even q = \<lfloor>q\<rfloor> + 1"
  by (simp add: round_even_def Let_def)

lemma round_even_of_int: "round_even (of_int n) = n"
  by (simp add: round_even_def Let_def)

lemma round_even_mono:
  assumes "a \<le> b"
  shows "round_even a \<le> round_even b"
proof (cases "\<lfloor>a\<rfloor> = \<lfloor>b\<rfloor>")
  case True
  then have "a - of_int \<lfloor>a\<rfloor> \<le> b - of_int \<lfloor>b\<rfloor>"
    using assms by simp
  then show ?thesis
    using True by (auto simp: round_even_def Let_def)
next
  case False
  have "\<lfloor>a\<rfloor> \<le> \<lfloor>b\<rfloor>"
    using assms by (rule floor_mono)
  with False have "\<lfloor>a\<rfloor> + 1 \<le> \<lfloor>b\<rfloor>"
    by simp
  moreover have "round_even a \<le> \<lfloor>a\<rfloor> + 1"
    using round_even_cases [of a] by auto
  moreover have "\<lfloor>b\<rfloor> \<le> round_even b"
    using round_even_cases [of b] by auto
  ultimately show ?thesis
    by linarith
qed

lemma bitlen_rat_bounds:
  assumes "0 < n"
  shows "(2::rat) ^ nat (bitlen n - 1) \<le> of_int n"
    and "of_int n + 1 \<le> (2::rat) ^ nat (bitlen n)"
    and "1 \<le> bitlen n"
proof -
  from bitlen_bounds [OF assms]
  have lo: "(2::int) ^ nat (bitlen n - 1) \<le> n" and hi: "n < 2 ^ nat (bitlen n)"
    by auto
  have "(of_int (2 ^ nat (bitlen n - 1)) :: rat) \<le> of_int n"
    using lo by (simp only: of_int_le_iff)
  then show "(2::rat) ^ nat (bitlen n - 1) \<le> of_int n"
    by simp
  have "n + 1 \<le> 2 ^ nat (bitlen n)"
    using hi by simp
  then have "(of_int (n + 1) :: rat) \<le> of_int (2 ^ nat (bitlen n))"
    by (simp only: of_int_le_iff)
  then show "of_int n + 1 \<le> (2::rat) ^ nat (bitlen n)"
    by simp
  show "1 \<le> bitlen n"
    using assms by (simp add: bitlen_alt_def)
qed

lemma binade_bounds:
  assumes "0 < x"
  shows "2 powi (binade x) \<le> x" and "x < 2 powi (binade x + 1)"
proof -
  have "2 powi (binade x) \<le> x \<and> x < 2 powi (binade x + 1)"
  proof (cases "1 \<le> x")
    case True
    define n where "n = \<lfloor>x\<rfloor>"
    have n: "0 < n" "of_int n \<le> x" "x < of_int n + 1"
      using True by (auto simp: n_def) linarith+
    note b = bitlen_rat_bounds [OF n(1)]
    have e: "binade x = bitlen n - 1"
      using True by (simp add: binade_def n_def)
    have p1: "(2::rat) powi (bitlen n - 1) = 2 ^ nat (bitlen n - 1)"
      using b(3) by (simp add: power_int_def)
    have p2: "(2::rat) powi (bitlen n - 1 + 1) = 2 ^ nat (bitlen n)"
      using b(3) by (simp add: power_int_def)
    show ?thesis
      unfolding e p1 p2 using n(2,3) b(1,2) by linarith
  next
    case False
    define y where "y = 1 / x"
    have y: "1 < y" "x = 1 / y"
      using False assms by (auto simp: y_def)
    define m where "m = \<lceil>y\<rceil> - 1"
    have m: "0 < m" "of_int m < y" "y \<le> of_int m + 1"
      using y(1) by (auto simp: m_def) linarith+
    note b = bitlen_rat_bounds [OF m(1)]
    have e: "binade x = - bitlen m"
      using False by (simp add: binade_def m_def y_def)
    have p1: "(2::rat) powi (- bitlen m) = 1 / 2 ^ nat (bitlen m)"
      using b(3) by (simp add: power_int_def field_simps)
    have p2: "(2::rat) powi (- bitlen m + 1) = 1 / 2 ^ nat (bitlen m - 1)"
      using b(3) by (simp add: power_int_def field_simps)
    have lt: "(2::rat) ^ nat (bitlen m - 1) < y"
      using b(1) m(2) by linarith
    have le: "y \<le> (2::rat) ^ nat (bitlen m)"
      using b(2) m(3) by linarith
    have "1 / 2 ^ nat (bitlen m) \<le> 1 / y"
      using le y(1) by (intro frac_le) auto
    moreover have "1 / y < 1 / 2 ^ nat (bitlen m - 1)"
      using lt by (intro frac_less2) auto
    ultimately have "1 / 2 ^ nat (bitlen m) \<le> x \<and> x < 1 / 2 ^ nat (bitlen m - 1)"
      by (simp only: y(2))
    then show ?thesis
      by (simp only: e p1 p2)
  qed
  then show "2 powi (binade x) \<le> x" and "x < 2 powi (binade x + 1)"
    by auto
qed

lemma round_double_pos:
  assumes "0 < x"
  shows "2 powi (binade x) \<le> round_double x" and "round_double x \<le> 2 powi (binade x + 1)"
proof -
  define u :: rat where "u = 2 powi (binade x - 52)"
  have u: "0 < u"
    by (simp add: u_def)
  have r: "round_double x = of_int (round_even (x / u)) * u"
    using assms by (simp add: round_double_def u_def Let_def)
  have s1: "2 powi (binade x) = 2 ^ 52 * u"
    by (simp add: u_def power_int_diff)
  have s2: "2 powi (binade x + 1) = 2 ^ 53 * u"
    by (simp add: u_def power_int_diff power_int_add)
  have "2 ^ 52 \<le> x / u"
    using binade_bounds(1) [OF assms] u by (simp add: s1 pos_le_divide_eq)
  then have "round_even (of_int (2 ^ 52)) \<le> round_even (x / u)"
    by (intro round_even_mono) simp
  then have lo: "2 ^ 52 \<le> round_even (x / u)"
    by (simp only: round_even_of_int)
  have "x / u \<le> 2 ^ 53"
    using binade_bounds(2) [OF assms] u by (simp add: s2 pos_divide_le_eq)
  then have "round_even (x / u) \<le> round_even (of_int (2 ^ 53))"
    by (intro round_even_mono) simp
  then have hi: "round_even (x / u) \<le> 2 ^ 53"
    by (simp only: round_even_of_int)
  have "(of_int (2 ^ 52) :: rat) \<le> of_int (round_even (x / u))"
    using lo by (simp only: of_int_le_iff)
  then have "(2::rat) ^ 52 \<le> of_int (round_even (x / u))"
    by simp
  then show "2 powi (binade x) \<le> round_double x"
    unfolding r s1 using u by (intro mult_right_mono) auto
  have "(of_int (round_even (x / u)) :: rat) \<le> of_int (2 ^ 53)"
    using hi by (simp only: of_int_le_iff)
  then have "of_int (round_even (x / u)) \<le> (2::rat) ^ 53"
    by simp
  then show "round_double x \<le> 2 powi (binade x + 1)"
    unfolding r s2 using u by (intro mult_right_mono) auto
qed

lemma round_double_nonneg:
  assumes "0 \<le> x"
  shows "0 \<le> round_double x"
proof (cases "x = 0")
  case True
  then show ?thesis
    by (simp add: round_double_def)
next
  case False
  with assms have "0 < x"
    by simp
  from round_double_pos(1) [OF this] have "(2::rat) powi binade x \<le> round_double x" .
  moreover have "0 < (2::rat) powi binade x"
    by simp
  ultimately show ?thesis
    by linarith
qed

lemma binade_mono:
  assumes "0 < x" "x \<le> y"
  shows "binade x \<le> binade y"
proof (rule ccontr)
  assume "\<not> binade x \<le> binade y"
  then have "binade y + 1 \<le> binade x"
    by simp
  then have "(2::rat) powi (binade y + 1) \<le> 2 powi binade x"
    by (intro power_int_increasing) auto
  moreover have "2 powi binade x \<le> x"
    by (rule binade_bounds(1) [OF assms(1)])
  moreover have "y < 2 powi (binade y + 1)"
    using assms by (intro binade_bounds(2)) simp
  ultimately show False
    using assms(2) by linarith
qed

lemma round_double_mono:
  assumes "0 \<le> x" "x \<le> y"
  shows "round_double x \<le> round_double y"
proof (cases "x = 0")
  case True
  then show ?thesis
    using assms round_double_nonneg [of y] by (simp add: round_double_def)
next
  case False
  with assms have x: "0 < x" and y: "0 < y"
    by auto
  have le: "binade x \<le> binade y"
    using x assms(2) by (rule binade_mono)
  show ?thesis
  proof (cases "binade x = binade y")
    case True
    define u :: rat where "u = 2 powi (binade x - 52)"
    have u: "0 < u"
      by (simp add: u_def)
    have "x / u \<le> y / u"
      using assms(2) u by (simp add: divide_right_mono)
    then have "round_even (x / u) \<le> round_even (y / u)"
      by (rule round_even_mono)
    then have "(of_int (round_even (x / u)) :: rat) \<le> of_int (round_even (y / u))"
      by (simp only: of_int_le_iff)
    then have "(of_int (round_even (x / u)) :: rat) * u \<le> of_int (round_even (y / u)) * u"
      using u by (intro mult_right_mono) auto
    then show ?thesis
      using x y True by (simp add: round_double_def u_def Let_def)
  next
    case False
    with le have "binade x + 1 \<le> binade y"
      by simp
    then have "(2::rat) powi (binade x + 1) \<le> 2 powi (binade y)"
      by (intro power_int_increasing) auto
    with round_double_pos(2) [OF x] round_double_pos(1) [OF y] show ?thesis
      by linarith
  qed
qed

section \<open>The generated code\<close>

lemma random_product_bounds:
  assumes "0 \<le> r" "r \<le> 1 - 1 / 2 ^ 53"
  shows "0 \<le> js_mul r 900000" and "js_mul r 900000 \<le> 900000 - 1 / 2 ^ 33"
proof -
  show "0 \<le> js_mul r 900000"
    unfolding js_mul_def using assms(1) by (intro round_double_nonneg) simp
  have "r * 900000 \<le> (1 - 1 / 2 ^ 53) * 900000"
    using assms(2) by (intro mult_right_mono) auto
  moreover have "0 \<le> r * 900000"
    using assms(1) by simp
  ultimately have "round_double (r * 900000) \<le> round_double ((1 - 1 / 2 ^ 53) * 900000)"
    by (intro round_double_mono)
  moreover have "round_double ((1 - 1 / 2 ^ 53) * 900000) = 900000 - 1 / 2 ^ 33"
    by code_simp
  ultimately show "js_mul r 900000 \<le> 900000 - 1 / 2 ^ 33"
    by (simp only: js_mul_def)
qed

lemma random_code_bounds:
  assumes "0 \<le> r" "r \<le> 1 - 1 / 2 ^ 53"
  shows "100000 \<le> Math_floor (js_add 100000 (js_mul r 900000))"
    and "Math_floor (js_add 100000 (js_mul r 900000)) \<le> 999999"
proof -
  define p where "p = js_mul r 900000"
  have p: "0 \<le> p" "p \<le> 900000 - 1 / 2 ^ 33"
    unfolding p_def using assms by (rule random_product_bounds)+
  have "round_double 100000 \<le> round_double (100000 + p)"
    using p(1) by (intro round_double_mono) auto
  moreover have "round_double 100000 = 100000"
    by code_simp
  ultimately have lo: "100000 \<le> js_add 100000 p"
    by (simp only: js_add_def)
  have "round_double (100000 + p) \<le> round_double (1000000 - 1 / 2 ^ 33)"
    using p by (intro round_double_mono) auto
  moreover have "round_double (1000000 - 1 / 2 ^ 33) = 1000000 - 1 / 2 ^ 33"
    by code_simp
  ultimately have hi: "js_add 100000 p \<le> 1000000 - 1 / 2 ^ 33"
    by (simp only: js_add_def)
  have "(of_int 100000 :: rat) \<le> js_add 100000 p"
    using lo by simp
  then show "100000 \<le> Math_floor (js_add 100000 (js_mul r 900000))"
    unfolding Math_floor_def p_def [symmetric] by (simp only: le_floor_iff)
  have "js_add 100000 p < of_int 999999 + 1"
    using hi by simp
  then have "\<lfloor>js_add 100000 p\<rfloor> < 999999 + 1"
    by (simp only: floor_less_iff of_int_add of_int_1)
  then show "Math_floor (js_add 100000 (js_mul r 900000)) \<le> 999999"
    unfolding Math_floor_def p_def [symmetric] by simp
qed

section \<open>The error of the rounding\<close>

lemma round_even_error: "\<bar>of_int (round_even q) - q\<bar> \<le> 1 / 2"
proof -
  have "of_int \<lfloor>q\<rfloor> \<le> q" "q < of_int \<lfloor>q\<rfloor> + 1"
    by linarith+
  then show ?thesis
    by (auto simp: round_even_def Let_def)
qed

lemma round_double_minus: "round_double (- x) = - round_double x"
  by (simp add: round_double_def Let_def)

lemma round_double_error_pos:
  assumes "0 < x"
  shows "\<bar>round_double x - x\<bar> \<le> x / 2 ^ 53"
proof -
  define u :: rat where "u = 2 powi (binade x - 52)"
  have u: "0 < u"
    by (simp add: u_def)
  have r: "round_double x = of_int (round_even (x / u)) * u"
    using assms by (simp add: round_double_def u_def Let_def)
  have "2 powi (binade x) = 2 ^ 52 * u"
    by (simp add: u_def power_int_diff)
  with binade_bounds(1) [OF assms] have ux: "2 ^ 52 * u \<le> x"
    by simp
  have "round_double x - x = (of_int (round_even (x / u)) - x / u) * u"
    using u by (simp add: r field_simps)
  then have "\<bar>round_double x - x\<bar> = \<bar>of_int (round_even (x / u)) - x / u\<bar> * u"
    using u by (simp add: abs_mult)
  also have "\<dots> \<le> (1 / 2) * u"
    using u round_even_error [of "x / u"] by (intro mult_right_mono) auto
  also have "\<dots> \<le> x / 2 ^ 53"
    using ux by simp
  finally show ?thesis .
qed

lemma round_double_error: "\<bar>round_double x - x\<bar> \<le> \<bar>x\<bar> / 2 ^ 53"
proof -
  consider "x = 0" | "0 < x" | "x < 0"
    by linarith
  then show ?thesis
  proof cases
    case 1
    then show ?thesis
      by (simp add: round_double_def)
  next
    case 2
    with round_double_error_pos [OF 2] show ?thesis
      by simp
  next
    case 3
    then have "0 < - x"
      by simp
    from round_double_error_pos [OF this] 3 show ?thesis
      by (simp add: round_double_minus)
  qed
qed

lemma binade_less:
  assumes "0 < x" "x < 2 ^ n"
  shows "binade x < int n"
proof (rule ccontr)
  assume "\<not> binade x < int n"
  then have "int n \<le> binade x"
    by simp
  then have "(2::rat) powi (int n) \<le> 2 powi binade x"
    by (intro power_int_increasing) auto
  with binade_bounds(1) [OF assms(1)] assms(2) show False
    by simp
qed

lemma round_double_half_pos:
  assumes "0 < x" "x < 2 ^ 52" "x = of_int n / 2"
  shows "round_double x = x"
proof -
  define e where "e = binade x"
  have e: "e < 52"
    using binade_less [OF assms(1,2)] by (simp add: e_def)
  define u :: rat where "u = 2 powi (e - 52)"
  have u: "0 < u"
    by (simp add: u_def)
  have iu: "1 / u = 2 * 2 ^ nat (51 - e)"
  proof -
    have n: "nat (52 - e) = Suc (nat (51 - e))"
      using e by simp
    have "1 / u = 2 powi (52 - e)"
      by (simp add: u_def power_int_diff)
    also have "\<dots> = 2 ^ nat (52 - e)"
      using e by (simp add: power_int_def)
    also have "\<dots> = 2 * 2 ^ nat (51 - e)"
      by (simp only: n power_Suc)
    finally show ?thesis .
  qed
  have "x / u = x * (1 / u)"
    by simp
  also have "\<dots> = of_int n * 2 ^ nat (51 - e)"
    by (simp add: iu assms(3))
  also have "\<dots> = of_int (n * 2 ^ nat (51 - e))"
    by simp
  finally have q: "x / u = of_int (n * 2 ^ nat (51 - e))" .
  have "round_double x = of_int (round_even (x / u)) * u"
    using assms(1) by (simp add: round_double_def u_def e_def Let_def)
  also have "\<dots> = (x / u) * u"
    by (simp only: q round_even_of_int)
  also have "\<dots> = x"
    using u by simp
  finally show ?thesis .
qed

lemma round_double_half:
  assumes "\<bar>x\<bar> < 2 ^ 52" "x = of_int n / 2"
  shows "round_double x = x"
proof -
  consider "x = 0" | "0 < x" | "x < 0"
    by linarith
  then show ?thesis
  proof cases
    case 1
    then show ?thesis
      by (simp add: round_double_def)
  next
    case 2
    with assms show ?thesis
      by (intro round_double_half_pos [where n = n]) auto
  next
    case 3
    have "round_double (- x) = - x"
      using 3 assms by (intro round_double_half_pos [where n = "- n"]) auto
    then show ?thesis
      by (simp add: round_double_minus)
  qed
qed

text \<open>
  The elapsed minutes: the quotient by 60000 is rounded once, and \<^verbatim>\<open>Math.round\<close> of it is
  the nearest integer of the exact quotient, a tie going up.
\<close>

lemma timeTakenMinutes_exact:
  assumes "\<bar>endTime - startTime\<bar> < 2 ^ 53"
  shows "timeTakenMinutes endTime startTime = (endTime - startTime + 30000) div 60000"
proof -
  define d where "d = endTime - startTime"
  define x :: rat where "x = of_int d / 60000"
  define k where "k = (d + 30000) div 60000"
  define y where "y = round_double x"
  have dk: "60000 * k \<le> d + 30000" "d + 30000 < 60000 * k + 60000"
  proof -
    have "d + 30000 = 60000 * k + (d + 30000) mod 60000"
      by (simp add: k_def)
    moreover have "0 \<le> (d + 30000) mod 60000" "(d + 30000) mod 60000 < 60000"
      by simp_all
    ultimately show "60000 * k \<le> d + 30000" "d + 30000 < 60000 * k + 60000"
      by linarith+
  qed
  have ax: "\<bar>x\<bar> < 2 ^ 53 / 60000"
  proof -
    have "\<bar>of_int d :: rat\<bar> < of_int (2 ^ 53)"
      using assms unfolding d_def [symmetric] by (simp only: of_int_abs [symmetric] of_int_less_iff)
    then show ?thesis
      by (simp add: x_def)
  qed
  have err: "\<bar>y - x\<bar> < 1 / 60000"
  proof -
    have "\<bar>y - x\<bar> \<le> \<bar>x\<bar> / 2 ^ 53"
      unfolding y_def by (rule round_double_error)
    also have "\<dots> < (2 ^ 53 / 60000) / 2 ^ 53"
      using ax by (intro divide_strict_right_mono) auto
    finally show ?thesis
      by simp
  qed
  have hi: "y + 1 / 2 < of_int k + 1"
  proof -
    have "d \<le> 60000 * k + 29999"
      using dk(2) by simp
    then have "(of_int d :: rat) \<le> of_int (60000 * k + 29999)"
      by (simp only: of_int_le_iff)
    then have "x \<le> of_int k + 1 / 2 - 1 / 60000"
      by (simp add: x_def field_simps)
    with err show ?thesis
      by linarith
  qed
  have lo: "of_int k \<le> y + 1 / 2"
  proof (cases "d = 60000 * k - 30000")
    case True
    then have xk: "x = of_int (2 * k - 1) / 2"
      by (simp add: x_def field_simps)
    have "\<bar>x\<bar> < 2 ^ 52"
      using ax by simp
    then have "y = x"
      unfolding y_def using xk by (rule round_double_half)
    then show ?thesis
      by (simp add: xk field_simps)
  next
    case False
    with dk(1) have "60000 * k - 29999 \<le> d"
      by simp
    then have "(of_int (60000 * k - 29999) :: rat) \<le> of_int d"
      by (simp only: of_int_le_iff)
    then have "of_int k - 1 / 2 + 1 / 60000 \<le> x"
      by (simp add: x_def field_simps)
    with err show ?thesis
      by linarith
  qed
  have "\<lfloor>y + 1 / 2\<rfloor> = k"
    using lo hi by (rule floor_unique)
  then show ?thesis
    by (simp add: timeTakenMinutes_def Math_round_def js_div_def y_def x_def d_def k_def)
qed

section \<open>The efficiency score\<close>

lemma efficiencyScore_range:
  assumes "0 \<le> bins"
  shows "0 \<le> efficiencyScore bins minutes" and "efficiencyScore bins minutes \<le> 100"
proof -
  have "(0::rat) \<le> of_int bins / of_int (max 1 minutes)"
    using assms by simp
  then have "0 \<le> js_div (of_int bins) (of_int (max 1 minutes))"
    unfolding js_div_def by (rule round_double_nonneg)
  then have "0 \<le> js_div (of_int bins) (of_int (max 1 minutes)) * 60"
    by simp
  then have "0 \<le> js_mul (js_div (of_int bins) (of_int (max 1 minutes))) 60"
    unfolding js_mul_def by (rule round_double_nonneg)
  then have "0 \<le> Math_round (js_mul (js_div (of_int bins) (of_int (max 1 minutes))) 60)"
    by (simp add: Math_round_def)
  then show "0 \<le> efficiencyScore bins minutes"
    by (simp add: efficiencyScore_def)
  show "efficiencyScore bins minutes \<le> 100"
    by (simp add: efficiencyScore_def)
qed

lemma Math_round_zero: "Math_round 0 = 0"
  unfolding Math_round_def by (intro floor_unique) simp_all

lemma efficiencyScore_zero: "efficiencyScore 0 minutes = 0"
  by (simp add: efficiencyScore_def js_div_def js_mul_def round_double_def Math_round_zero)

lemma efficiencyScore_examples:
  "efficiencyScore 5 120 = 3" "efficiencyScore 60 1 = 100" "efficiencyScore 2 120 = 1"
  by code_simp+

lemma Score_spec_zero: "Score_spec 0 minutes = 0"
proof -
  have "\<lfloor>1 / 2 :: rat\<rfloor> = 0"
    by (intro floor_unique) simp_all
  then show ?thesis
    by (simp add: Score_spec_def)
qed

lemma score_error:
  assumes "0 < bins" "bins < 2 ^ 31" "1 \<le> m"
  shows "\<bar>js_mul (js_div (of_int bins) (of_int m)) 60 - of_int bins / of_int m * 60\<bar>
    < 1 / (2 * of_int m)"
proof -
  define p :: rat where "p = of_int bins / of_int m"
  define q where "q = round_double p"
  define z where "z = q * 60"
  define y where "y = round_double z"
  have m: "(0::rat) < of_int m"
    using assms(3) by simp
  have p: "0 < p"
    using assms(1) m by (simp add: p_def)
  have q: "\<bar>q - p\<bar> \<le> p / 2 ^ 53"
    unfolding q_def using p by (rule round_double_error_pos)
  have q0: "0 \<le> q"
    unfolding q_def using p by (intro round_double_nonneg) simp
  have zp: "\<bar>z - p * 60\<bar> \<le> 60 * p / 2 ^ 53"
  proof -
    have "z - p * 60 = (q - p) * 60"
      by (simp add: z_def algebra_simps)
    then have "\<bar>z - p * 60\<bar> = \<bar>(q - p) * 60\<bar>"
      by (rule arg_cong)
    also have "\<dots> = \<bar>q - p\<bar> * 60"
      by (simp only: abs_mult abs_numeral)
    also have "\<dots> \<le> (p / 2 ^ 53) * 60"
      using q by (intro mult_right_mono) auto
    also have "\<dots> = 60 * p / 2 ^ 53"
      by simp
    finally show ?thesis .
  qed
  have z0: "0 \<le> z"
    using q0 by (simp add: z_def)
  have "z \<le> p * 60 + 60 * p / 2 ^ 53"
    using zp by linarith
  also have "\<dots> \<le> 120 * p"
    using p by simp
  finally have z2: "z \<le> 120 * p" .
  have "\<bar>y - z\<bar> \<le> \<bar>z\<bar> / 2 ^ 53"
    unfolding y_def by (rule round_double_error)
  also have "\<dots> \<le> 120 * p / 2 ^ 53"
    using z0 z2 by (simp add: divide_right_mono)
  finally have yz: "\<bar>y - z\<bar> \<le> 120 * p / 2 ^ 53" .
  have "\<bar>y - p * 60\<bar> \<le> \<bar>y - z\<bar> + \<bar>z - p * 60\<bar>"
    by linarith
  also have "\<dots> \<le> 180 * p / 2 ^ 53"
    using yz zp by linarith
  finally have total: "\<bar>y - p * 60\<bar> \<le> 180 * p / 2 ^ 53" .
  have "(of_int (360 * bins) :: rat) < of_int (2 ^ 53)"
    using assms(2) by (simp only: of_int_less_iff) simp
  then have "360 * (of_int bins :: rat) < 2 ^ 53"
    by simp
  then have "360 * (of_int bins :: rat) / 2 ^ 53 < 1"
    by simp
  moreover have "(0::rat) < 1 / (2 * of_int m)"
    using m by simp
  ultimately have "(360 * (of_int bins :: rat) / 2 ^ 53) * (1 / (2 * of_int m))
      < 1 * (1 / (2 * of_int m))"
    by (rule mult_strict_right_mono)
  moreover have "180 * p / 2 ^ 53 = (360 * of_int bins / 2 ^ 53) * (1 / (2 * of_int m))"
    using m by (simp add: p_def)
  ultimately have "180 * p / 2 ^ 53 < 1 / (2 * of_int m)"
    by simp
  with total have "\<bar>y - p * 60\<bar> < 1 / (2 * of_int m)"
    by linarith
  then show ?thesis
    by (simp add: y_def z_def q_def p_def js_mul_def js_div_def)
qed

text \<open>
  The rounded score and the rounded exact rate: they differ by at most one, and not at all
  unless the exact rate is halfway between two integers.
\<close>

lemma score_round:
  assumes "0 < bins" "bins < 2 ^ 31" "1 \<le> m"
  shows "Math_round (js_mul (js_div (of_int bins) (of_int m)) 60)
      \<le> \<lfloor>of_int bins / of_int m * 60 + 1 / (2 :: rat)\<rfloor>"
    and "\<lfloor>of_int bins / of_int m * 60 + 1 / (2 :: rat)\<rfloor> - 1
      \<le> Math_round (js_mul (js_div (of_int bins) (of_int m)) 60)"
    and "(\<And>j. 120 * bins \<noteq> (2 * j + 1) * m) \<Longrightarrow>
      Math_round (js_mul (js_div (of_int bins) (of_int m)) 60)
        = \<lfloor>of_int bins / of_int m * 60 + 1 / (2 :: rat)\<rfloor>"
proof -
  have mr: "(0::rat) < of_int m"
    using assms(3) by simp
  define N where "N = 120 * bins"
  define X :: rat where "X = of_int bins / of_int m * 60"
  define y where "y = js_mul (js_div (of_int bins) (of_int m)) 60"
  define k where "k = \<lfloor>X + 1 / 2\<rfloor>"
  define W :: rat where "W = 2 * of_int m"
  have W: "0 < W" "2 \<le> W"
    using assms(3) by (simp_all add: W_def)
  have W1: "1 / W \<le> 1 / 2"
    using W by (simp add: field_simps)
  have XW: "X * W = of_int N"
    using mr by (simp add: X_def N_def W_def)
  have err: "\<bar>y - X\<bar> < 1 / W"
    unfolding y_def X_def W_def using assms by (rule score_error)
  have k: "of_int k \<le> X + 1 / 2" "X + 1 / 2 < of_int k + 1"
    unfolding k_def by linarith+
  have kW: "(of_int k - 1 / 2) * W = of_int ((2 * k - 1) * m)"
    "(of_int k + 1 / 2) * W = of_int ((2 * k + 1) * m)"
    by (simp_all add: W_def algebra_simps)
  have "X * W < (of_int k + 1 / 2) * W"
    using k(2) W(1) by (intro mult_strict_right_mono) auto
  then have "(of_int N :: rat) < of_int ((2 * k + 1) * m)"
    by (simp only: kW XW)
  then have "N < (2 * k + 1) * m"
    by (simp only: of_int_less_iff)
  then have "N + 1 \<le> (2 * k + 1) * m"
    by simp
  then have "(of_int (N + 1) :: rat) \<le> of_int ((2 * k + 1) * m)"
    by (simp only: of_int_le_iff)
  then have "X * W + 1 \<le> (of_int k + 1 / 2) * W"
    by (simp only: kW XW of_int_add of_int_1)
  moreover have "(X + 1 / W) * W = X * W + 1"
    using W(1) by (simp add: distrib_right)
  ultimately have "(X + 1 / W) * W \<le> (of_int k + 1 / 2) * W"
    by simp
  then have hi: "X + 1 / W \<le> of_int k + 1 / 2"
    using W(1) by (simp only: mult_le_cancel_right_pos)
  have up: "y + 1 / 2 < of_int k + 1"
    using err hi by linarith
  then have "\<lfloor>y + 1 / 2\<rfloor> < k + 1"
    by (simp only: floor_less_iff of_int_add of_int_1)
  then show "Math_round (js_mul (js_div (of_int bins) (of_int m)) 60)
      \<le> \<lfloor>of_int bins / of_int m * 60 + 1 / (2 :: rat)\<rfloor>"
    by (simp add: Math_round_def y_def k_def X_def)
  have "of_int (k - 1) \<le> y + 1 / 2"
    using err k(1) W1 by simp
  then have "k - 1 \<le> \<lfloor>y + 1 / 2\<rfloor>"
    by (simp only: le_floor_iff)
  then show "\<lfloor>of_int bins / of_int m * 60 + 1 / (2 :: rat)\<rfloor> - 1
      \<le> Math_round (js_mul (js_div (of_int bins) (of_int m)) 60)"
    by (simp add: Math_round_def y_def k_def X_def)
  assume no_tie: "\<And>j. 120 * bins \<noteq> (2 * j + 1) * m"
  have "(of_int k - 1 / 2) * W \<le> X * W"
    using k(1) W(1) by (intro mult_right_mono) auto
  then have "(of_int ((2 * k - 1) * m) :: rat) \<le> of_int N"
    by (simp only: kW XW)
  then have "(2 * k - 1) * m \<le> N"
    by (simp only: of_int_le_iff)
  with no_tie [of "k - 1"] have "(2 * k - 1) * m + 1 \<le> N"
    by (simp add: N_def)
  then have "(of_int ((2 * k - 1) * m + 1) :: rat) \<le> of_int N"
    by (simp only: of_int_le_iff)
  then have "(of_int k - 1 / 2) * W + 1 \<le> X * W"
    by (simp only: kW XW of_int_add of_int_1)
  moreover have "(of_int k - 1 / 2 + 1 / W) * W = (of_int k - 1 / 2) * W + 1"
    using W(1) by (simp add: distrib_right)
  ultimately have "(of_int k - 1 / 2 + 1 / W) * W \<le> X * W"
    by simp
  then have lo: "of_int k - 1 / 2 + 1 / W \<le> X"
    using W(1) by (simp only: mult_le_cancel_right_pos)
  have "of_int k \<le> y + 1 / 2"
    using err lo by linarith
  then have "\<lfloor>y + 1 / 2\<rfloor> = k"
    using up by (rule floor_unique)
  then show "Math_round (js_mul (js_div (of_int bins) (of_int m)) 60)
      = \<lfloor>of_int bins / of_int m * 60 + 1 / (2 :: rat)\<rfloor>"
    by (simp add: Math_round_def y_def k_def X_def)
qed

lemma efficiencyScore_near:
  assumes "0 \<le> bins" "bins < 2 ^ 31"
  shows "efficiencyScore bins minutes \<le> Score_spec bins minutes"
    and "Score_spec bins minutes - 1 \<le> efficiencyScore bins minutes"
proof -
  have "efficiencyScore bins minutes \<le> Score_spec bins minutes \<and>
    Score_spec bins minutes - 1 \<le> efficiencyScore bins minutes"
  proof (cases "bins = 0")
    case True
    then show ?thesis
      by (simp add: efficiencyScore_zero Score_spec_zero)
  next
    case False
    with assms(1) have b: "0 < bins"
      by simp
    have m1: "1 \<le> max 1 minutes"
      by simp
    from score_round(1,2) [OF b assms(2) m1] show ?thesis
      unfolding efficiencyScore_def Score_spec_def by linarith
  qed
  then show "efficiencyScore bins minutes \<le> Score_spec bins minutes"
    and "Score_spec bins minutes - 1 \<le> efficiencyScore bins minutes"
    by simp_all
qed

lemma efficiencyScore_exact:
  assumes "0 \<le> bins" "bins < 2 ^ 31" "\<not> half_integer_rate bins minutes"
  shows "efficiencyScore bins minutes = Score_spec bins minutes"
proof (cases "bins = 0")
  case True
  then show ?thesis
    by (simp add: efficiencyScore_zero Score_spec_zero)
next
  case False
  with assms(1) have b: "0 < bins"
    by simp
  define m where "m = max 1 minutes"
  have m1: "1 \<le> m"
    by (simp add: m_def)
  have no_tie: "120 * bins \<noteq> (2 * j + 1) * m" for j
  proof
    assume "120 * bins = (2 * j + 1) * m"
    then have "(120 * bins) mod m = 0" "(120 * bins) div m = 2 * j + 1"
      using m1 by simp_all
    then have "half_integer_rate bins minutes"
      by (simp add: half_integer_rate_def m_def [symmetric] Let_def)
    with assms(3) show False
      by simp
  qed
  from score_round(3) [OF b assms(2) m1 no_tie] show ?thesis
    by (simp add: efficiencyScore_def Score_spec_def m_def)
qed

text \<open>
  C3. The score is an integer from 0 to 100, it is 0 for zero bins, and the examples of the
  specification hold. The score is the formula of the specification except at some rates
  that lie exactly halfway between two integers: 41 bins in 40 minutes are 61.5 bins an
  hour, which the formula rounds to 62; the code divides first, \<open>41 / 40\<close> is rounded
  down to the nearest binary64 number, the product with 60 is \<open>61.49999999999999\<close>, and
  the score stored is 61.
\<close>

theorem score_of_41_bins_in_40_minutes:
  "efficiencyScore 41 40 = 61 \<and> Score_spec 41 40 = 62 \<and> half_integer_rate 41 40"
proof -
  have "efficiencyScore 41 40 = 61"
    by code_simp
  moreover have "Score_spec 41 40 = 62"
    by (simp add: Score_spec_def)
  moreover have "half_integer_rate 41 40"
    by (simp add: half_integer_rate_def)
  ultimately show ?thesis
    by simp
qed

section \<open>Evaluations on the small store\<close>

lemmas demo_users = demo_team_leader_def demo_worker_def demo_pending_worker_def

lemma generateOTP_half: "generateOTP (1 / 2) = ''550000''"
proof -
  have "Math_floor (js_add 100000 (js_mul (1 / 2) 900000)) = 550000"
    by code_simp
  moreover have "Number_toString 550000 = ''550000''"
    by (simp add: Number_toString_def digits.simps digit_char_def)
  ultimately show ?thesis
    by (simp only: generateOTP_def)
qed

lemma otp_requests_issued_once:
  "otp_requests issued_once = [demo_request]"
  by (simp add: issued_once_def createOTPRequest_def generateOTP_half user_exists_def
      demo_store_def demo_users fresh_id_def demo_request_def Let_def)

lemma otp_requests_issued_twice:
  "otp_requests issued_twice = [demo_request, demo_request\<lparr>otp_id := 2\<rparr>]"
  by (simp add: issued_twice_def issued_once_def createOTPRequest_def generateOTP_half
      user_exists_def demo_store_def demo_users fresh_id_def Let_def
      demo_request_def)

section \<open>Verification: failure leaves the store alone\<close>

lemma single_Inr_iff: "single rs = Inr r \<longleftrightarrow> rs = [r]"
  by (cases rs rule: single.cases) auto

lemma single_Inl_iff: "single rs = Inl e \<longleftrightarrow> e = NotSingleRow \<and> (\<forall>r. rs \<noteq> [r])"
  by (cases rs rule: single.cases) auto

lemma verifyOTP_success:
  "verifyOTP now st w c = (Inr r, st') \<longleftrightarrow>
     filter (eligible now w c) (otp_requests st) = [r] \<and>
     st' = st\<lparr>otp_requests := mark_used (otp_id r) (otp_requests st)\<rparr>"
  by (auto simp: verifyOTP_def single_Inr_iff split: sum.splits)

lemma verifyOTP_failure:
  "(\<forall>r. filter (eligible now w c) (otp_requests st) \<noteq> [r]) \<Longrightarrow>
     verifyOTP now st w c = (Inl InvalidOrExpiredOTP, st)"
  by (auto simp: verifyOTP_def single_Inr_iff split: sum.splits)

lemma verifyOTP_cases:
  "(\<exists>r. verifyOTP now st w c =
          (Inr r, st\<lparr>otp_requests := mark_used (otp_id r) (otp_requests st)\<rparr>)) \<or>
   verifyOTP now st w c = (Inl InvalidOrExpiredOTP, st)"
  by (auto simp: verifyOTP_def split: sum.splits)

lemma eligible_in_filter:
  assumes "filter (eligible now w c) rs = [r]"
  shows "r \<in> set rs" and "eligible now w c r"
    and "\<And>x. x \<in> set rs \<Longrightarrow> eligible now w c x \<Longrightarrow> x = r"
proof -
  have s: "set (filter (eligible now w c) rs) = {r}"
    using assms by simp
  then show "r \<in> set rs" and "eligible now w c r"
    by auto
  fix x assume "x \<in> set rs" "eligible now w c x"
  then have "x \<in> set (filter (eligible now w c) rs)"
    by simp
  with s show "x = r"
    by simp
qed

lemma none_eligible_after_use:
  assumes one: "filter (eligible now w c) rs = [r]" and later: "now \<le> now'"
  shows "filter (eligible now' w c) (mark_used (otp_id r) rs) = []"
proof -
  have "\<not> eligible now' w c y" if y: "y \<in> set (mark_used (otp_id r) rs)" for y
  proof
    assume e: "eligible now' w c y"
    from y obtain x where x: "x \<in> set rs"
      and yx: "y = (if otp_id x = otp_id r then x\<lparr>is_used := True\<rparr> else x)"
      by (auto simp: mark_used_def)
    from e have unused: "is_used y = False"
      by (simp add: eligible_def)
    with yx have ne: "otp_id x \<noteq> otp_id r" and "y = x"
      by (auto split: if_splits)
    with e later have "eligible now w c x"
      by (simp add: eligible_def)
    with x have "x = r"
      by (rule eligible_in_filter(3) [OF one])
    with ne show False
      by simp
  qed
  then show ?thesis
    by (simp add: filter_empty_conv)
qed

lemma used_after_verify:
  assumes "r \<in> set rs"
  shows "r\<lparr>is_used := True\<rparr> \<in> set (mark_used (otp_id r) rs)"
    and "list_all (\<lambda>y. otp_id y \<noteq> otp_id r \<or> is_used y) (mark_used (otp_id r) rs)"
proof -
  show "r\<lparr>is_used := True\<rparr> \<in> set (mark_used (otp_id r) rs)"
    using assms by (force simp: mark_used_def)
  show "list_all (\<lambda>y. otp_id y \<noteq> otp_id r \<or> is_used y) (mark_used (otp_id r) rs)"
    by (auto simp: mark_used_def list_all_iff)
qed

lemma handler_changes_users:
  assumes "users (fst (snd (handleOTPVerification now st d))) \<noteq> users st"
  shows "\<exists>u r. selectedWorker d = Some u \<and>
           fst (verifyOTP now st (u_id u) (enteredOTP d)) = Inr r"
proof (cases "selectedWorker d")
  case None
  with assms show ?thesis
    by (simp add: handleOTPVerification_def)
next
  case (Some u)
  from verifyOTP_cases [of now st "u_id u" "enteredOTP d"] show ?thesis
  proof
    assume "\<exists>r. verifyOTP now st (u_id u) (enteredOTP d) =
      (Inr r, st\<lparr>otp_requests := mark_used (otp_id r) (otp_requests st)\<rparr>)"
    with Some show ?thesis
      by auto
  next
    assume "verifyOTP now st (u_id u) (enteredOTP d) = (Inl InvalidOrExpiredOTP, st)"
    with Some assms show ?thesis
      by (simp add: handleOTPVerification_def)
  qed
qed

text \<open>
  C10. When \<^verbatim>\<open>verifyOTP\<close> fails the store is unchanged: no request is marked used, and
  the handler that called it reports the failure without touching the \<^verbatim>\<open>users\<close> table, so
  no approval flag is modified. In particular this is what happens when no unused,
  unexpired request matches the worker and the code. The handler changes \<^verbatim>\<open>users\<close> only
  when \<^verbatim>\<open>verifyOTP\<close> has returned a request.
\<close>

theorem verify_failure_leaves_store:
  "(fst (verifyOTP now st w c) = Inl e \<longrightarrow> snd (verifyOTP now st w c) = st) \<and>
   (filter (eligible now w c) (otp_requests st) = [] \<longrightarrow>
      verifyOTP now st w c = (Inl InvalidOrExpiredOTP, st)) \<and>
   (selectedWorker d = Some u \<and> fst (verifyOTP now st (u_id u) (enteredOTP d)) = Inl e \<longrightarrow>
      handleOTPVerification now st d = (Some InvalidOrExpired, st, d)) \<and>
   (users (fst (snd (handleOTPVerification now st d))) \<noteq> users st \<longrightarrow>
      (\<exists>u r. selectedWorker d = Some u \<and>
             fst (verifyOTP now st (u_id u) (enteredOTP d)) = Inr r))"
proof (intro conjI impI)
  assume "fst (verifyOTP now st w c) = Inl e"
  then show "snd (verifyOTP now st w c) = st"
    using verifyOTP_cases [of now st w c] by auto
next
  assume "filter (eligible now w c) (otp_requests st) = []"
  then show "verifyOTP now st w c = (Inl InvalidOrExpiredOTP, st)"
    by (simp add: verifyOTP_failure)
next
  assume "selectedWorker d = Some u \<and> fst (verifyOTP now st (u_id u) (enteredOTP d)) = Inl e"
  then show "handleOTPVerification now st d = (Some InvalidOrExpired, st, d)"
    using verifyOTP_cases [of now st "u_id u" "enteredOTP d"]
    by (auto simp: handleOTPVerification_def)
next
  assume "users (fst (snd (handleOTPVerification now st d))) \<noteq> users st"
  then show "\<exists>u r. selectedWorker d = Some u \<and>
             fst (verifyOTP now st (u_id u) (enteredOTP d)) = Inr r"
    by (rule handler_changes_users)
qed

theorem verify_failure_leaves_store_witness:
  "fst (verifyOTP 0 issued_once 3 ''123456'') = Inl InvalidOrExpiredOTP \<and>
   snd (verifyOTP 0 issued_once 3 ''123456'') = issued_once \<and>
   filter (eligible 0 3 ''123456'') (otp_requests issued_once) = [] \<and>
   verifyOTP 0 issued_once 3 ''123456'' = (Inl InvalidOrExpiredOTP, issued_once) \<and>
   selectedWorker (demo_dialog ''123456'') = Some demo_pending_worker \<and>
   handleOTPVerification 0 issued_once (demo_dialog ''123456'') =
     (Some InvalidOrExpired, issued_once, demo_dialog ''123456'') \<and>
   users (fst (snd (handleOTPVerification 0 issued_once (demo_dialog ''550000'')))) \<noteq>
     users issued_once \<and>
   (\<exists>u r. selectedWorker (demo_dialog ''550000'') = Some u \<and>
      fst (verifyOTP 0 issued_once (u_id u) (enteredOTP (demo_dialog ''550000''))) = Inr r)"
proof -
  have h: "filter (eligible 0 3 ''123456'') (otp_requests issued_once) = []"
    by (simp add: otp_requests_issued_once eligible_def demo_request_def)
  have f: "verifyOTP 0 issued_once 3 ''123456'' = (Inl InvalidOrExpiredOTP, issued_once)"
    using h by (simp add: verifyOTP_def)
  have d: "selectedWorker (demo_dialog ''123456'') = Some demo_pending_worker"
    "enteredOTP (demo_dialog ''123456'') = ''123456''" "u_id demo_pending_worker = 3"
    by (simp_all add: demo_dialog_def demo_pending_worker_def)
  have u: "users issued_once = [demo_team_leader, demo_worker, demo_pending_worker]"
    by (simp add: issued_once_def createOTPRequest_def demo_store_def user_exists_def
        demo_users Let_def)
  have ok: "verifyOTP 0 issued_once 3 ''550000'' =
      (Inr demo_request, issued_once\<lparr>otp_requests := [demo_request\<lparr>is_used := True\<rparr>]\<rparr>)"
    by (simp add: verifyOTP_def otp_requests_issued_once eligible_def demo_request_def
        mark_used_def)
  have c: "users (fst (snd (handleOTPVerification 0 issued_once (demo_dialog ''550000'')))) \<noteq>
      users issued_once"
    by (simp add: handleOTPVerification_def demo_dialog_def ok u approve_def demo_users)
  from h f d c
    verify_failure_leaves_store
      [where now = 0 and st = issued_once and w = 3 and c = "''123456''"
        and e = InvalidOrExpiredOTP and d = "demo_dialog ''123456''"
        and u = demo_pending_worker]
    verify_failure_leaves_store
      [where now = 0 and st = issued_once and w = 3 and c = "''123456''"
        and e = InvalidOrExpiredOTP and d = "demo_dialog ''550000''"
        and u = demo_pending_worker]
  show ?thesis
    by simp
qed

text \<open>
  C1, as the code has it. \<^verbatim>\<open>verifyOTP\<close> returns a request, and marks it used, exactly
  when the unused requests of the worker with this code that expire strictly later than
  now are exactly one; the returned request is that one. In every other case (no such
  request because of a wrong code, a used or an expired request, but also two or more such
  requests) it fails with \<open>InvalidOrExpiredOTP\<close> and nothing else. After a success,
  verifying the same worker and code again, at the same time or later, fails.
\<close>

theorem verify_succeeds_iff_one_eligible:
  "(verifyOTP now st w c = (Inr r, st') \<longleftrightarrow>
      filter (eligible now w c) (otp_requests st) = [r] \<and>
      st' = st\<lparr>otp_requests := mark_used (otp_id r) (otp_requests st)\<rparr>) \<and>
   (verifyOTP now st w c = (Inr r, st') \<longrightarrow>
      r \<in> set (otp_requests st) \<and> eligible now w c r \<and>
      r\<lparr>is_used := True\<rparr> \<in> set (otp_requests st') \<and>
      list_all (\<lambda>y. otp_id y \<noteq> otp_id r \<or> is_used y) (otp_requests st')) \<and>
   ((\<exists>x. fst (verifyOTP now st w c) = Inr x) \<or>
      verifyOTP now st w c = (Inl InvalidOrExpiredOTP, st)) \<and>
   (list_all (\<lambda>x. otp_worker_id x \<noteq> w \<or> otp_code x \<noteq> c \<or> is_used x \<or> expires_at x \<le> now)
      (otp_requests st) \<longrightarrow>
      verifyOTP now st w c = (Inl InvalidOrExpiredOTP, st)) \<and>
   (verifyOTP now st w c = (Inr r, st') \<and> now \<le> now' \<longrightarrow>
      verifyOTP now' st' w c = (Inl InvalidOrExpiredOTP, st'))"
proof (intro conjI impI)
  show "verifyOTP now st w c = (Inr r, st') \<longleftrightarrow>
      filter (eligible now w c) (otp_requests st) = [r] \<and>
      st' = st\<lparr>otp_requests := mark_used (otp_id r) (otp_requests st)\<rparr>"
    by (rule verifyOTP_success)
next
  assume "verifyOTP now st w c = (Inr r, st')"
  then have one: "filter (eligible now w c) (otp_requests st) = [r]"
    and st': "otp_requests st' = mark_used (otp_id r) (otp_requests st)"
    by (simp_all add: verifyOTP_success)
  show mem: "r \<in> set (otp_requests st)"
    by (rule eligible_in_filter(1) [OF one])
  show "eligible now w c r"
    by (rule eligible_in_filter(2) [OF one])
  show "r\<lparr>is_used := True\<rparr> \<in> set (otp_requests st')"
    unfolding st' using mem by (rule used_after_verify(1))
  show "list_all (\<lambda>y. otp_id y \<noteq> otp_id r \<or> is_used y) (otp_requests st')"
    unfolding st' using mem by (rule used_after_verify(2))
next
  show "(\<exists>x. fst (verifyOTP now st w c) = Inr x) \<or>
      verifyOTP now st w c = (Inl InvalidOrExpiredOTP, st)"
    using verifyOTP_cases [of now st w c] by auto
next
  assume "list_all (\<lambda>x. otp_worker_id x \<noteq> w \<or> otp_code x \<noteq> c \<or> is_used x \<or> expires_at x \<le> now)
      (otp_requests st)"
  then have "filter (eligible now w c) (otp_requests st) = []"
    by (auto simp: filter_empty_conv list_all_iff eligible_def)
  then show "verifyOTP now st w c = (Inl InvalidOrExpiredOTP, st)"
    by (simp add: verifyOTP_failure)
next
  assume "verifyOTP now st w c = (Inr r, st') \<and> now \<le> now'"
  then have one: "filter (eligible now w c) (otp_requests st) = [r]"
    and st': "otp_requests st' = mark_used (otp_id r) (otp_requests st)"
    and later: "now \<le> now'"
    by (simp_all add: verifyOTP_success)
  have "filter (eligible now' w c) (otp_requests st') = []"
    unfolding st' using one later by (rule none_eligible_after_use)
  then show "verifyOTP now' st' w c = (Inl InvalidOrExpiredOTP, st')"
    by (simp add: verifyOTP_failure)
qed

theorem verify_succeeds_iff_one_eligible_witness:
  "verifyOTP 1000 issued_once 3 ''550000'' = (Inr demo_request, used_once) \<and>
   (1000 :: int) \<le> 2000 \<and>
   verifyOTP 2000 used_once 3 ''550000'' = (Inl InvalidOrExpiredOTP, used_once) \<and>
   list_all (\<lambda>x. otp_worker_id x \<noteq> 3 \<or> otp_code x \<noteq> ''550000'' \<or> is_used x \<or>
                  expires_at x \<le> 600000) (otp_requests issued_once) \<and>
   verifyOTP 600000 issued_once 3 ''550000'' = (Inl InvalidOrExpiredOTP, issued_once)"
proof -
  have ok: "verifyOTP 1000 issued_once 3 ''550000'' = (Inr demo_request, used_once)"
    by (simp add: verifyOTP_def otp_requests_issued_once eligible_def demo_request_def
        used_once_def mark_used_def)
  have expired: "list_all (\<lambda>x. otp_worker_id x \<noteq> 3 \<or> otp_code x \<noteq> ''550000'' \<or> is_used x \<or>
                  expires_at x \<le> 600000) (otp_requests issued_once)"
    by (simp add: otp_requests_issued_once demo_request_def)
  from ok expired
    verify_succeeds_iff_one_eligible
      [of 1000 issued_once 3 "''550000''" demo_request used_once 2000]
    verify_succeeds_iff_one_eligible
      [of 600000 issued_once 3 "''550000''" demo_request used_once 2000]
  show ?thesis
    by simp
qed

text \<open>
  C1 as the specification states it ("if and only if there exists") fails where two
  unused, unexpired requests carry the same worker and code, after two issues that drew
  the same code: such requests exist, and \<^verbatim>\<open>verifyOTP\<close> fails.
\<close>

theorem verify_fails_with_two_eligible:
  "length (filter (eligible 1000 3 ''550000'') (otp_requests issued_twice)) = 2 \<and>
   verifyOTP 1000 issued_twice 3 ''550000'' = (Inl InvalidOrExpiredOTP, issued_twice)"
  by (simp add: verifyOTP_def otp_requests_issued_twice eligible_def demo_request_def)


section \<open>Issuing a code\<close>

lemma digit_char_mem: "d < 10 \<Longrightarrow> digit_char d \<in> set ''0123456789''"
  unfolding digit_char_def by (rule nth_mem) simp

lemma digit_char_zero: "d < 10 \<Longrightarrow> digit_char d = CHR ''0'' \<longleftrightarrow> d = 0"
proof -
  assume "d < 10"
  then consider "d = 0" | "d = 1" | "d = 2" | "d = 3" | "d = 4" | "d = 5" | "d = 6"
    | "d = 7" | "d = 8" | "d = 9"
    by atomize_elim arith
  then show ?thesis
    by cases (simp_all add: digit_char_def)
qed

lemma digits_not_Nil: "digits n \<noteq> []"
  by (subst digits.simps) simp

lemma digits_chars: "set (digits n) \<subseteq> set ''0123456789''"
proof (induction n rule: digits.induct)
  case (1 n)
  show ?case
  proof (cases "n < 10")
    case True
    then show ?thesis
      using digit_char_mem [of n] by (subst digits.simps) simp
  next
    case False
    have "digit_char (n mod 10) \<in> set ''0123456789''"
      by (rule digit_char_mem) simp
    with False "1.IH" show ?thesis
      by (subst digits.simps) simp
  qed
qed

lemma digits_hd: "0 < n \<Longrightarrow> hd (digits n) \<noteq> CHR ''0''"
proof (induction n rule: digits.induct)
  case (1 n)
  show ?case
  proof (cases "n < 10")
    case True
    with "1.prems" show ?thesis
      by (subst digits.simps) (simp add: digit_char_zero)
  next
    case False
    then have "0 < n div 10"
      by simp
    with False "1.IH" have "hd (digits (n div 10)) \<noteq> CHR ''0''"
      by simp
    with False show ?thesis
      by (subst digits.simps) (simp add: digits_not_Nil)
  qed
qed

lemma digits_length: "10 ^ k \<le> n \<Longrightarrow> n < 10 ^ Suc k \<Longrightarrow> length (digits n) = Suc k"
proof (induction k arbitrary: n)
  case 0
  then show ?case
    by (subst digits.simps) simp
next
  case (Suc k)
  have "1 \<le> (10::nat) ^ k"
    by simp
  moreover have "10 * 10 ^ k \<le> n"
    using Suc.prems(1) by simp
  ultimately have big: "\<not> n < 10"
    by linarith
  have "10 ^ k \<le> n div 10"
    using Suc.prems(1) by (simp add: less_eq_div_iff_mult_less_eq mult.commute)
  moreover have "n div 10 < 10 ^ Suc k"
    using Suc.prems(2) by (simp add: div_less_iff_less_mult mult.commute)
  ultimately have "length (digits (n div 10)) = Suc k"
    by (rule Suc.IH)
  with big show ?case
    by (subst digits.simps) simp
qed

lemma generateOTP_shape:
  assumes "0 \<le> r" "r \<le> 1 - 1 / 2 ^ 53"
  shows "\<exists>n. generateOTP r = Number_toString n \<and> 100000 \<le> n \<and> n \<le> 999999"
    and "length (generateOTP r) = 6"
    and "set (generateOTP r) \<subseteq> set ''0123456789''"
    and "hd (generateOTP r) \<noteq> CHR ''0''"
proof -
  define n where "n = Math_floor (js_add 100000 (js_mul r 900000))"
  have n: "100000 \<le> n" "n \<le> 999999"
    unfolding n_def using assms by (rule random_code_bounds)+
  have g: "generateOTP r = digits (nat n)"
    using n(1) by (simp add: generateOTP_def n_def [symmetric] Number_toString_def)
  show "\<exists>n. generateOTP r = Number_toString n \<and> 100000 \<le> n \<and> n \<le> 999999"
    using n by (auto simp: generateOTP_def n_def)
  have "10 ^ 5 \<le> nat n" "nat n < 10 ^ Suc 5"
    using n by simp_all
  then have "length (digits (nat n)) = Suc 5"
    by (rule digits_length)
  then show "length (generateOTP r) = 6"
    by (simp add: g)
  show "set (generateOTP r) \<subseteq> set ''0123456789''"
    unfolding g by (rule digits_chars)
  have "0 < nat n"
    using n(1) by simp
  then show "hd (generateOTP r) \<noteq> CHR ''0''"
    unfolding g by (rule digits_hd)
qed

text \<open>
  C2, as the code has it. For a worker and a team leader that are rows of \<^verbatim>\<open>users\<close> and
  for every value \<^verbatim>\<open>Math.random()\<close> can return, \<^verbatim>\<open>createOTPRequest\<close> appends one request to
  the store and returns it: it carries the worker and the team leader, is unused, expires
  exactly 10 minutes (600000 ms) after the time of issue, and its code is the decimal
  numeral of an integer from 100000 to 999999, computed from the draw as
  \<^verbatim>\<open>floor(100000 + random * 900000)\<close>: six decimal digits, the first of them never 0.
\<close>

theorem issue_creates_request:
  assumes "user_exists st workerId" and "user_exists st teamLeaderId"
    and "0 \<le> random" and "random \<le> 1 - 1 / 2 ^ 53"
  shows "\<exists>data n.
    createOTPRequest random now st workerId teamLeaderId =
      (Inr data, st\<lparr>otp_requests := otp_requests st @ [data]\<rparr>) \<and>
    otp_worker_id data = workerId \<and> otp_team_leader_id data = teamLeaderId \<and>
    is_used data = False \<and> expires_at data = now + 600000 \<and>
    otp_code data = Number_toString n \<and> 100000 \<le> n \<and> n \<le> 999999 \<and>
    otp_code data = Number_toString (Math_floor (js_add 100000 (js_mul random 900000))) \<and>
    length (otp_code data) = 6 \<and> set (otp_code data) \<subseteq> set ''0123456789'' \<and>
    hd (otp_code data) \<noteq> CHR ''0''"
proof -
  from generateOTP_shape(1) [OF assms(3,4)] obtain n
    where n: "generateOTP random = Number_toString n" "100000 \<le> n" "n \<le> 999999"
    by blast
  define data where "data =
    \<lparr>otp_id = fresh_id (map otp_id (otp_requests st)), otp_worker_id = workerId,
     otp_team_leader_id = teamLeaderId, otp_code = generateOTP random, is_used = False,
     expires_at = now + 10 * 60 * 1000, otp_created_at = now\<rparr>"
  have "createOTPRequest random now st workerId teamLeaderId =
      (Inr data, st\<lparr>otp_requests := otp_requests st @ [data]\<rparr>)"
    using assms(1,2) by (simp add: createOTPRequest_def data_def Let_def)
  moreover have "otp_code data = Number_toString n"
    using n(1) by (simp add: data_def)
  moreover have "otp_code data = Number_toString (Math_floor (js_add 100000 (js_mul random 900000)))"
    by (simp add: data_def generateOTP_def)
  moreover have "length (otp_code data) = 6" "set (otp_code data) \<subseteq> set ''0123456789''"
    "hd (otp_code data) \<noteq> CHR ''0''"
    using generateOTP_shape(2,3,4) [OF assms(3,4)] by (simp_all add: data_def)
  moreover have "otp_worker_id data = workerId" "otp_team_leader_id data = teamLeaderId"
    "is_used data = False" "expires_at data = now + 600000"
    by (simp_all add: data_def)
  ultimately show ?thesis
    using n(2,3) by blast
qed

theorem issue_creates_request_witness:
  "user_exists demo_store 3 \<and> user_exists demo_store 1 \<and> (0::rat) \<le> 1 / 2 \<and>
   (1 / 2 :: rat) \<le> 1 - 1 / 2 ^ 53 \<and>
   (\<exists>data n.
      createOTPRequest (1 / 2) 0 demo_store 3 1 =
        (Inr data, demo_store\<lparr>otp_requests := otp_requests demo_store @ [data]\<rparr>) \<and>
      otp_worker_id data = 3 \<and> otp_team_leader_id data = 1 \<and>
      is_used data = False \<and> expires_at data = 0 + 600000 \<and>
      otp_code data = Number_toString n \<and> 100000 \<le> n \<and> n \<le> 999999 \<and>
      otp_code data = Number_toString (Math_floor (js_add 100000 (js_mul (1 / 2) 900000))) \<and>
      length (otp_code data) = 6 \<and> set (otp_code data) \<subseteq> set ''0123456789'' \<and>
      hd (otp_code data) \<noteq> CHR ''0'')"
proof -
  have h1: "user_exists demo_store 3" and h2: "user_exists demo_store 1"
    by (simp_all add: user_exists_def demo_store_def demo_users)
  have h3: "(0::rat) \<le> 1 / 2" and h4: "(1 / 2 :: rat) \<le> 1 - 1 / 2 ^ 53"
    by simp_all
  from issue_creates_request [OF h1 h2 h3 h4, of 0] h1 h2 h3 h4 show ?thesis
    by blast
qed

text \<open>
  C2 as the specification states it gives the range 000000 to 999999, with leading zeros:
  the code 000000 of that range is generated for no value of \<^verbatim>\<open>Math.random()\<close>.
\<close>

theorem code_000000_never_generated:
  "''000000'' \<notin> generateOTP ` {0 .. 1 - 1 / 2 ^ 53}"
proof
  assume "''000000'' \<in> generateOTP ` {0 .. 1 - 1 / 2 ^ 53}"
  then obtain r where r: "0 \<le> r" "r \<le> 1 - 1 / 2 ^ 53" and g: "generateOTP r = ''000000''"
    by auto
  from generateOTP_shape(4) [OF r] show False
    by (simp add: g)
qed

section \<open>The numbers of the counting handlers\<close>

lemma round_double_of_int:
  assumes "\<bar>n\<bar> < 2 ^ 52"
  shows "round_double (of_int n) = of_int n"
proof -
  have "\<bar>of_int n :: rat\<bar> < of_int (2 ^ 52)"
    using assms by (simp only: of_int_abs [symmetric] of_int_less_iff)
  then have "\<bar>of_int n :: rat\<bar> < 2 ^ 52"
    by simp
  moreover have "(of_int n :: rat) = of_int (2 * n) / 2"
    by simp
  ultimately show ?thesis
    by (rule round_double_half)
qed

lemma Number_value_exact:
  assumes "\<bar>n\<bar> < 2 ^ 52"
  shows "Number_value n = Finite n"
proof -
  have a: "\<bar>of_int n :: rat\<bar> < of_int (2 ^ 52)"
    using assms by (simp only: of_int_abs [symmetric] of_int_less_iff)
  have "(2 :: rat) ^ 52 \<le> 2 ^ 1024"
    by (rule power_increasing) simp_all
  with a have "\<bar>of_int n :: rat\<bar> < 2 ^ 1024"
    by simp
  then have "\<not> 2 ^ 1024 \<le> (of_int n :: rat)" "\<not> (of_int n :: rat) \<le> - (2 ^ 1024)"
    by linarith+
  then show ?thesis
    by (simp add: Number_value_def round_double_of_int [OF assms] Let_def)
qed

lemma int32_small: "int32 n \<Longrightarrow> \<bar>n\<bar> < 2 ^ 52"
  unfolding int32_def by simp linarith

lemma number_add_exact:
  "int32 (a + b) \<Longrightarrow> number_add (Finite a) (Finite b) = Finite (a + b)"
  using Number_value_exact [OF int32_small, of "a + b"] by simp

lemma JSON_number_simps [simp]:
  "JSON_number (Finite n) = Some n" "JSON_number NaN = None"
  "JSON_number Infinity = None" "JSON_number MinusInfinity = None"
  by (simp_all add: JSON_number_def)

lemma ToNumber_simps [simp]: "ToNumber None = 0" "ToNumber (Some n) = n"
  by (simp_all add: ToNumber_def)

lemma integer_column_simps [simp]:
  "integer_column None" "integer_column (Some n) = int32 n"
  "\<not> integer_not_null None" "integer_not_null (Some n) = int32 n"
  by (simp_all add: integer_column_def integer_not_null_def)

lemma book_quantity_range:
  assumes "0 \<le> r" "r < 1"
  shows "50 \<le> Math_floor (js_mul r 100) + 50" and "Math_floor (js_mul r 100) + 50 \<le> 150"
    and "int32 (Math_floor (js_mul r 100) + 50)"
proof -
  have lo: "0 \<le> js_mul r 100"
    unfolding js_mul_def using assms(1) by (intro round_double_nonneg) simp
  have "round_double (r * 100) \<le> round_double (of_int 100)"
    using assms by (intro round_double_mono) simp_all
  also have "\<dots> = of_int 100"
    by (rule round_double_of_int) simp
  finally have hi: "js_mul r 100 \<le> 100"
    by (simp add: js_mul_def)
  from lo have "0 \<le> \<lfloor>js_mul r 100\<rfloor>"
    by simp
  moreover from hi have "\<lfloor>js_mul r 100\<rfloor> \<le> 100"
    by (simp add: floor_le_iff)
  ultimately show "50 \<le> Math_floor (js_mul r 100) + 50"
    and "Math_floor (js_mul r 100) + 50 \<le> 150"
    and "int32 (Math_floor (js_mul r 100) + 50)"
    by (simp_all add: Math_floor_def int32_def)
qed

lemma parseInt_85: "parseInt (code_units ''85'') = Finite 85"
  by (simp add: parseInt_def code_units_def parse_radix_def is_digit_def digit_value_def
      digits_value_def is_white_space_def Number_value_exact)

lemma parseInt_40: "parseInt (code_units ''40'') = Finite 40"
  by (simp add: parseInt_def code_units_def parse_radix_def is_digit_def digit_value_def
      digits_value_def is_white_space_def Number_value_exact)

lemma parseInt_3000000000: "parseInt (code_units ''3000000000'') = Finite 3000000000"
  by (simp add: parseInt_def code_units_def parse_radix_def is_digit_def digit_value_def
      digits_value_def is_white_space_def Number_value_exact)

text \<open>
  What \<^verbatim>\<open>parseInt\<close> makes of some quantities: digits after white space of any kind and a
  sign, up to the first code unit that is no digit; a hexadecimal numeral; the integer
  part of a numeral in exponent notation; no number where no digit comes first; the
  nearest binary64 number for an integer above \<open>2^53\<close>. From \<open>2^1024\<close> on the number of an
  integer is infinity.
\<close>

lemma round_double_above_2_53: "round_double 9007199254740993 = 9007199254740992"
  by code_simp

lemma Number_value_overflow:
  assumes "2 ^ 1024 \<le> n"
  shows "Number_value n = Infinity"
proof -
  define x :: rat where "x = of_int n"
  have "(of_int (2 ^ 1024) :: rat) \<le> of_int n"
    using assms by (simp only: of_int_le_iff)
  then have x: "2 ^ 1024 \<le> x"
    by (simp add: x_def)
  then have pos: "0 < x"
    by (rule less_le_trans [rotated]) simp
  have "(2 :: rat) powi 1024 \<le> x"
    using x by simp
  also have "x < 2 powi (binade x + 1)"
    by (rule binade_bounds(2) [OF pos])
  finally have less: "(2 :: rat) powi 1024 < 2 powi (binade x + 1)" .
  have "(1024 :: int) < binade x + 1"
  proof (rule ccontr)
    assume "\<not> 1024 < binade x + 1"
    then have "(2 :: rat) powi (binade x + 1) \<le> 2 powi 1024"
      by (intro power_int_increasing) simp_all
    with less show False
      by simp
  qed
  then have "(2 :: rat) powi 1024 \<le> 2 powi (binade x)"
    by (intro power_int_increasing) simp_all
  also have "\<dots> \<le> round_double x"
    by (rule round_double_pos(1) [OF pos])
  finally have "2 ^ 1024 \<le> round_double x"
    by simp
  then show ?thesis
    by (simp add: Number_value_def x_def Let_def)
qed

lemma parseInt_examples:
  "parseInt (0xA0 # 0x2003 # code_units ''+7 bins'') = Finite 7"
  "parseInt (code_units ''-0x1f'') = Finite (- 31)"
  "parseInt (code_units ''1e3'') = Finite 1"
  "parseInt (code_units ''.5e1'') = NaN"
  "parseInt (code_units ''9007199254740993'') = Finite 9007199254740992"
proof -
  have n: "Number_value 9007199254740993 = Finite 9007199254740992"
    using round_double_above_2_53 by (simp add: Number_value_def Let_def)
  show "parseInt (0xA0 # 0x2003 # code_units ''+7 bins'') = Finite 7"
    "parseInt (code_units ''-0x1f'') = Finite (- 31)"
    "parseInt (code_units ''1e3'') = Finite 1"
    "parseInt (code_units ''.5e1'') = NaN"
    "parseInt (code_units ''9007199254740993'') = Finite 9007199254740992"
    by (simp_all add: parseInt_def code_units_def parse_radix_def is_digit_def digit_value_def
      digits_value_def is_white_space_def Number_value_exact n)
qed

section \<open>Sessions in the store\<close>

lemma active_sessions_efficiency [simp]:
  "active_sessions (st\<lparr>worker_efficiency_rows := x\<rparr>) w = active_sessions st w"
  by (simp add: active_sessions_def)

lemma active_sessions_records [simp]:
  "active_sessions (st\<lparr>counting_records := x\<rparr>) w = active_sessions st w"
  by (simp add: active_sessions_def)

lemma active_sessions_otp [simp]:
  "active_sessions (st\<lparr>otp_requests := x\<rparr>) w = active_sessions st w"
  by (simp add: active_sessions_def)

lemma active_sessions_users [simp]:
  "active_sessions (st\<lparr>users := x\<rparr>) w = active_sessions st w"
  by (simp add: active_sessions_def)

lemma active_sessions_close:
  "active_sessions
     (update_session i (\<lambda>s. s\<lparr>end_time := Some t, status := completed\<rparr>) st) w =
   filter (\<lambda>s. cs_id s \<noteq> i) (active_sessions st w)"
proof -
  have "filter (\<lambda>s. cs_worker_id s = w \<and> status s = active)
          (map (\<lambda>s. if cs_id s = i then s\<lparr>end_time := Some t, status := completed\<rparr> else s) xs) =
        filter (\<lambda>s. cs_id s \<noteq> i) (filter (\<lambda>s. cs_worker_id s = w \<and> status s = active) xs)"
    for xs
    by (induction xs) auto
  then show ?thesis
    by (simp add: active_sessions_def update_session_def)
qed

lemma active_sessions_totals:
  "active_sessions
     (update_session i (\<lambda>s. s\<lparr>total_bins_counted := b, total_qty_counted := q\<rparr>) st) w =
   map (\<lambda>s. if cs_id s = i then s\<lparr>total_bins_counted := b, total_qty_counted := q\<rparr> else s)
     (active_sessions st w)"
proof -
  have "filter (\<lambda>s. cs_worker_id s = w \<and> status s = active)
          (map (\<lambda>s. if cs_id s = i then s\<lparr>total_bins_counted := b, total_qty_counted := q\<rparr> else s) xs) =
        map (\<lambda>s. if cs_id s = i then s\<lparr>total_bins_counted := b, total_qty_counted := q\<rparr> else s)
          (filter (\<lambda>s. cs_worker_id s = w \<and> status s = active) xs)"
    for xs
    by (induction xs) auto
  then show ?thesis
    by (simp add: active_sessions_def update_session_def)
qed

lemma active_sessions_start:
  "active_sessions (fst (startCounting now st c)) w =
     active_sessions st w @
     (if user_exists st (u_id (wd_user c)) \<and> w = u_id (wd_user c)
      then [\<lparr>cs_id = fresh_id (map cs_id (counting_sessions st)), cs_worker_id = w,
             start_time = now, end_time = None, status = active,
             total_bins_counted = Some 0, total_qty_counted = Some 0\<rparr>]
      else [])"
  by (auto simp: startCounting_def active_sessions_def Let_def)

lemma update_session_other [simp]:
  "worker_efficiency_rows (update_session i f st) = worker_efficiency_rows st"
  "counting_records (update_session i f st) = counting_records st"
  "otp_requests (update_session i f st) = otp_requests st"
  "users (update_session i f st) = users st"
  by (simp_all add: update_session_def)

lemma update_totals_other [simp]:
  "worker_efficiency_rows (update_totals i b q st) = worker_efficiency_rows st"
  "counting_records (update_totals i b q st) = counting_records st"
  "otp_requests (update_totals i b q st) = otp_requests st"
  "users (update_totals i b q st) = users st"
  by (simp_all add: update_totals_def)

lemma insert_counting_record_other [simp]:
  "worker_efficiency_rows (insert_counting_record r st) = worker_efficiency_rows st"
  "counting_sessions (insert_counting_record r st) = counting_sessions st"
  "otp_requests (insert_counting_record r st) = otp_requests st"
  "users (insert_counting_record r st) = users st"
  by (simp_all add: insert_counting_record_def)

lemma insert_worker_efficiency_other [simp]:
  "counting_records (insert_worker_efficiency r st) = counting_records st"
  "counting_sessions (insert_worker_efficiency r st) = counting_sessions st"
  "otp_requests (insert_worker_efficiency r st) = otp_requests st"
  "users (insert_worker_efficiency r st) = users st"
  by (simp_all add: insert_worker_efficiency_def)

lemma active_sessions_inserts [simp]:
  "active_sessions (insert_counting_record r st) w = active_sessions st w"
  "active_sessions (insert_worker_efficiency x st) w = active_sessions st w"
  by (simp_all add: active_sessions_def)

lemma active_sessions_update_totals:
  "length (active_sessions (update_totals i b q st) w) = length (active_sessions st w)"
  by (simp add: update_totals_def active_sessions_totals)

lemma Active_in_store:
  assumes "Active st c cs"
  shows "cs \<in> set (counting_sessions st)" and "status cs = active"
    and "cs_worker_id cs = u_id (wd_user c)" and "session_exists st (cs_id cs)"
proof -
  from assms have "set (active_sessions st (u_id (wd_user c))) = {cs}"
    by (simp add: Active_def)
  then have "cs \<in> set (active_sessions st (u_id (wd_user c)))"
    by simp
  then show "cs \<in> set (counting_sessions st)" and "status cs = active"
    and "cs_worker_id cs = u_id (wd_user c)"
    by (simp_all add: active_sessions_def)
  then show "session_exists st (cs_id cs)"
    by (simp add: session_exists_def)
qed

lemma loadData_none:
  "active_sessions st (u_id (wd_user c)) = [] \<Longrightarrow> loadData st c = c"
  by (simp add: loadData_def)

lemma loadData_one:
  "active_sessions st (u_id (wd_user c)) = [s] \<Longrightarrow> loadData st c = c\<lparr>currentSession := Some s\<rparr>"
  by (simp add: loadData_def)

lemma started_once_eval:
  "started_once =
     (demo_store\<lparr>counting_sessions := [demo_session]\<rparr>,
      demo_dashboard\<lparr>currentSession := Some demo_session\<rparr>)"
  by (simp add: started_once_def startCounting_def
      demo_store_def demo_dashboard_def demo_users
      user_exists_def fresh_id_def demo_session_def Let_def)

lemma started_once_Active:
  "Active (fst started_once) (snd started_once) demo_session"
  by (simp add: started_once_eval Active_def active_sessions_def demo_store_def
      demo_dashboard_def demo_worker_def demo_session_def)

lemma nowhere_started_eval:
  "nowhere_started =
     (nowhere_store\<lparr>counting_sessions := [nowhere_session]\<rparr>,
      nowhere_dashboard\<lparr>currentSession := Some nowhere_session\<rparr>)"
  by (simp add: nowhere_started_def startCounting_def
      nowhere_store_def nowhere_dashboard_def demo_team_leader_def demo_worker_nowhere_def
      user_exists_def fresh_id_def nowhere_session_def Let_def)

lemma nowhere_started_Active:
  "Active (fst nowhere_started) (snd nowhere_started) nowhere_session"
  by (simp add: nowhere_started_eval Active_def active_sessions_def nowhere_store_def
      nowhere_dashboard_def demo_worker_nowhere_def nowhere_session_def)

section \<open>Ending a session\<close>

lemma endCounting_no_session:
  "currentSession c = None \<Longrightarrow> endCounting now st c = (st, c)"
  by (simp add: endCounting_def)

lemma endCounting_store:
  assumes "currentSession c = Some cs"
  shows "fst (endCounting now st c) =
    insert_worker_efficiency
      \<lparr>we_id = fresh_id (map we_id (worker_efficiency_rows st)),
       we_warehouse_name = u_warehouse_name (wd_user c),
       we_date = date_of now,
       we_username = u_username (wd_user c),
       bins_counted = total_bins_counted cs,
       qty_counted = total_qty_counted cs,
       time_taken_minutes = timeTakenMinutes now (start_time cs),
       efficiency_score =
         efficiencyScore (ToNumber (total_bins_counted cs)) (timeTakenMinutes now (start_time cs)),
       ranking = 1,
       we_created_at = now\<rparr>
      (update_session (cs_id cs) (\<lambda>s. s\<lparr>end_time := Some now, status := completed\<rparr>) st)"
    and "snd (endCounting now st c) = c\<lparr>currentSession := None\<rparr>"
  using assms by (simp_all add: endCounting_def Let_def)

lemma endCounting_sessions:
  assumes "currentSession c = Some cs"
  shows "counting_sessions (fst (endCounting now st c)) =
    map (\<lambda>s. if cs_id s = cs_id cs then s\<lparr>end_time := Some now, status := completed\<rparr> else s)
      (counting_sessions st)"
  unfolding endCounting_store(1) [OF assms] by (simp add: update_session_def)

lemma endCounting_Active:
  assumes "Active st c cs"
  shows "NoSession (fst (endCounting now st c)) (snd (endCounting now st c))"
    and "cs\<lparr>end_time := Some now, status := completed\<rparr>
           \<in> set (counting_sessions (fst (endCounting now st c)))"
    and "reloaded (endCounting now st c) = endCounting now st c"
proof -
  from assms have cur: "currentSession c = Some cs"
    and act: "active_sessions st (u_id (wd_user c)) = [cs]"
    by (simp_all add: Active_def)
  have none: "active_sessions (fst (endCounting now st c)) (u_id (wd_user c)) = []"
    unfolding endCounting_store(1) [OF cur] by (simp add: active_sessions_close act)
  then show n: "NoSession (fst (endCounting now st c)) (snd (endCounting now st c))"
    by (simp add: NoSession_def endCounting_store(2) [OF cur])
  have "cs \<in> set (counting_sessions st)"
    by (rule Active_in_store(1) [OF assms])
  then show "cs\<lparr>end_time := Some now, status := completed\<rparr>
           \<in> set (counting_sessions (fst (endCounting now st c)))"
    unfolding endCounting_sessions [OF cur] by force
  have "loadData (fst (endCounting now st c)) (snd (endCounting now st c)) =
      snd (endCounting now st c)"
    using none by (intro loadData_none) (simp add: endCounting_store(2) [OF cur])
  then show "reloaded (endCounting now st c) = endCounting now st c"
    by (simp add: reloaded_def)
qed

text \<open>
  C4. Ending a session, as the code does it. \<^verbatim>\<open>endCounting\<close> works
  on the copy of the session that the component holds: the elapsed minutes are
  \<^verbatim>\<open>Math.round((end - start) / (1000 * 60))\<close> from the copy's start
  time, which is the nearest integer of the exact quotient (a half going up) for every
  difference below \<open>2^53\<close> ms; the rows with the copy's id are stored as
  completed with \<open>end_time = now\<close>; and exactly one efficiency row is sent to
  the table, carrying the bin and quantity totals of the copy, the elapsed minutes, the
  score computed from them (0 when no bin was counted; the formula of the specification
  whenever the exact rate is not halfway between two integers) and ranking 1. The table
  stores that row exactly when the worker has a warehouse name, the totals of the copy are
  not \<^verbatim>\<open>null\<close> and the counts fit an integer column; otherwise no
  row is added, and the handler goes on all the same. Then the component holds no session.
  From the state \<open>Active\<close>, where the copy is the worker's one active session
  as stored, the totals of the row are the session's totals, the session is stored as
  completed, and no session of the worker is left active.
\<close>

theorem end_closes_and_scores_once:
  "currentSession c = Some cs \<longrightarrow>
     (\<exists>row.
        counting_sessions (fst (endCounting now st c)) =
          map (\<lambda>s. if cs_id s = cs_id cs
                    then s\<lparr>end_time := Some now, status := completed\<rparr> else s)
            (counting_sessions st) \<and>
        worker_efficiency_rows (fst (endCounting now st c)) =
          worker_efficiency_rows st @ (if worker_efficiency_accepts row then [row] else []) \<and>
        worker_efficiency_accepts row =
          (u_warehouse_name (wd_user c) \<noteq> None \<and>
           integer_not_null (total_bins_counted cs) \<and>
           integer_not_null (total_qty_counted cs) \<and>
           int32 (time_taken_minutes row) \<and> int32 (efficiency_score row)) \<and>
        we_id row = fresh_id (map we_id (worker_efficiency_rows st)) \<and>
        we_warehouse_name row = u_warehouse_name (wd_user c) \<and>
        we_date row = date_of now \<and>
        we_username row = u_username (wd_user c) \<and>
        we_created_at row = now \<and>
        bins_counted row = total_bins_counted cs \<and>
        qty_counted row = total_qty_counted cs \<and>
        time_taken_minutes row = Math_round (js_div (of_int (now - start_time cs)) (1000 * 60)) \<and>
        (\<bar>now - start_time cs\<bar> < 2 ^ 53 \<longrightarrow>
           time_taken_minutes row = (now - start_time cs + 30000) div 60000) \<and>
        efficiency_score row =
          efficiencyScore (ToNumber (total_bins_counted cs)) (time_taken_minutes row) \<and>
        (ToNumber (total_bins_counted cs) = 0 \<longrightarrow> efficiency_score row = 0) \<and>
        (0 \<le> ToNumber (total_bins_counted cs) \<longrightarrow>
           0 \<le> efficiency_score row \<and> efficiency_score row \<le> 100) \<and>
        (total_bins_counted cs = Some bins \<and> 0 \<le> bins \<and> bins < 2 ^ 31 \<and>
         \<not> half_integer_rate bins (time_taken_minutes row) \<longrightarrow>
           efficiency_score row = Score_spec bins (time_taken_minutes row)) \<and>
        ranking row = 1 \<and>
        snd (endCounting now st c) = c\<lparr>currentSession := None\<rparr> \<and>
        (Active st c cs \<longrightarrow>
           NoSession (fst (endCounting now st c)) (snd (endCounting now st c)) \<and>
           cs\<lparr>end_time := Some now, status := completed\<rparr>
             \<in> set (counting_sessions (fst (endCounting now st c)))))"
proof
  assume cur: "currentSession c = Some cs"
  define row where "row =
    \<lparr>we_id = fresh_id (map we_id (worker_efficiency_rows st)),
     we_warehouse_name = u_warehouse_name (wd_user c),
     we_date = date_of now,
     we_username = u_username (wd_user c),
     bins_counted = total_bins_counted cs,
     qty_counted = total_qty_counted cs,
     time_taken_minutes = timeTakenMinutes now (start_time cs),
     efficiency_score =
       efficiencyScore (ToNumber (total_bins_counted cs)) (timeTakenMinutes now (start_time cs)),
     ranking = 1,
     we_created_at = now\<rparr>"
  have ids: "we_id row = fresh_id (map we_id (worker_efficiency_rows st))"
    "we_date row = date_of now" "we_created_at row = now"
    by (simp_all add: row_def)
  have fields: "we_warehouse_name row = u_warehouse_name (wd_user c)"
    "we_username row = u_username (wd_user c)"
    "bins_counted row = total_bins_counted cs" "qty_counted row = total_qty_counted cs"
    "time_taken_minutes row = timeTakenMinutes now (start_time cs)"
    "efficiency_score row =
       efficiencyScore (ToNumber (total_bins_counted cs)) (time_taken_minutes row)"
    "ranking row = 1"
    by (simp_all add: row_def)
  have rows: "worker_efficiency_rows (fst (endCounting now st c)) =
      worker_efficiency_rows st @ (if worker_efficiency_accepts row then [row] else [])"
    unfolding endCounting_store(1) [OF cur] row_def [symmetric]
    by (simp add: insert_worker_efficiency_def)
  have acc: "worker_efficiency_accepts row =
      (u_warehouse_name (wd_user c) \<noteq> None \<and>
       integer_not_null (total_bins_counted cs) \<and>
       integer_not_null (total_qty_counted cs) \<and>
       int32 (time_taken_minutes row) \<and> int32 (efficiency_score row))"
    by (simp add: worker_efficiency_accepts_def row_def int32_def)
  have minutes: "time_taken_minutes row =
      Math_round (js_div (of_int (now - start_time cs)) (1000 * 60))"
    by (simp add: fields timeTakenMinutes_def)
  have exact: "\<bar>now - start_time cs\<bar> < 2 ^ 53 \<longrightarrow>
      time_taken_minutes row = (now - start_time cs + 30000) div 60000"
    by (simp add: fields timeTakenMinutes_exact)
  have zero: "ToNumber (total_bins_counted cs) = 0 \<longrightarrow> efficiency_score row = 0"
    by (simp add: fields efficiencyScore_zero)
  have range: "0 \<le> ToNumber (total_bins_counted cs) \<longrightarrow>
      0 \<le> efficiency_score row \<and> efficiency_score row \<le> 100"
    by (simp add: fields(6) efficiencyScore_range)
  have spec: "total_bins_counted cs = Some bins \<and> 0 \<le> bins \<and> bins < 2 ^ 31 \<and>
      \<not> half_integer_rate bins (time_taken_minutes row) \<longrightarrow>
      efficiency_score row = Score_spec bins (time_taken_minutes row)"
    by (auto simp: fields(6) efficiencyScore_exact)
  have act: "Active st c cs \<longrightarrow>
      NoSession (fst (endCounting now st c)) (snd (endCounting now st c)) \<and>
      cs\<lparr>end_time := Some now, status := completed\<rparr>
        \<in> set (counting_sessions (fst (endCounting now st c)))"
    using endCounting_Active(1,2) [of st c cs now] by blast
  from endCounting_sessions [OF cur, of now st] rows acc ids(1) fields(1) ids(2) fields(2)
    ids(3) fields(3,4) minutes exact fields(6) zero range spec fields(7)
    endCounting_store(2) [OF cur, of now st] act
  show "\<exists>row.
        counting_sessions (fst (endCounting now st c)) =
          map (\<lambda>s. if cs_id s = cs_id cs
                    then s\<lparr>end_time := Some now, status := completed\<rparr> else s)
            (counting_sessions st) \<and>
        worker_efficiency_rows (fst (endCounting now st c)) =
          worker_efficiency_rows st @ (if worker_efficiency_accepts row then [row] else []) \<and>
        worker_efficiency_accepts row =
          (u_warehouse_name (wd_user c) \<noteq> None \<and>
           integer_not_null (total_bins_counted cs) \<and>
           integer_not_null (total_qty_counted cs) \<and>
           int32 (time_taken_minutes row) \<and> int32 (efficiency_score row)) \<and>
        we_id row = fresh_id (map we_id (worker_efficiency_rows st)) \<and>
        we_warehouse_name row = u_warehouse_name (wd_user c) \<and>
        we_date row = date_of now \<and>
        we_username row = u_username (wd_user c) \<and>
        we_created_at row = now \<and>
        bins_counted row = total_bins_counted cs \<and>
        qty_counted row = total_qty_counted cs \<and>
        time_taken_minutes row = Math_round (js_div (of_int (now - start_time cs)) (1000 * 60)) \<and>
        (\<bar>now - start_time cs\<bar> < 2 ^ 53 \<longrightarrow>
           time_taken_minutes row = (now - start_time cs + 30000) div 60000) \<and>
        efficiency_score row =
          efficiencyScore (ToNumber (total_bins_counted cs)) (time_taken_minutes row) \<and>
        (ToNumber (total_bins_counted cs) = 0 \<longrightarrow> efficiency_score row = 0) \<and>
        (0 \<le> ToNumber (total_bins_counted cs) \<longrightarrow>
           0 \<le> efficiency_score row \<and> efficiency_score row \<le> 100) \<and>
        (total_bins_counted cs = Some bins \<and> 0 \<le> bins \<and> bins < 2 ^ 31 \<and>
         \<not> half_integer_rate bins (time_taken_minutes row) \<longrightarrow>
           efficiency_score row = Score_spec bins (time_taken_minutes row)) \<and>
        ranking row = 1 \<and>
        snd (endCounting now st c) = c\<lparr>currentSession := None\<rparr> \<and>
        (Active st c cs \<longrightarrow>
           NoSession (fst (endCounting now st c)) (snd (endCounting now st c)) \<and>
           cs\<lparr>end_time := Some now, status := completed\<rparr>
             \<in> set (counting_sessions (fst (endCounting now st c))))"
    by (intro exI [of _ row] conjI)
qed

theorem end_closes_and_scores_once_witness:
  "currentSession (snd started_once) = Some demo_session \<and>
   \<bar>7200000 - start_time demo_session\<bar> < 2 ^ 53 \<and>
   ToNumber (total_bins_counted demo_session) = 0 \<and>
   Active (fst started_once) (snd started_once) demo_session \<and>
   \<not> half_integer_rate 0 120 \<and>
   (\<exists>row.
      counting_sessions (fst ended_once) =
        [demo_session\<lparr>end_time := Some 7200000, status := completed\<rparr>] \<and>
      worker_efficiency_rows (fst ended_once) = [row] \<and>
      bins_counted row = Some 0 \<and> qty_counted row = Some 0 \<and>
      time_taken_minutes row = 120 \<and> efficiency_score row = 0 \<and>
      efficiency_score row = Score_spec 0 120 \<and> ranking row = 1 \<and>
      NoSession (fst ended_once) (snd ended_once))"
proof -
  have cur: "currentSession (snd started_once) = Some demo_session"
    by (simp add: started_once_eval)
  have t: "\<bar>7200000 - start_time demo_session\<bar> < 2 ^ 53"
    by (simp add: demo_session_def)
  have z: "ToNumber (total_bins_counted demo_session) = 0"
    by (simp add: demo_session_def)
  note a = started_once_Active
  from end_closes_and_scores_once
    [where c = "snd started_once" and cs = demo_session and now = 7200000
      and st = "fst started_once" and bins = 0] cur t z a
  obtain row where
    s: "counting_sessions (fst ended_once) =
          map (\<lambda>s. if cs_id s = cs_id demo_session
                    then s\<lparr>end_time := Some 7200000, status := completed\<rparr> else s)
            (counting_sessions (fst started_once))"
    and r: "worker_efficiency_rows (fst ended_once) =
          worker_efficiency_rows (fst started_once) @
            (if worker_efficiency_accepts row then [row] else [])"
    and acc: "worker_efficiency_accepts row =
          (u_warehouse_name (wd_user (snd started_once)) \<noteq> None \<and>
           integer_not_null (total_bins_counted demo_session) \<and>
           integer_not_null (total_qty_counted demo_session) \<and>
           int32 (time_taken_minutes row) \<and> int32 (efficiency_score row))"
    and b: "bins_counted row = total_bins_counted demo_session"
      "qty_counted row = total_qty_counted demo_session"
    and m: "time_taken_minutes row = (7200000 - start_time demo_session + 30000) div 60000"
    and e: "efficiency_score row = 0"
    and sp: "total_bins_counted demo_session = Some 0 \<and> (0 :: int) \<le> 0 \<and> (0 :: int) < 2 ^ 31 \<and>
         \<not> half_integer_rate 0 (time_taken_minutes row) \<longrightarrow>
           efficiency_score row = Score_spec 0 (time_taken_minutes row)"
    and k: "ranking row = 1"
    and n: "NoSession (fst ended_once) (snd ended_once)"
    unfolding ended_once_def by blast
  have m': "time_taken_minutes row = 120"
    by (simp add: m demo_session_def)
  have "worker_efficiency_accepts row"
    by (simp add: acc m' e started_once_eval demo_dashboard_def demo_worker_def
        demo_session_def int32_def)
  with r have r': "worker_efficiency_rows (fst ended_once) = [row]"
    by (simp add: started_once_eval demo_store_def)
  have s': "counting_sessions (fst ended_once) =
      [demo_session\<lparr>end_time := Some 7200000, status := completed\<rparr>]"
    by (simp add: s started_once_eval demo_store_def)
  have b': "bins_counted row = Some 0" "qty_counted row = Some 0"
    by (simp_all add: b demo_session_def)
  have h: "\<not> half_integer_rate 0 120"
    by (simp add: half_integer_rate_def)
  with sp have sp': "efficiency_score row = Score_spec 0 120"
    by (simp add: m' demo_session_def)
  from cur t z a h s' r' b' m' e sp' k n show ?thesis
    by blast
qed

text \<open>
  C4 as the specification states it ("exactly one row is inserted") fails where the table
  rejects the row. The worker without a warehouse name starts a session and ends it two
  hours later: the session was active and is now stored as completed, and no efficiency
  row has been inserted.
\<close>

theorem end_without_warehouse_inserts_no_row:
  "Active (fst nowhere_started) (snd nowhere_started) nowhere_session \<and>
   counting_sessions (fst (endCounting 7200000 (fst nowhere_started) (snd nowhere_started))) =
     [nowhere_session\<lparr>end_time := Some 7200000, status := completed\<rparr>] \<and>
   worker_efficiency_rows (fst (endCounting 7200000 (fst nowhere_started) (snd nowhere_started))) = []"
proof -
  have cur: "currentSession (snd nowhere_started) = Some nowhere_session"
    by (simp add: nowhere_started_eval)
  have "counting_sessions (fst (endCounting 7200000 (fst nowhere_started) (snd nowhere_started))) =
     [nowhere_session\<lparr>end_time := Some 7200000, status := completed\<rparr>]"
    unfolding endCounting_sessions [OF cur]
    by (simp add: nowhere_started_eval nowhere_store_def)
  moreover have "worker_efficiency_rows
      (fst (endCounting 7200000 (fst nowhere_started) (snd nowhere_started))) = []"
    unfolding endCounting_store(1) [OF cur]
    by (simp add: insert_worker_efficiency_def worker_efficiency_accepts_def
        nowhere_started_eval nowhere_store_def nowhere_dashboard_def demo_worker_nowhere_def)
  ultimately show ?thesis
    using nowhere_started_Active by simp
qed

text \<open>
  The totals of the efficiency row are those of the copy. When the stored session has
  moved on since the copy was taken (here it has one bin and 85 in quantity, the copy
  none), the row does not carry the totals of the stored session.
\<close>

lemma end_scores_the_copy:
  "counting_sessions (update_totals 1 (Some 1) (Some 85) (fst started_once)) =
     [demo_session\<lparr>total_bins_counted := Some 1, total_qty_counted := Some 85\<rparr>] \<and>
   currentSession (snd started_once) = Some demo_session \<and>
   worker_efficiency_rows
     (fst (endCounting 7200000
        (update_totals 1 (Some 1) (Some 85) (fst started_once)) (snd started_once))) =
   [\<lparr>we_id = 1, we_warehouse_name = Some ''Warehouse A'', we_date = 0,
     we_username = ''worker1'', bins_counted = Some 0, qty_counted = Some 0,
     time_taken_minutes = 120, efficiency_score = 0, ranking = 1,
     we_created_at = 7200000\<rparr>]"
proof -
  have cur: "currentSession (snd started_once) = Some demo_session"
    by (simp add: started_once_eval)
  have m: "timeTakenMinutes 7200000 0 = 120"
    by (simp add: timeTakenMinutes_exact)
  have "counting_sessions (update_totals 1 (Some 1) (Some 85) (fst started_once)) =
     [demo_session\<lparr>total_bins_counted := Some 1, total_qty_counted := Some 85\<rparr>]"
    by (simp add: update_totals_def update_session_def started_once_eval demo_store_def
        demo_session_def int32_def)
  moreover have "worker_efficiency_rows
     (fst (endCounting 7200000
        (update_totals 1 (Some 1) (Some 85) (fst started_once)) (snd started_once))) =
   [\<lparr>we_id = 1, we_warehouse_name = Some ''Warehouse A'', we_date = 0,
     we_username = ''worker1'', bins_counted = Some 0, qty_counted = Some 0,
     time_taken_minutes = 120, efficiency_score = 0, ranking = 1,
     we_created_at = 7200000\<rparr>]"
    unfolding endCounting_store(1) [OF cur]
    by (simp add: insert_worker_efficiency_def worker_efficiency_accepts_def
        started_once_eval demo_store_def demo_dashboard_def demo_worker_def demo_session_def
        m efficiencyScore_zero int32_def fresh_id_def date_of_def)
  ultimately show ?thesis
    using cur by simp
qed

section \<open>Recording a count\<close>

lemma parseInt_Nil: "parseInt [] = NaN"
  by (simp add: parseInt_def)

lemma confirmQuantity_idle:
  "selectedBin c = None \<or> quantity c = [] \<or> currentSession c = None \<Longrightarrow>
   confirmQuantity random now st c = (st, c)"
  by (auto simp: confirmQuantity_def split: option.splits)

lemma confirmQuantity_store:
  assumes "selectedBin c = Some b" "quantity c \<noteq> []" "currentSession c = Some cs"
  shows "fst (confirmQuantity random now st c) =
    update_totals (cs_id cs)
      (JSON_number (number_add (Finite (ToNumber (total_bins_counted cs))) (Finite 1)))
      (JSON_number (number_add (Finite (ToNumber (total_qty_counted cs))) (parseInt (quantity c))))
      (insert_counting_record
         \<lparr>cr_id = fresh_id (map cr_id (counting_records st)),
          session_id = cs_id cs,
          cr_warehouse_name = u_warehouse_name (wd_user c),
          cr_date = date_of now,
          team_leader_name = ''TL1'',
          cr_username = u_username (wd_user c),
          bin_no = bin_code b,
          cr_qty_counted = JSON_number (parseInt (quantity c)),
          qty_recounted = None,
          qty_as_per_books = Some (Math_floor (js_mul random 100) + 50),
          difference = Some 0,
          reason_for_difference = None,
          cr_created_at = now\<rparr> st)"
    and "snd (confirmQuantity random now st c) =
      c\<lparr>showConfirmation := False, selectedBin := None, quantity := [], searchTerm := []\<rparr>"
  using assms by (simp_all add: confirmQuantity_def Let_def)

lemma integer_not_null_JSON:
  "integer_not_null (JSON_number x) = (\<exists>q. x = Finite q \<and> int32 q)"
  by (cases x) simp_all

lemma confirmQuantity_writes:
  assumes "selectedBin c = Some b" "quantity c \<noteq> []" "currentSession c = Some cs"
  shows "\<exists>row bins qty.
     counting_records (fst (confirmQuantity random now st c)) =
       counting_records st @ (if counting_records_accepts st row then [row] else []) \<and>
     counting_records_accepts st row =
       (session_exists st (cs_id cs) \<and> u_warehouse_name (wd_user c) \<noteq> None \<and>
        (\<exists>q. parseInt (quantity c) = Finite q \<and> int32 q) \<and>
        int32 (Math_floor (js_mul random 100) + 50)) \<and>
     cr_id row = fresh_id (map cr_id (counting_records st)) \<and>
     session_id row = cs_id cs \<and> bin_no row = bin_code b \<and>
     cr_warehouse_name row = u_warehouse_name (wd_user c) \<and>
     cr_date row = date_of now \<and> team_leader_name row = ''TL1'' \<and>
     cr_username row = u_username (wd_user c) \<and> cr_created_at row = now \<and>
     qty_recounted row = None \<and> reason_for_difference row = None \<and>
     cr_qty_counted row = JSON_number (parseInt (quantity c)) \<and>
     qty_as_per_books row = Some (Math_floor (js_mul random 100) + 50) \<and>
     difference row = Some 0 \<and>
     bins = JSON_number (number_add (Finite (ToNumber (total_bins_counted cs))) (Finite 1)) \<and>
     qty = JSON_number
             (number_add (Finite (ToNumber (total_qty_counted cs))) (parseInt (quantity c))) \<and>
     counting_sessions (fst (confirmQuantity random now st c)) =
       (if integer_column bins \<and> integer_column qty
        then map (\<lambda>s. if cs_id s = cs_id cs
                       then s\<lparr>total_bins_counted := bins, total_qty_counted := qty\<rparr> else s)
               (counting_sessions st)
        else counting_sessions st) \<and>
     snd (confirmQuantity random now st c) =
       c\<lparr>showConfirmation := False, selectedBin := None, quantity := [], searchTerm := []\<rparr>"
proof -
  define row where "row =
    \<lparr>cr_id = fresh_id (map cr_id (counting_records st)),
     session_id = cs_id cs,
     cr_warehouse_name = u_warehouse_name (wd_user c),
     cr_date = date_of now,
     team_leader_name = ''TL1'',
     cr_username = u_username (wd_user c),
     bin_no = bin_code b,
     cr_qty_counted = JSON_number (parseInt (quantity c)),
     qty_recounted = None,
     qty_as_per_books = Some (Math_floor (js_mul random 100) + 50),
     difference = Some 0,
     reason_for_difference = None,
     cr_created_at = now\<rparr>"
  define bins where
    "bins = JSON_number (number_add (Finite (ToNumber (total_bins_counted cs))) (Finite 1))"
  define qty where
    "qty = JSON_number
             (number_add (Finite (ToNumber (total_qty_counted cs))) (parseInt (quantity c)))"
  have st': "fst (confirmQuantity random now st c) =
      update_totals (cs_id cs) bins qty (insert_counting_record row st)"
    unfolding confirmQuantity_store(1) [OF assms] row_def bins_def qty_def ..
  have records: "counting_records (fst (confirmQuantity random now st c)) =
      counting_records st @ (if counting_records_accepts st row then [row] else [])"
    unfolding st' by (simp add: insert_counting_record_def)
  have acc: "counting_records_accepts st row =
      (session_exists st (cs_id cs) \<and> u_warehouse_name (wd_user c) \<noteq> None \<and>
       (\<exists>q. parseInt (quantity c) = Finite q \<and> int32 q) \<and>
       int32 (Math_floor (js_mul random 100) + 50))"
    by (simp add: counting_records_accepts_def row_def integer_not_null_JSON int32_def)
  have more: "cr_id row = fresh_id (map cr_id (counting_records st))"
    "cr_date row = date_of now" "team_leader_name row = ''TL1''"
    "cr_username row = u_username (wd_user c)" "cr_created_at row = now"
    "qty_recounted row = None" "reason_for_difference row = None"
    by (simp_all add: row_def)
  have fields: "session_id row = cs_id cs" "bin_no row = bin_code b"
    "cr_warehouse_name row = u_warehouse_name (wd_user c)"
    "cr_qty_counted row = JSON_number (parseInt (quantity c))"
    "qty_as_per_books row = Some (Math_floor (js_mul random 100) + 50)"
    "difference row = Some 0"
    by (simp_all add: row_def)
  have sessions: "counting_sessions (fst (confirmQuantity random now st c)) =
      (if integer_column bins \<and> integer_column qty
       then map (\<lambda>s. if cs_id s = cs_id cs
                      then s\<lparr>total_bins_counted := bins, total_qty_counted := qty\<rparr> else s)
              (counting_sessions st)
       else counting_sessions st)"
    unfolding st' by (simp add: update_totals_def update_session_def)
  from records acc more fields bins_def qty_def sessions
    confirmQuantity_store(2) [OF assms, of random now st]
  show ?thesis
    by blast
qed

lemma confirmQuantity_good:
  assumes a: "Active st c cs" and b: "selectedBin c = Some b"
    and w: "u_warehouse_name (wd_user c) \<noteq> None"
    and q: "parseInt (quantity c) = Finite q" "int32 q"
    and r: "0 \<le> random" "random < 1"
    and t: "total_bins_counted cs = Some n" "total_qty_counted cs = Some m"
    and i: "int32 (n + 1)" "int32 (m + q)"
  shows "\<exists>row.
    counting_records (fst (confirmQuantity random now st c)) = counting_records st @ [row] \<and>
    session_id row = cs_id cs \<and> bin_no row = bin_code b \<and> cr_qty_counted row = Some q \<and>
    difference row = Some 0 \<and>
    wd_user (snd (reloaded (confirmQuantity random now st c))) = wd_user c \<and>
    Active (fst (reloaded (confirmQuantity random now st c)))
      (snd (reloaded (confirmQuantity random now st c)))
      (cs\<lparr>total_bins_counted := Some (n + 1), total_qty_counted := Some (m + q)\<rparr>)"
proof -
  from a have cur: "currentSession c = Some cs"
    and act: "active_sessions st (u_id (wd_user c)) = [cs]"
    by (simp_all add: Active_def)
  have ex: "session_exists st (cs_id cs)"
    by (rule Active_in_store(4) [OF a])
  have ne: "quantity c \<noteq> []"
    using q(1) parseInt_Nil by auto
  define st' where "st' = fst (confirmQuantity random now st c)"
  define c' where "c' = snd (confirmQuantity random now st c)"
  define cs' where
    "cs' = cs\<lparr>total_bins_counted := Some (n + 1), total_qty_counted := Some (m + q)\<rparr>"
  have bins: "JSON_number (number_add (Finite (ToNumber (total_bins_counted cs))) (Finite 1)) =
      Some (n + 1)"
    using i(1) by (simp add: t number_add_exact del: number_add.simps)
  have qty: "JSON_number
      (number_add (Finite (ToNumber (total_qty_counted cs))) (parseInt (quantity c))) =
      Some (m + q)"
    using i(2) by (simp add: t q number_add_exact del: number_add.simps)
  from confirmQuantity_writes [OF b ne cur, of random now st]
  obtain row where
    records: "counting_records st' =
      counting_records st @ (if counting_records_accepts st row then [row] else [])"
    and acc: "counting_records_accepts st row =
      (session_exists st (cs_id cs) \<and> u_warehouse_name (wd_user c) \<noteq> None \<and>
       (\<exists>q. parseInt (quantity c) = Finite q \<and> int32 q) \<and>
       int32 (Math_floor (js_mul random 100) + 50))"
    and fields: "session_id row = cs_id cs" "bin_no row = bin_code b"
      "cr_qty_counted row = JSON_number (parseInt (quantity c))" "difference row = Some 0"
    and sessions: "counting_sessions st' =
      (if integer_column (Some (n + 1)) \<and> integer_column (Some (m + q))
       then map (\<lambda>s. if cs_id s = cs_id cs
                      then s\<lparr>total_bins_counted := Some (n + 1),
                             total_qty_counted := Some (m + q)\<rparr> else s)
              (counting_sessions st)
       else counting_sessions st)"
    and comp: "c' =
       c\<lparr>showConfirmation := False, selectedBin := None, quantity := [], searchTerm := []\<rparr>"
    unfolding st'_def c'_def bins qty by blast
  have "counting_records_accepts st row"
    unfolding acc using ex w q book_quantity_range(3) [OF r] by blast
  with records have records': "counting_records st' = counting_records st @ [row]"
    by simp
  have st2: "st' = update_totals (cs_id cs) (Some (n + 1)) (Some (m + q))
      (insert_counting_record
         \<lparr>cr_id = fresh_id (map cr_id (counting_records st)),
          session_id = cs_id cs,
          cr_warehouse_name = u_warehouse_name (wd_user c),
          cr_date = date_of now,
          team_leader_name = ''TL1'',
          cr_username = u_username (wd_user c),
          bin_no = bin_code b,
          cr_qty_counted = JSON_number (parseInt (quantity c)),
          qty_recounted = None,
          qty_as_per_books = Some (Math_floor (js_mul random 100) + 50),
          difference = Some 0,
          reason_for_difference = None,
          cr_created_at = now\<rparr> st)"
    unfolding st'_def confirmQuantity_store(1) [OF b ne cur] bins qty ..
  have act': "active_sessions st' (u_id (wd_user c)) = [cs']"
    unfolding st2 using i
    by (simp add: update_totals_def active_sessions_totals act cs'_def)
  have u: "wd_user c' = wd_user c"
    by (simp add: comp)
  have l: "loadData st' c' = c'\<lparr>currentSession := Some cs'\<rparr>"
    using act' by (intro loadData_one) (simp add: u)
  have re: "reloaded (confirmQuantity random now st c) = (st', c'\<lparr>currentSession := Some cs'\<rparr>)"
    by (simp add: reloaded_def st'_def [symmetric] c'_def [symmetric] l)
  have "Active st' (c'\<lparr>currentSession := Some cs'\<rparr>) cs'"
    using act' by (simp add: Active_def u)
  with records' fields u show ?thesis
    unfolding re st'_def [symmetric] cs'_def [symmetric]
    by (simp add: q(1))
qed

lemma record_count_good:
  assumes a: "Active st c cs"
    and w: "u_warehouse_name (wd_user c) \<noteq> None"
    and q: "parseInt qs = Finite q" "int32 q"
    and r: "0 \<le> random" "random < 1"
    and t: "total_bins_counted cs = Some n" "total_qty_counted cs = Some m"
    and i: "int32 (n + 1)" "int32 (m + q)"
  shows "\<exists>row.
    counting_records (fst (record_count b qs random now (st, c))) = counting_records st @ [row] \<and>
    session_id row = cs_id cs \<and> bin_no row = bin_code b \<and> cr_qty_counted row = Some q \<and>
    difference row = Some 0 \<and>
    wd_user (snd (reloaded (record_count b qs random now (st, c)))) = wd_user c \<and>
    Active (fst (reloaded (record_count b qs random now (st, c))))
      (snd (reloaded (record_count b qs random now (st, c))))
      (cs\<lparr>total_bins_counted := Some (n + 1), total_qty_counted := Some (m + q)\<rparr>)"
proof -
  define c1 where "c1 = handleQuantitySubmit (setQuantity qs (handleBinSelect b c))"
  have c1: "currentSession c1 = currentSession c" "wd_user c1 = wd_user c"
    "selectedBin c1 = Some b" "quantity c1 = qs"
    by (simp_all add: c1_def handleQuantitySubmit_def setQuantity_def handleBinSelect_def)
  have a1: "Active st c1 cs"
    using a by (simp add: Active_def c1)
  have w1: "u_warehouse_name (wd_user c1) \<noteq> None"
    using w by (simp add: c1)
  have q1: "parseInt (quantity c1) = Finite q"
    using q(1) by (simp add: c1)
  have rc: "record_count b qs random now (st, c) = confirmQuantity random now st c1"
    by (simp add: record_count_def c1_def)
  from confirmQuantity_good [OF a1 c1(3) w1 q1 q(2) r t i, of now]
  show ?thesis
    unfolding rc by (simp add: c1)
qed

lemma start_from_NoSession:
  assumes "NoSession st c" and "user_exists st (u_id (wd_user c))"
  shows "Active (fst (startCounting now st c)) (snd (startCounting now st c))
    \<lparr>cs_id = fresh_id (map cs_id (counting_sessions st)), cs_worker_id = u_id (wd_user c),
     start_time = now, end_time = None, status = active,
     total_bins_counted = Some 0, total_qty_counted = Some 0\<rparr>"
    and "wd_user (snd (startCounting now st c)) = wd_user c"
    and "counting_records (fst (startCounting now st c)) = counting_records st"
proof -
  from assms(1) have "active_sessions st (u_id (wd_user c)) = []"
    by (simp add: NoSession_def)
  then have "active_sessions (fst (startCounting now st c)) (u_id (wd_user c)) =
    [\<lparr>cs_id = fresh_id (map cs_id (counting_sessions st)), cs_worker_id = u_id (wd_user c),
      start_time = now, end_time = None, status = active,
      total_bins_counted = Some 0, total_qty_counted = Some 0\<rparr>]"
    using assms(2) by (simp add: active_sessions_start)
  moreover have "snd (startCounting now st c) =
    c\<lparr>currentSession := Some
      \<lparr>cs_id = fresh_id (map cs_id (counting_sessions st)), cs_worker_id = u_id (wd_user c),
       start_time = now, end_time = None, status = active,
       total_bins_counted = Some 0, total_qty_counted = Some 0\<rparr>\<rparr>"
    using assms(2) by (simp add: startCounting_def Let_def)
  ultimately show "Active (fst (startCounting now st c)) (snd (startCounting now st c))
    \<lparr>cs_id = fresh_id (map cs_id (counting_sessions st)), cs_worker_id = u_id (wd_user c),
     start_time = now, end_time = None, status = active,
     total_bins_counted = Some 0, total_qty_counted = Some 0\<rparr>"
    by (simp add: Active_def)
  show "wd_user (snd (startCounting now st c)) = wd_user c"
    by (simp add: startCounting_def Let_def)
  show "counting_records (fst (startCounting now st c)) = counting_records st"
    by (simp add: startCounting_def Let_def)
qed

lemma scenario_totals:
  assumes n: "NoSession st c" and u: "user_exists st (u_id (wd_user c))"
    and w: "u_warehouse_name (wd_user c) \<noteq> None"
    and r1: "0 \<le> r1" "r1 < 1" and r2: "0 \<le> r2" "r2 < 1"
  shows "\<exists>cs'.
    Active
      (fst (reloaded (record_count bin_A002 (code_units ''40'') r2 t2
         (reloaded (record_count bin_A001 (code_units ''85'') r1 t1 (startCounting t0 st c))))))
      (snd (reloaded (record_count bin_A002 (code_units ''40'') r2 t2
         (reloaded (record_count bin_A001 (code_units ''85'') r1 t1 (startCounting t0 st c))))))
      cs' \<and>
    total_bins_counted cs' = Some 2 \<and> total_qty_counted cs' = Some 125 \<and>
    length (counting_records
      (fst (reloaded (record_count bin_A002 (code_units ''40'') r2 t2
         (reloaded (record_count bin_A001 (code_units ''85'') r1 t1 (startCounting t0 st c))))))) =
      length (counting_records st) + 2"
proof -
  define cs0 where "cs0 =
    \<lparr>cs_id = fresh_id (map cs_id (counting_sessions st)), cs_worker_id = u_id (wd_user c),
     start_time = t0, end_time = None, status = active,
     total_bins_counted = Some (0::int), total_qty_counted = Some (0::int)\<rparr>"
  define st0 where "st0 = fst (startCounting t0 st c)"
  define c0 where "c0 = snd (startCounting t0 st c)"
  have s0: "startCounting t0 st c = (st0, c0)"
    by (simp add: st0_def c0_def)
  have a0: "Active st0 c0 cs0"
    unfolding st0_def c0_def cs0_def using n u by (rule start_from_NoSession(1))
  have u0: "wd_user c0 = wd_user c"
    unfolding c0_def using n u by (rule start_from_NoSession(2))
  have x0: "counting_records st0 = counting_records st"
    unfolding st0_def using n u by (rule start_from_NoSession(3))
  have t0: "total_bins_counted cs0 = Some 0" "total_qty_counted cs0 = Some 0"
    by (simp_all add: cs0_def)
  have w0: "u_warehouse_name (wd_user c0) \<noteq> None"
    using w by (simp add: u0)
  define s1 where "s1 = reloaded (record_count bin_A001 (code_units ''85'') r1 t1 (st0, c0))"
  define cs1 where "cs1 = cs0\<lparr>total_bins_counted := Some (0 + 1), total_qty_counted := Some (0 + 85)\<rparr>"
  from record_count_good [OF a0 w0 parseInt_85 _ r1 t0, of bin_A001 t1]
  obtain x1 where
    x1: "counting_records (fst (record_count bin_A001 (code_units ''85'') r1 t1 (st0, c0))) =
      counting_records st0 @ [x1]"
    and u1: "wd_user (snd s1) = wd_user c0"
    and a1: "Active (fst s1) (snd s1) cs1"
    unfolding s1_def cs1_def by (auto simp: int32_def)
  have x1': "counting_records (fst s1) = counting_records st0 @ [x1]"
    using x1 by (simp add: s1_def reloaded_def)
  have t1: "total_bins_counted cs1 = Some 1" "total_qty_counted cs1 = Some 85"
    by (simp_all add: cs1_def)
  have w1: "u_warehouse_name (wd_user (snd s1)) \<noteq> None"
    using w0 by (simp add: u1)
  define s2 where "s2 = reloaded (record_count bin_A002 (code_units ''40'') r2 t2 (fst s1, snd s1))"
  define cs2 where "cs2 = cs1\<lparr>total_bins_counted := Some (1 + 1), total_qty_counted := Some (85 + 40)\<rparr>"
  from record_count_good [OF a1 w1 parseInt_40 _ r2 t1, of bin_A002 t2]
  obtain x2 where
    x2: "counting_records (fst (record_count bin_A002 (code_units ''40'') r2 t2 (fst s1, snd s1))) =
      counting_records (fst s1) @ [x2]"
    and a2: "Active (fst s2) (snd s2) cs2"
    unfolding s2_def cs2_def by (auto simp: int32_def)
  have x2': "counting_records (fst s2) = counting_records (fst s1) @ [x2]"
    using x2 by (simp add: s2_def reloaded_def)
  have "total_bins_counted cs2 = Some 2" "total_qty_counted cs2 = Some 125"
    by (simp_all add: cs2_def)
  moreover have "length (counting_records (fst s2)) = length (counting_records st) + 2"
    by (simp add: x2' x1' x0)
  moreover note a2
  ultimately show ?thesis
    unfolding s2_def s1_def s0 by auto
qed

lemma demo_NoSession:
  "NoSession demo_store demo_dashboard"
  "user_exists demo_store (u_id (wd_user demo_dashboard))"
  "u_warehouse_name (wd_user demo_dashboard) \<noteq> None"
  by (simp_all add: NoSession_def active_sessions_def demo_store_def demo_dashboard_def
      user_exists_def demo_users)

lemma code_units_Nil [simp]: "code_units s = [] \<longleftrightarrow> s = []"
  by (simp add: code_units_def)

lemma demo_typed_eval:
  "demo_typed q =
     demo_dashboard\<lparr>currentSession := Some demo_session, selectedBin := Some bin_A001,
       quantity := code_units q, showConfirmation := q \<noteq> []\<rparr>"
  by (simp add: demo_typed_def started_once_eval handleQuantitySubmit_def setQuantity_def
      handleBinSelect_def demo_dashboard_def)

lemma demo_typed_fields:
  "currentSession (demo_typed q) = Some demo_session"
  "selectedBin (demo_typed q) = Some bin_A001"
  "quantity (demo_typed q) = code_units q"
  "wd_user (demo_typed q) = demo_worker"
  by (simp_all add: demo_typed_eval demo_dashboard_def)

lemma demo_typed_Active:
  "Active (fst started_once) (demo_typed q) demo_session"
  using started_once_Active
  by (simp add: Active_def demo_typed_fields started_once_eval demo_dashboard_def)

text \<open>
  C5. Recording a count, as the code does it. \<^verbatim>\<open>confirmQuantity\<close>
  works on the copy of the session that the component holds. Without a selected bin, a
  typed quantity or a held session it does nothing. With all three it sends exactly one
  counting record that references the copy's id, with \<^verbatim>\<open>parseInt\<close>
  of the typed quantity as \<open>qty_counted\<close>; the table stores it exactly when
  that id is a stored session, the worker has a warehouse name and the parsed quantity is a
  finite number that fits an integer column, and otherwise no record is added. Then,
  whatever became of the record, it sends the totals of the copy plus one bin and plus the
  parsed quantity (\<^verbatim>\<open>null\<close> for a quantity that is no finite number)
  to the rows with the copy's id: the stored totals are overwritten from the copy, not
  incremented, and the table rejects the update as a whole when a value does not fit. From
  the state \<open>Active\<close>, where the copy is the worker's one active session as
  stored, and with a quantity \<open>q\<close> that fits, exactly one record is appended,
  the stored session has one bin more and \<open>q\<close> more in quantity, and the reload
  gives the component that session. In particular, starting a session from no session,
  recording bin A001 with 85 and, when the reload has been answered, bin A002 with 40 gives
  a session with \<open>total_bins_counted = 2\<close> and
  \<open>total_qty_counted = 125\<close>.
\<close>

theorem record_count_appends_and_sets_totals:
  "(selectedBin c = None \<or> quantity c = [] \<or> currentSession c = None \<longrightarrow>
      confirmQuantity random now st c = (st, c)) \<and>
   (selectedBin c = Some b \<and> quantity c \<noteq> [] \<and> currentSession c = Some cs \<longrightarrow>
      (\<exists>row bins qty.
         counting_records (fst (confirmQuantity random now st c)) =
           counting_records st @ (if counting_records_accepts st row then [row] else []) \<and>
         counting_records_accepts st row =
           (session_exists st (cs_id cs) \<and> u_warehouse_name (wd_user c) \<noteq> None \<and>
            (\<exists>q. parseInt (quantity c) = Finite q \<and> int32 q) \<and>
            int32 (Math_floor (js_mul random 100) + 50)) \<and>
         cr_id row = fresh_id (map cr_id (counting_records st)) \<and>
         session_id row = cs_id cs \<and> bin_no row = bin_code b \<and>
         cr_warehouse_name row = u_warehouse_name (wd_user c) \<and>
         cr_date row = date_of now \<and> team_leader_name row = ''TL1'' \<and>
         cr_username row = u_username (wd_user c) \<and> cr_created_at row = now \<and>
         qty_recounted row = None \<and> reason_for_difference row = None \<and>
         cr_qty_counted row = JSON_number (parseInt (quantity c)) \<and>
         qty_as_per_books row = Some (Math_floor (js_mul random 100) + 50) \<and>
         difference row = Some 0 \<and>
         bins = JSON_number (number_add (Finite (ToNumber (total_bins_counted cs))) (Finite 1)) \<and>
         qty = JSON_number
                 (number_add (Finite (ToNumber (total_qty_counted cs))) (parseInt (quantity c))) \<and>
         counting_sessions (fst (confirmQuantity random now st c)) =
           (if integer_column bins \<and> integer_column qty
            then map (\<lambda>s. if cs_id s = cs_id cs
                           then s\<lparr>total_bins_counted := bins, total_qty_counted := qty\<rparr> else s)
                   (counting_sessions st)
            else counting_sessions st) \<and>
         snd (confirmQuantity random now st c) =
           c\<lparr>showConfirmation := False, selectedBin := None, quantity := [], searchTerm := []\<rparr>)) \<and>
   (Active st c cs \<and> selectedBin c = Some b \<and> u_warehouse_name (wd_user c) \<noteq> None \<and>
    parseInt (quantity c) = Finite q \<and> int32 q \<and> 0 \<le> random \<and> random < 1 \<and>
    total_bins_counted cs = Some n \<and> total_qty_counted cs = Some m \<and>
    int32 (n + 1) \<and> int32 (m + q) \<longrightarrow>
      (\<exists>row.
         counting_records (fst (confirmQuantity random now st c)) = counting_records st @ [row] \<and>
         session_id row = cs_id cs \<and> bin_no row = bin_code b \<and> cr_qty_counted row = Some q \<and>
         difference row = Some 0 \<and>
         wd_user (snd (reloaded (confirmQuantity random now st c))) = wd_user c \<and>
         Active (fst (reloaded (confirmQuantity random now st c)))
           (snd (reloaded (confirmQuantity random now st c)))
           (cs\<lparr>total_bins_counted := Some (n + 1), total_qty_counted := Some (m + q)\<rparr>))) \<and>
   (NoSession st c \<and> user_exists st (u_id (wd_user c)) \<and> u_warehouse_name (wd_user c) \<noteq> None \<and>
    0 \<le> r1 \<and> r1 < 1 \<and> 0 \<le> r2 \<and> r2 < 1 \<longrightarrow>
      (\<exists>cs'.
         Active
           (fst (reloaded (record_count bin_A002 (code_units ''40'') r2 t2
              (reloaded (record_count bin_A001 (code_units ''85'') r1 t1
                 (startCounting t0 st c))))))
           (snd (reloaded (record_count bin_A002 (code_units ''40'') r2 t2
              (reloaded (record_count bin_A001 (code_units ''85'') r1 t1
                 (startCounting t0 st c))))))
           cs' \<and>
         total_bins_counted cs' = Some 2 \<and> total_qty_counted cs' = Some 125 \<and>
         length (counting_records
           (fst (reloaded (record_count bin_A002 (code_units ''40'') r2 t2
              (reloaded (record_count bin_A001 (code_units ''85'') r1 t1
                 (startCounting t0 st c))))))) =
           length (counting_records st) + 2))"
proof (intro conjI impI)
  assume "selectedBin c = None \<or> quantity c = [] \<or> currentSession c = None"
  then show "confirmQuantity random now st c = (st, c)"
    by (rule confirmQuantity_idle)
next
  assume "selectedBin c = Some b \<and> quantity c \<noteq> [] \<and> currentSession c = Some cs"
  then have "selectedBin c = Some b" "quantity c \<noteq> []" "currentSession c = Some cs"
    by simp_all
  then show "\<exists>row bins qty.
         counting_records (fst (confirmQuantity random now st c)) =
           counting_records st @ (if counting_records_accepts st row then [row] else []) \<and>
         counting_records_accepts st row =
           (session_exists st (cs_id cs) \<and> u_warehouse_name (wd_user c) \<noteq> None \<and>
            (\<exists>q. parseInt (quantity c) = Finite q \<and> int32 q) \<and>
            int32 (Math_floor (js_mul random 100) + 50)) \<and>
         cr_id row = fresh_id (map cr_id (counting_records st)) \<and>
         session_id row = cs_id cs \<and> bin_no row = bin_code b \<and>
         cr_warehouse_name row = u_warehouse_name (wd_user c) \<and>
         cr_date row = date_of now \<and> team_leader_name row = ''TL1'' \<and>
         cr_username row = u_username (wd_user c) \<and> cr_created_at row = now \<and>
         qty_recounted row = None \<and> reason_for_difference row = None \<and>
         cr_qty_counted row = JSON_number (parseInt (quantity c)) \<and>
         qty_as_per_books row = Some (Math_floor (js_mul random 100) + 50) \<and>
         difference row = Some 0 \<and>
         bins = JSON_number (number_add (Finite (ToNumber (total_bins_counted cs))) (Finite 1)) \<and>
         qty = JSON_number
                 (number_add (Finite (ToNumber (total_qty_counted cs))) (parseInt (quantity c))) \<and>
         counting_sessions (fst (confirmQuantity random now st c)) =
           (if integer_column bins \<and> integer_column qty
            then map (\<lambda>s. if cs_id s = cs_id cs
                           then s\<lparr>total_bins_counted := bins, total_qty_counted := qty\<rparr> else s)
                   (counting_sessions st)
            else counting_sessions st) \<and>
         snd (confirmQuantity random now st c) =
           c\<lparr>showConfirmation := False, selectedBin := None, quantity := [], searchTerm := []\<rparr>"
    by (rule confirmQuantity_writes)
next
  assume "Active st c cs \<and> selectedBin c = Some b \<and> u_warehouse_name (wd_user c) \<noteq> None \<and>
    parseInt (quantity c) = Finite q \<and> int32 q \<and> 0 \<le> random \<and> random < 1 \<and>
    total_bins_counted cs = Some n \<and> total_qty_counted cs = Some m \<and>
    int32 (n + 1) \<and> int32 (m + q)"
  then have "Active st c cs" "selectedBin c = Some b" "u_warehouse_name (wd_user c) \<noteq> None"
    "parseInt (quantity c) = Finite q" "int32 q" "0 \<le> random" "random < 1"
    "total_bins_counted cs = Some n" "total_qty_counted cs = Some m"
    "int32 (n + 1)" "int32 (m + q)"
    by simp_all
  then show "\<exists>row.
         counting_records (fst (confirmQuantity random now st c)) = counting_records st @ [row] \<and>
         session_id row = cs_id cs \<and> bin_no row = bin_code b \<and> cr_qty_counted row = Some q \<and>
         difference row = Some 0 \<and>
         wd_user (snd (reloaded (confirmQuantity random now st c))) = wd_user c \<and>
         Active (fst (reloaded (confirmQuantity random now st c)))
           (snd (reloaded (confirmQuantity random now st c)))
           (cs\<lparr>total_bins_counted := Some (n + 1), total_qty_counted := Some (m + q)\<rparr>)"
    by (rule confirmQuantity_good)
next
  assume "NoSession st c \<and> user_exists st (u_id (wd_user c)) \<and> u_warehouse_name (wd_user c) \<noteq> None \<and>
    0 \<le> r1 \<and> r1 < 1 \<and> 0 \<le> r2 \<and> r2 < 1"
  then have "NoSession st c" "user_exists st (u_id (wd_user c))"
    "u_warehouse_name (wd_user c) \<noteq> None" "0 \<le> r1" "r1 < 1" "0 \<le> r2" "r2 < 1"
    by simp_all
  then show "\<exists>cs'.
         Active
           (fst (reloaded (record_count bin_A002 (code_units ''40'') r2 t2
              (reloaded (record_count bin_A001 (code_units ''85'') r1 t1
                 (startCounting t0 st c))))))
           (snd (reloaded (record_count bin_A002 (code_units ''40'') r2 t2
              (reloaded (record_count bin_A001 (code_units ''85'') r1 t1
                 (startCounting t0 st c))))))
           cs' \<and>
         total_bins_counted cs' = Some 2 \<and> total_qty_counted cs' = Some 125 \<and>
         length (counting_records
           (fst (reloaded (record_count bin_A002 (code_units ''40'') r2 t2
              (reloaded (record_count bin_A001 (code_units ''85'') r1 t1
                 (startCounting t0 st c))))))) =
           length (counting_records st) + 2"
    by (rule scenario_totals)
qed

theorem record_count_appends_and_sets_totals_witness:
  "selectedBin (demo_typed ''85'') = Some bin_A001 \<and> quantity (demo_typed ''85'') \<noteq> [] \<and>
   currentSession (demo_typed ''85'') = Some demo_session \<and>
   Active (fst started_once) (demo_typed ''85'') demo_session \<and>
   u_warehouse_name (wd_user (demo_typed ''85'')) \<noteq> None \<and>
   parseInt (quantity (demo_typed ''85'')) = Finite 85 \<and> int32 85 \<and>
   (0 :: rat) \<le> 1 / 2 \<and> (1 / 2 :: rat) < 1 \<and> (0 :: rat) \<le> 1 / 4 \<and> (1 / 4 :: rat) < 1 \<and>
   total_bins_counted demo_session = Some 0 \<and> total_qty_counted demo_session = Some 0 \<and>
   int32 (0 + 1) \<and> int32 (0 + 85) \<and>
   (\<exists>row.
      counting_records (fst (confirmQuantity (1 / 2) 60000 (fst started_once) (demo_typed ''85''))) =
        counting_records (fst started_once) @ [row] \<and>
      session_id row = cs_id demo_session \<and> bin_no row = bin_code bin_A001 \<and>
      cr_qty_counted row = Some 85 \<and> difference row = Some 0 \<and>
      counting_sessions (fst (confirmQuantity (1 / 2) 60000 (fst started_once) (demo_typed ''85''))) =
        [demo_session\<lparr>total_bins_counted := Some 1, total_qty_counted := Some 85\<rparr>] \<and>
      Active (fst (reloaded (confirmQuantity (1 / 2) 60000 (fst started_once) (demo_typed ''85''))))
        (snd (reloaded (confirmQuantity (1 / 2) 60000 (fst started_once) (demo_typed ''85''))))
        (demo_session\<lparr>total_bins_counted := Some (0 + 1), total_qty_counted := Some (0 + 85)\<rparr>)) \<and>
   currentSession demo_dashboard = None \<and>
   confirmQuantity (1 / 2) 60000 demo_store demo_dashboard = (demo_store, demo_dashboard) \<and>
   NoSession demo_store demo_dashboard \<and> user_exists demo_store (u_id (wd_user demo_dashboard)) \<and>
   u_warehouse_name (wd_user demo_dashboard) \<noteq> None \<and>
   (\<exists>cs'.
      Active
        (fst (reloaded (record_count bin_A002 (code_units ''40'') (1 / 4) 120000
           (reloaded (record_count bin_A001 (code_units ''85'') (1 / 2) 60000
              (startCounting 0 demo_store demo_dashboard))))))
        (snd (reloaded (record_count bin_A002 (code_units ''40'') (1 / 4) 120000
           (reloaded (record_count bin_A001 (code_units ''85'') (1 / 2) 60000
              (startCounting 0 demo_store demo_dashboard))))))
        cs' \<and>
      total_bins_counted cs' = Some 2 \<and> total_qty_counted cs' = Some 125 \<and>
      length (counting_records
        (fst (reloaded (record_count bin_A002 (code_units ''40'') (1 / 4) 120000
           (reloaded (record_count bin_A001 (code_units ''85'') (1 / 2) 60000
              (startCounting 0 demo_store demo_dashboard))))))) =
        length (counting_records demo_store) + 2)"
proof -
  let ?c = "demo_typed ''85''"
  let ?r = "confirmQuantity (1 / 2) 60000 (fst started_once) ?c"
  have h: "selectedBin ?c = Some bin_A001" "quantity ?c \<noteq> []"
    "currentSession ?c = Some demo_session"
    "u_warehouse_name (wd_user ?c) \<noteq> None"
    "parseInt (quantity ?c) = Finite 85"
    by (simp_all add: demo_typed_fields parseInt_85 demo_worker_def)
  have a: "Active (fst started_once) ?c demo_session"
    by (rule demo_typed_Active)
  have i: "int32 85" "int32 (0 + 1)" "int32 (0 + 85)"
    by (simp_all add: int32_def)
  have r: "(0 :: rat) \<le> 1 / 2" "(1 / 2 :: rat) < 1" "(0 :: rat) \<le> 1 / 4" "(1 / 4 :: rat) < 1"
    by simp_all
  have t: "total_bins_counted demo_session = Some 0" "total_qty_counted demo_session = Some 0"
    by (simp_all add: demo_session_def)
  note thm1 = record_count_appends_and_sets_totals
      [where st = "fst started_once" and c = ?c and cs = demo_session and b = bin_A001
        and q = 85 and n = 0 and m = 0 and random = "1 / 2" and now = 60000
        and ?r1.0 = "1 / 2" and ?t1.0 = 60000 and ?t0.0 = 0 and ?r2.0 = "1 / 4"
        and ?t2.0 = 120000]
  note thm2 = record_count_appends_and_sets_totals
      [where st = demo_store and c = demo_dashboard and cs = demo_session and b = bin_A001
        and q = 85 and n = 0 and m = 0 and random = "1 / 2" and now = 60000
        and ?r1.0 = "1 / 2" and ?t1.0 = 60000 and ?t0.0 = 0 and ?r2.0 = "1 / 4"
        and ?t2.0 = 120000]
  from thm1 h(1-3) obtain bins qty where
    b: "bins = JSON_number (number_add (Finite (ToNumber (total_bins_counted demo_session))) (Finite 1))"
    and q: "qty = JSON_number
              (number_add (Finite (ToNumber (total_qty_counted demo_session))) (parseInt (quantity ?c)))"
    and s: "counting_sessions (fst ?r) =
           (if integer_column bins \<and> integer_column qty
            then map (\<lambda>s. if cs_id s = cs_id demo_session
                           then s\<lparr>total_bins_counted := bins, total_qty_counted := qty\<rparr> else s)
                   (counting_sessions (fst started_once))
            else counting_sessions (fst started_once))"
    by blast
  have b': "bins = Some 1"
    using number_add_exact [of 0 1] by (simp add: b t int32_def del: number_add.simps)
  have q': "qty = Some 85"
    using number_add_exact [of 0 85] by (simp add: q t h(5) int32_def del: number_add.simps)
  have s': "counting_sessions (fst ?r) =
      [demo_session\<lparr>total_bins_counted := Some 1, total_qty_counted := Some 85\<rparr>]"
    unfolding s b' q' by (simp add: int32_def started_once_eval demo_store_def)
  from thm1 a h i r t obtain row where
    "counting_records (fst ?r) = counting_records (fst started_once) @ [row]"
    "session_id row = cs_id demo_session" "bin_no row = bin_code bin_A001"
    "cr_qty_counted row = Some 85" "difference row = Some 0"
    "Active (fst (reloaded ?r)) (snd (reloaded ?r))
        (demo_session\<lparr>total_bins_counted := Some (0 + 1), total_qty_counted := Some (0 + 85)\<rparr>)"
    by blast
  with s' have p1: "\<exists>row.
      counting_records (fst ?r) = counting_records (fst started_once) @ [row] \<and>
      session_id row = cs_id demo_session \<and> bin_no row = bin_code bin_A001 \<and>
      cr_qty_counted row = Some 85 \<and> difference row = Some 0 \<and>
      counting_sessions (fst ?r) =
        [demo_session\<lparr>total_bins_counted := Some 1, total_qty_counted := Some 85\<rparr>] \<and>
      Active (fst (reloaded ?r)) (snd (reloaded ?r))
        (demo_session\<lparr>total_bins_counted := Some (0 + 1), total_qty_counted := Some (0 + 85)\<rparr>)"
    by blast
  have none: "currentSession demo_dashboard = None"
    by (simp add: demo_dashboard_def)
  with thm2 have p0:
    "confirmQuantity (1 / 2) 60000 demo_store demo_dashboard = (demo_store, demo_dashboard)"
    by blast
  from thm2 demo_NoSession r have p2: "\<exists>cs'.
      Active
        (fst (reloaded (record_count bin_A002 (code_units ''40'') (1 / 4) 120000
           (reloaded (record_count bin_A001 (code_units ''85'') (1 / 2) 60000
              (startCounting 0 demo_store demo_dashboard))))))
        (snd (reloaded (record_count bin_A002 (code_units ''40'') (1 / 4) 120000
           (reloaded (record_count bin_A001 (code_units ''85'') (1 / 2) 60000
              (startCounting 0 demo_store demo_dashboard))))))
        cs' \<and>
      total_bins_counted cs' = Some 2 \<and> total_qty_counted cs' = Some 125 \<and>
      length (counting_records
        (fst (reloaded (record_count bin_A002 (code_units ''40'') (1 / 4) 120000
           (reloaded (record_count bin_A001 (code_units ''85'') (1 / 2) 60000
              (startCounting 0 demo_store demo_dashboard))))))) =
        length (counting_records demo_store) + 2"
    by blast
  from h a i r t p1 none p0 demo_NoSession p2 show ?thesis
    by (intro conjI)
qed

text \<open>
  C5 as the specification states it fails where the table rejects the writes. The session
  is active and the component holds it as stored; the worker types 3000000000, a
  non-negative integer, and confirms: the store is as it was, with no record appended and
  the totals not incremented.
\<close>

theorem count_of_3000000000_is_dropped:
  "Active (fst started_once) (demo_typed ''3000000000'') demo_session \<and>
   parseInt (quantity (demo_typed ''3000000000'')) = Finite 3000000000 \<and>
   fst (confirmQuantity (1 / 2) 60000 (fst started_once) (demo_typed ''3000000000'')) =
     fst started_once"
proof -
  let ?c = "demo_typed ''3000000000''"
  have h: "selectedBin ?c = Some bin_A001" "quantity ?c \<noteq> []"
    "currentSession ?c = Some demo_session"
    by (simp_all add: demo_typed_fields)
  have p: "parseInt (quantity ?c) = Finite 3000000000"
    by (simp add: demo_typed_fields parseInt_3000000000)
  have n: "Number_value 3000000000 = Finite 3000000000"
    by (rule Number_value_exact) simp
  have "fst (confirmQuantity (1 / 2) 60000 (fst started_once) ?c) = fst started_once"
    unfolding confirmQuantity_store(1) [OF h] p
    by (simp add: update_totals_def insert_counting_record_def counting_records_accepts_def
        demo_session_def n int32_def)
  with demo_typed_Active p show ?thesis
    by simp
qed

text \<open>
  The totals that are written are those of the copy. When the worker confirms a second
  count before the reload of the first has been answered, the component still holds the
  session with the totals it had: both records are stored, and the stored totals are one
  bin and 40, not two bins and 125.
\<close>

lemma second_count_before_reload:
  "length (counting_records
     (fst (record_count bin_A002 (code_units ''40'') (1 / 4) 120000
        (record_count bin_A001 (code_units ''85'') (1 / 2) 60000 started_once)))) = 2 \<and>
   counting_sessions
     (fst (record_count bin_A002 (code_units ''40'') (1 / 4) 120000
        (record_count bin_A001 (code_units ''85'') (1 / 2) 60000 started_once))) =
     [demo_session\<lparr>total_bins_counted := Some 1, total_qty_counted := Some 40\<rparr>]"
proof -
  have n: "Number_value 1 = Finite 1" "Number_value 85 = Finite 85" "Number_value 40 = Finite 40"
    by (rule Number_value_exact, simp)+
  have b: "int32 (Math_floor (js_mul (1 / 2) 100) + 50)" "int32 (Math_floor (js_mul (1 / 4) 100) + 50)"
    by (rule book_quantity_range(3), simp, simp)+
  have "record_count bin_A001 (code_units ''85'') (1 / 2) 60000 started_once =
    (demo_store\<lparr>counting_sessions :=
         [demo_session\<lparr>total_bins_counted := Some 1, total_qty_counted := Some 85\<rparr>],
       counting_records :=
         [\<lparr>cr_id = 1, session_id = 1, cr_warehouse_name = Some ''Warehouse A'',
           cr_date = 0, team_leader_name = ''TL1'', cr_username = ''worker1'',
           bin_no = ''A001'', cr_qty_counted = Some 85, qty_recounted = None,
           qty_as_per_books = Some (Math_floor (js_mul (1 / 2) 100) + 50),
           difference = Some 0, reason_for_difference = None, cr_created_at = 60000\<rparr>]\<rparr>,
     demo_dashboard\<lparr>currentSession := Some demo_session\<rparr>)"
    using b(1)
    by (simp add: record_count_def started_once_eval handleQuantitySubmit_def setQuantity_def
        handleBinSelect_def confirmQuantity_def parseInt_85 n update_totals_def
        update_session_def insert_counting_record_def counting_records_accepts_def
        session_exists_def demo_store_def demo_dashboard_def demo_worker_def demo_session_def
        bin_A001_def int32_def fresh_id_def date_of_def Let_def)
  then show ?thesis
    using b(2)
    by (simp add: record_count_def handleQuantitySubmit_def setQuantity_def
        handleBinSelect_def confirmQuantity_def parseInt_40 n update_totals_def
        update_session_def insert_counting_record_def counting_records_accepts_def
        session_exists_def demo_store_def demo_dashboard_def demo_worker_def demo_session_def
        bin_A002_def int32_def fresh_id_def date_of_def Let_def)
qed

text \<open>
  A quantity that \<^verbatim>\<open>parseInt\<close> does not understand is sent as \<^verbatim>\<open>null\<close>: the table rejects
  the record, and the update counts the bin and stores no quantity total.
\<close>

lemma count_of_no_number:
  "parseInt (quantity (demo_typed ''.5e1'')) = NaN \<and>
   counting_records
     (fst (confirmQuantity (1 / 2) 60000 (fst started_once) (demo_typed ''.5e1''))) = [] \<and>
   counting_sessions
     (fst (confirmQuantity (1 / 2) 60000 (fst started_once) (demo_typed ''.5e1''))) =
     [demo_session\<lparr>total_bins_counted := Some 1, total_qty_counted := None\<rparr>]"
proof -
  let ?c = "demo_typed ''.5e1''"
  have h: "selectedBin ?c = Some bin_A001" "quantity ?c \<noteq> []"
    "currentSession ?c = Some demo_session"
    by (simp_all add: demo_typed_fields)
  have p: "parseInt (quantity ?c) = NaN"
    by (simp add: demo_typed_fields parseInt_examples)
  have n: "Number_value 1 = Finite 1"
    by (rule Number_value_exact) simp
  have "fst (confirmQuantity (1 / 2) 60000 (fst started_once) ?c) =
      demo_store\<lparr>counting_sessions :=
        [demo_session\<lparr>total_bins_counted := Some 1, total_qty_counted := None\<rparr>]\<rparr>"
    unfolding confirmQuantity_store(1) [OF h] p
    by (simp add: update_totals_def update_session_def insert_counting_record_def
        counting_records_accepts_def started_once_eval demo_store_def demo_session_def n
        int32_def)
  with p show ?thesis
    by (simp add: demo_store_def)
qed

section \<open>What the operations leave alone\<close>

lemma confirmQuantity_cases:
  "confirmQuantity random now st c = (st, c) \<or>
   (\<exists>b cs. selectedBin c = Some b \<and> quantity c \<noteq> [] \<and> currentSession c = Some cs)"
  using confirmQuantity_idle [of c random now st] by (cases "selectedBin c"; cases "currentSession c") auto

lemma confirmQuantity_active_length:
  "length (active_sessions (fst (confirmQuantity random now st c)) w) = length (active_sessions st w)"
proof -
  from confirmQuantity_cases [of random now st c]
  consider "confirmQuantity random now st c = (st, c)"
    | b cs where "selectedBin c = Some b" "quantity c \<noteq> []" "currentSession c = Some cs"
    by blast
  then show ?thesis
  proof cases
    case 1
    then show ?thesis
      by simp
  next
    case 2
    show ?thesis
      unfolding confirmQuantity_store(1) [OF 2] by (simp add: active_sessions_update_totals)
  qed
qed

lemma confirmQuantity_efficiency:
  "worker_efficiency_rows (fst (confirmQuantity random now st c)) = worker_efficiency_rows st"
proof -
  from confirmQuantity_cases [of random now st c]
  consider "confirmQuantity random now st c = (st, c)"
    | b cs where "selectedBin c = Some b" "quantity c \<noteq> []" "currentSession c = Some cs"
    by blast
  then show ?thesis
  proof cases
    case 1
    then show ?thesis
      by simp
  next
    case 2
    show ?thesis
      unfolding confirmQuantity_store(1) [OF 2] by simp
  qed
qed

lemma confirmQuantity_records:
  "counting_records (fst (confirmQuantity random now st c)) = counting_records st \<or>
   (\<exists>row q. counting_records (fst (confirmQuantity random now st c)) = counting_records st @ [row] \<and>
      difference row = Some 0 \<and>
      parseInt (quantity c) = Finite q \<and> cr_qty_counted row = Some q \<and>
      qty_as_per_books row = Some (Math_floor (js_mul random 100) + 50))"
proof -
  from confirmQuantity_cases [of random now st c]
  consider "confirmQuantity random now st c = (st, c)"
    | b cs where "selectedBin c = Some b" "quantity c \<noteq> []" "currentSession c = Some cs"
    by blast
  then show ?thesis
  proof cases
    case 1
    then show ?thesis
      by simp
  next
    case 2
    from confirmQuantity_writes [OF 2, of random now st]
    obtain row where
      records: "counting_records (fst (confirmQuantity random now st c)) =
        counting_records st @ (if counting_records_accepts st row then [row] else [])"
      and acc: "counting_records_accepts st row =
        (session_exists st (cs_id cs) \<and> u_warehouse_name (wd_user c) \<noteq> None \<and>
         (\<exists>q. parseInt (quantity c) = Finite q \<and> int32 q) \<and>
         int32 (Math_floor (js_mul random 100) + 50))"
      and fields: "cr_qty_counted row = JSON_number (parseInt (quantity c))"
        "qty_as_per_books row = Some (Math_floor (js_mul random 100) + 50)"
        "difference row = Some 0"
      by blast
    show ?thesis
    proof (cases "counting_records_accepts st row")
      case True
      with acc obtain q where q: "parseInt (quantity c) = Finite q"
        by blast
      then have "cr_qty_counted row = Some q"
        by (simp add: fields(1))
      with True records fields(2,3) q show ?thesis
        by auto
    next
      case False
      with records show ?thesis
        by simp
    qed
  qed
qed

lemma endCounting_active_length:
  "length (active_sessions (fst (endCounting now st c)) w) \<le> length (active_sessions st w)"
proof (cases "currentSession c")
  case None
  then show ?thesis
    by (simp add: endCounting_no_session)
next
  case (Some cs)
  show ?thesis
    unfolding endCounting_store(1) [OF Some] by (simp add: active_sessions_close)
qed

lemma endCounting_efficiency:
  "case currentSession c of
     None \<Rightarrow> worker_efficiency_rows (fst (endCounting now st c)) = worker_efficiency_rows st
   | Some cs \<Rightarrow>
       \<exists>row. ranking row = 1 \<and>
         worker_efficiency_rows (fst (endCounting now st c)) =
           worker_efficiency_rows st @ (if worker_efficiency_accepts row then [row] else [])"
proof (cases "currentSession c")
  case None
  then show ?thesis
    by (simp add: endCounting_no_session)
next
  case (Some cs)
  define row where "row =
    \<lparr>we_id = fresh_id (map we_id (worker_efficiency_rows st)),
     we_warehouse_name = u_warehouse_name (wd_user c),
     we_date = date_of now,
     we_username = u_username (wd_user c),
     bins_counted = total_bins_counted cs,
     qty_counted = total_qty_counted cs,
     time_taken_minutes = timeTakenMinutes now (start_time cs),
     efficiency_score =
       efficiencyScore (ToNumber (total_bins_counted cs)) (timeTakenMinutes now (start_time cs)),
     ranking = 1,
     we_created_at = now\<rparr>"
  have "ranking row = 1"
    by (simp add: row_def)
  moreover have "worker_efficiency_rows (fst (endCounting now st c)) =
      worker_efficiency_rows st @ (if worker_efficiency_accepts row then [row] else [])"
    unfolding endCounting_store(1) [OF Some] row_def [symmetric]
    by (simp add: insert_worker_efficiency_def)
  ultimately show ?thesis
    using Some by auto
qed

lemma endCounting_rows_length:
  assumes "currentSession c = Some cs"
  shows "length (worker_efficiency_rows (fst (endCounting now st c))) =
    length (worker_efficiency_rows st) +
    (if u_warehouse_name (wd_user c) \<noteq> None \<and>
        integer_not_null (total_bins_counted cs) \<and>
        integer_not_null (total_qty_counted cs) \<and>
        int32 (timeTakenMinutes now (start_time cs)) \<and>
        int32 (efficiencyScore (ToNumber (total_bins_counted cs))
                 (timeTakenMinutes now (start_time cs)))
     then 1 else 0)"
  unfolding endCounting_store(1) [OF assms]
  by (simp add: insert_worker_efficiency_def worker_efficiency_accepts_def int32_def)

lemma endCounting_records:
  "counting_records (fst (endCounting now st c)) = counting_records st"
proof (cases "currentSession c")
  case None
  then show ?thesis
    by (simp add: endCounting_no_session)
next
  case (Some cs)
  show ?thesis
    unfolding endCounting_store(1) [OF Some] by simp
qed

lemma otp_operations_tables:
  "counting_sessions (snd (verifyOTP now st u code)) = counting_sessions st"
  "counting_records (snd (verifyOTP now st u code)) = counting_records st"
  "worker_efficiency_rows (snd (verifyOTP now st u code)) = worker_efficiency_rows st"
  "counting_sessions (snd (createOTPRequest random now st u leader)) = counting_sessions st"
  "counting_records (snd (createOTPRequest random now st u leader)) = counting_records st"
  "worker_efficiency_rows (snd (createOTPRequest random now st u leader)) = worker_efficiency_rows st"
  "counting_sessions (fst (snd (handleOTPVerification now st d))) = counting_sessions st"
  "counting_records (fst (snd (handleOTPVerification now st d))) = counting_records st"
  "worker_efficiency_rows (fst (snd (handleOTPVerification now st d))) = worker_efficiency_rows st"
  by (auto simp: verifyOTP_def createOTPRequest_def handleOTPVerification_def Let_def
      split: sum.splits option.splits)

lemma otp_operations_active:
  "active_sessions (snd (verifyOTP now st u code)) w = active_sessions st w"
  "active_sessions (snd (createOTPRequest random now st u leader)) w = active_sessions st w"
  "active_sessions (fst (snd (handleOTPVerification now st d))) w = active_sessions st w"
  by (simp_all add: active_sessions_def otp_operations_tables)

lemma startCounting_tables:
  "counting_records (fst (startCounting now st c)) = counting_records st"
  "worker_efficiency_rows (fst (startCounting now st c)) = worker_efficiency_rows st"
  by (simp_all add: startCounting_def Let_def)

text \<open>
  C8. An efficiency row is written in one place, at the end of a session, and there with
  \<open>ranking = 1\<close>: \<^verbatim>\<open>endCounting\<close> on a dashboard with a session sends exactly one row, its
  ranking is 1, and the table appends it when it accepts it; no other operation, and no
  \<^verbatim>\<open>endCounting\<close> without a session, changes the table. Every operation keeps the rows that were there,
  in their place and as they were: no row is revisited or updated. (The sample rows that
  the migration inserts are rows that were there.)
\<close>

theorem ranking_always_one:
  "(case currentSession c of
      None \<Rightarrow> worker_efficiency_rows (fst (endCounting now st c)) = worker_efficiency_rows st
    | Some cs \<Rightarrow>
        \<exists>row. ranking row = 1 \<and>
          worker_efficiency_rows (fst (endCounting now st c)) =
            worker_efficiency_rows st @ (if worker_efficiency_accepts row then [row] else [])) \<and>
   worker_efficiency_rows (fst (startCounting now st c)) = worker_efficiency_rows st \<and>
   worker_efficiency_rows (fst (confirmQuantity random now st c)) = worker_efficiency_rows st \<and>
   worker_efficiency_rows (snd (verifyOTP now st u code)) = worker_efficiency_rows st \<and>
   worker_efficiency_rows (snd (createOTPRequest random now st u leader)) =
     worker_efficiency_rows st \<and>
   worker_efficiency_rows (fst (snd (handleOTPVerification now st d))) =
     worker_efficiency_rows st"
  using endCounting_efficiency [where c = c and now = now and st = st]
  by (simp add: startCounting_tables otp_operations_tables confirmQuantity_efficiency)

text \<open>
  C9. A counting record is written in one place, by \<^verbatim>\<open>confirmQuantity\<close>, and there with
  \<open>difference = 0\<close>, whatever quantity was typed and whatever book quantity was drawn: the
  call appends at most one record, and that record has \<open>difference = 0\<close>, the parsed
  quantity as \<open>qty_counted\<close> and \<^verbatim>\<open>Math.floor(random * 100) + 50\<close> as \<open>qty_as_per_books\<close>. No
  other operation changes the table.
\<close>

theorem difference_always_zero:
  "(counting_records (fst (confirmQuantity random now st c)) = counting_records st \<or>
    (\<exists>row q. counting_records (fst (confirmQuantity random now st c)) =
                counting_records st @ [row] \<and>
       difference row = Some 0 \<and>
       parseInt (quantity c) = Finite q \<and> cr_qty_counted row = Some q \<and>
       qty_as_per_books row = Some (Math_floor (js_mul random 100) + 50))) \<and>
   counting_records (fst (startCounting now st c)) = counting_records st \<and>
   counting_records (fst (endCounting now st c)) = counting_records st \<and>
   counting_records (snd (verifyOTP now st u code)) = counting_records st \<and>
   counting_records (snd (createOTPRequest random now st u leader)) = counting_records st \<and>
   counting_records (fst (snd (handleOTPVerification now st d))) = counting_records st"
  using confirmQuantity_records [where random = random and now = now and st = st and c = c]
  by (simp add: startCounting_tables endCounting_records otp_operations_tables)

section \<open>The active sessions of a worker\<close>

lemma ended_once_eval:
  "fst ended_once =
     demo_store\<lparr>counting_sessions :=
         [demo_session\<lparr>end_time := Some 7200000, status := completed\<rparr>],
       worker_efficiency_rows :=
         [\<lparr>we_id = 1, we_warehouse_name = Some ''Warehouse A'', we_date = 0,
           we_username = ''worker1'', bins_counted = Some 0, qty_counted = Some 0,
           time_taken_minutes = 120, efficiency_score = 0, ranking = 1,
           we_created_at = 7200000\<rparr>]\<rparr>"
  "snd ended_once = demo_dashboard"
proof -
  have cur: "currentSession (snd started_once) = Some demo_session"
    by (simp add: started_once_eval)
  have m: "timeTakenMinutes 7200000 0 = 120"
    by (simp add: timeTakenMinutes_exact)
  show "fst ended_once =
     demo_store\<lparr>counting_sessions :=
         [demo_session\<lparr>end_time := Some 7200000, status := completed\<rparr>],
       worker_efficiency_rows :=
         [\<lparr>we_id = 1, we_warehouse_name = Some ''Warehouse A'', we_date = 0,
           we_username = ''worker1'', bins_counted = Some 0, qty_counted = Some 0,
           time_taken_minutes = 120, efficiency_score = 0, ranking = 1,
           we_created_at = 7200000\<rparr>]\<rparr>"
    unfolding ended_once_def endCounting_store(1) [OF cur]
    by (simp add: insert_worker_efficiency_def worker_efficiency_accepts_def update_session_def
        started_once_eval demo_store_def demo_dashboard_def demo_worker_def demo_session_def
        m efficiencyScore_zero int32_def fresh_id_def date_of_def)
  show "snd ended_once = demo_dashboard"
    unfolding ended_once_def endCounting_store(2) [OF cur]
    by (simp add: started_once_eval demo_dashboard_def)
qed

lemma ended_twice_eval:
  "counting_sessions (fst ended_twice) =
     [demo_session\<lparr>end_time := Some 7201000, status := completed\<rparr>]"
  "length (worker_efficiency_rows (fst ended_twice)) = 2"
proof -
  have cur: "currentSession (snd started_once) = Some demo_session"
    by (simp add: started_once_eval)
  have m: "timeTakenMinutes 7201000 0 = 120"
    by (simp add: timeTakenMinutes_exact)
  show "counting_sessions (fst ended_twice) =
     [demo_session\<lparr>end_time := Some 7201000, status := completed\<rparr>]"
    unfolding ended_twice_def endCounting_sessions [OF cur]
    by (simp add: ended_once_eval demo_store_def demo_session_def)
  show "length (worker_efficiency_rows (fst ended_twice)) = 2"
    unfolding ended_twice_def endCounting_rows_length [OF cur]
    by (simp add: ended_once_eval demo_store_def started_once_eval demo_dashboard_def
        demo_worker_def demo_session_def m efficiencyScore_zero int32_def)
qed

text \<open>
  C6. The active sessions of a worker, as the code keeps them. \<^verbatim>\<open>startCounting\<close> reads
  nothing before it inserts: called for a worker that is a row of \<^verbatim>\<open>users\<close>, it adds one
  active session of that worker whatever the store and the component hold, also when the
  worker already has an active session, and it changes the sessions of no other worker.
  So a Start keeps "at most one active session" only when the worker had none; the code
  does not restrict it to that state. Every other operation, and every single request
  that the handlers send, never raises the number of active sessions of any worker:
  ending a session lowers or keeps it, recording a count keeps it, and the operations on
  one-time codes do not touch the sessions.
\<close>

theorem only_start_adds_active_sessions:
  "length (active_sessions (fst (startCounting now st c)) w) =
     length (active_sessions st w) +
     (if user_exists st (u_id (wd_user c)) \<and> w = u_id (wd_user c) then 1 else 0) \<and>
   length (active_sessions (fst (endCounting now st c)) w) \<le> length (active_sessions st w) \<and>
   length (active_sessions (fst (confirmQuantity random now st c)) w) =
     length (active_sessions st w) \<and>
   length (active_sessions
     (update_session i (\<lambda>s. s\<lparr>end_time := Some now, status := completed\<rparr>) st) w) \<le>
     length (active_sessions st w) \<and>
   length (active_sessions (update_totals i bins qty st) w) = length (active_sessions st w) \<and>
   active_sessions (insert_counting_record r st) w = active_sessions st w \<and>
   active_sessions (insert_worker_efficiency e st) w = active_sessions st w \<and>
   active_sessions (snd (verifyOTP now st u code)) w = active_sessions st w \<and>
   active_sessions (snd (createOTPRequest random now st u leader)) w = active_sessions st w \<and>
   active_sessions (fst (snd (handleOTPVerification now st d))) w = active_sessions st w"
  by (simp add: active_sessions_start endCounting_active_length confirmQuantity_active_length
      active_sessions_close active_sessions_update_totals otp_operations_active)

text \<open>
  C6 as the specification states it fails: the worker starts counting, and the Start
  handler runs once more from the rendering that still holds no session (a second click
  before the first insert has been answered and drawn, or a second dashboard of the
  worker). The worker then has two active sessions.
\<close>

theorem two_starts_two_active_sessions:
  "currentSession demo_dashboard = None \<and>
   length (active_sessions (fst started_once) 2) = 1 \<and>
   length (active_sessions (fst started_twice) 2) = 2"
  by (simp add: started_twice_def started_once_eval startCounting_def active_sessions_def
      demo_store_def demo_dashboard_def demo_users user_exists_def demo_session_def Let_def)

section \<open>Ending twice\<close>

text \<open>
  C7. When End acts, as the code decides it. \<^verbatim>\<open>endCounting\<close> tests the copy that the
  component holds and nothing else. Without a copy it returns at once: nothing is
  written, nothing is raised, the component is as it was. With a copy it acts whatever
  the stored session is, active or completed: the rows with the copy's id are stored as
  completed with the new end time, one efficiency row is sent, and the component's
  session is cleared. A second End that is invoked on the component state which the
  first has left changes nothing and returns silently. A second End that is invoked with
  the copy still in hand, from the rendering of the first, does not fail either: it
  repeats both writes, so that the session carries the second end time and a second
  efficiency row is sent.
\<close>

theorem end_acts_on_held_copy:
  "(currentSession c = None \<longrightarrow> endCounting now st c = (st, c)) \<and>
   (currentSession c = Some cs \<longrightarrow>
      (let accepted = (\<lambda>t.
             u_warehouse_name (wd_user c) \<noteq> None \<and>
             integer_not_null (total_bins_counted cs) \<and>
             integer_not_null (total_qty_counted cs) \<and>
             int32 (timeTakenMinutes t (start_time cs)) \<and>
             int32 (efficiencyScore (ToNumber (total_bins_counted cs))
                      (timeTakenMinutes t (start_time cs))));
           first = endCounting now st c;
           again = endCounting now' (fst first) c
       in counting_sessions (fst first) =
            map (\<lambda>s. if cs_id s = cs_id cs
                      then s\<lparr>end_time := Some now, status := completed\<rparr> else s)
              (counting_sessions st) \<and>
          length (worker_efficiency_rows (fst first)) =
            length (worker_efficiency_rows st) + (if accepted now then 1 else 0) \<and>
          snd first = c\<lparr>currentSession := None\<rparr> \<and>
          endCounting now' (fst first) (snd first) = first \<and>
          counting_sessions (fst again) =
            map (\<lambda>s. if cs_id s = cs_id cs
                      then s\<lparr>end_time := Some now', status := completed\<rparr> else s)
              (counting_sessions st) \<and>
          length (worker_efficiency_rows (fst again)) =
            length (worker_efficiency_rows st) + (if accepted now then 1 else 0) +
            (if accepted now' then 1 else 0) \<and>
          snd again = c\<lparr>currentSession := None\<rparr>))"
proof (intro conjI impI)
  assume "currentSession c = None"
  then show "endCounting now st c = (st, c)"
    by (rule endCounting_no_session)
next
  assume cur: "currentSession c = Some cs"
  have silent: "endCounting now' (fst (endCounting now st c)) (snd (endCounting now st c)) =
      endCounting now st c"
    using endCounting_store(2) [OF cur, of now st]
    by (simp add: endCounting_no_session prod_eq_iff)
  then have silent': "endCounting now' (fst (endCounting now st c)) (c\<lparr>currentSession := None\<rparr>) =
      endCounting now st c"
    by (simp only: endCounting_store(2) [OF cur])
  have twice: "map (\<lambda>s. if cs_id s = cs_id cs
                      then s\<lparr>end_time := Some now', status := completed\<rparr> else s)
        (map (\<lambda>s. if cs_id s = cs_id cs
                      then s\<lparr>end_time := Some now, status := completed\<rparr> else s) xs) =
      map (\<lambda>s. if cs_id s = cs_id cs
                      then s\<lparr>end_time := Some now', status := completed\<rparr> else s) xs" for xs
    by (induction xs) simp_all
  show "let accepted = (\<lambda>t.
             u_warehouse_name (wd_user c) \<noteq> None \<and>
             integer_not_null (total_bins_counted cs) \<and>
             integer_not_null (total_qty_counted cs) \<and>
             int32 (timeTakenMinutes t (start_time cs)) \<and>
             int32 (efficiencyScore (ToNumber (total_bins_counted cs))
                      (timeTakenMinutes t (start_time cs))));
           first = endCounting now st c;
           again = endCounting now' (fst first) c
       in counting_sessions (fst first) =
            map (\<lambda>s. if cs_id s = cs_id cs
                      then s\<lparr>end_time := Some now, status := completed\<rparr> else s)
              (counting_sessions st) \<and>
          length (worker_efficiency_rows (fst first)) =
            length (worker_efficiency_rows st) + (if accepted now then 1 else 0) \<and>
          snd first = c\<lparr>currentSession := None\<rparr> \<and>
          endCounting now' (fst first) (snd first) = first \<and>
          counting_sessions (fst again) =
            map (\<lambda>s. if cs_id s = cs_id cs
                      then s\<lparr>end_time := Some now', status := completed\<rparr> else s)
              (counting_sessions st) \<and>
          length (worker_efficiency_rows (fst again)) =
            length (worker_efficiency_rows st) + (if accepted now then 1 else 0) +
            (if accepted now' then 1 else 0) \<and>
          snd again = c\<lparr>currentSession := None\<rparr>"
    unfolding Let_def
    by (simp only: endCounting_sessions [OF cur] endCounting_rows_length [OF cur]
        endCounting_store(2) [OF cur] silent' twice simp_thms)
qed

theorem end_acts_on_held_copy_witness:
  "currentSession demo_dashboard = None \<and>
   endCounting 7200000 demo_store demo_dashboard = (demo_store, demo_dashboard) \<and>
   currentSession (snd started_once) = Some demo_session \<and>
   counting_sessions (fst ended_once) =
     [demo_session\<lparr>end_time := Some 7200000, status := completed\<rparr>] \<and>
   length (worker_efficiency_rows (fst ended_once)) = 1 \<and>
   endCounting 7201000 (fst ended_once) (snd ended_once) = ended_once \<and>
   counting_sessions (fst ended_twice) =
     [demo_session\<lparr>end_time := Some 7201000, status := completed\<rparr>] \<and>
   length (worker_efficiency_rows (fst ended_twice)) = 2"
proof -
  have none: "currentSession demo_dashboard = None"
    by (simp add: demo_dashboard_def)
  have cur: "currentSession (snd started_once) = Some demo_session"
    by (simp add: started_once_eval)
  have m: "timeTakenMinutes 7200000 0 = 120" "timeTakenMinutes 7201000 0 = 120"
    by (simp_all add: timeTakenMinutes_exact)
  have acc: "(u_warehouse_name (wd_user (snd started_once)) \<noteq> None \<and>
      integer_not_null (total_bins_counted demo_session) \<and>
      integer_not_null (total_qty_counted demo_session) \<and>
      int32 (timeTakenMinutes 7200000 (start_time demo_session)) \<and>
      int32 (efficiencyScore (ToNumber (total_bins_counted demo_session))
         (timeTakenMinutes 7200000 (start_time demo_session)))) = True"
    "(u_warehouse_name (wd_user (snd started_once)) \<noteq> None \<and>
      integer_not_null (total_bins_counted demo_session) \<and>
      integer_not_null (total_qty_counted demo_session) \<and>
      int32 (timeTakenMinutes 7201000 (start_time demo_session)) \<and>
      int32 (efficiencyScore (ToNumber (total_bins_counted demo_session))
         (timeTakenMinutes 7201000 (start_time demo_session)))) = True"
    by (simp_all add: started_once_eval demo_dashboard_def demo_worker_def demo_session_def
        m efficiencyScore_zero int32_def)
  have rows: "worker_efficiency_rows (fst started_once) = []"
    "counting_sessions (fst started_once) = [demo_session]"
    by (simp_all add: started_once_eval demo_store_def)
  from end_acts_on_held_copy
      [where c = demo_dashboard and st = demo_store and now = 7200000 and now' = 7201000
        and cs = demo_session] none
  have p1: "endCounting 7200000 demo_store demo_dashboard = (demo_store, demo_dashboard)"
    by blast
  from end_acts_on_held_copy
      [where c = "snd started_once" and st = "fst started_once" and now = 7200000
        and now' = 7201000 and cs = demo_session] cur
  have p2: "counting_sessions (fst ended_once) =
       map (\<lambda>s. if cs_id s = cs_id demo_session
                 then s\<lparr>end_time := Some 7200000, status := completed\<rparr> else s)
         (counting_sessions (fst started_once))"
    "length (worker_efficiency_rows (fst ended_once)) =
       length (worker_efficiency_rows (fst started_once)) + 1"
    "endCounting 7201000 (fst ended_once) (snd ended_once) = ended_once"
    "counting_sessions (fst ended_twice) =
       map (\<lambda>s. if cs_id s = cs_id demo_session
                 then s\<lparr>end_time := Some 7201000, status := completed\<rparr> else s)
         (counting_sessions (fst started_once))"
    "length (worker_efficiency_rows (fst ended_twice)) =
       length (worker_efficiency_rows (fst started_once)) + 1 + 1"
    unfolding Let_def acc if_True ended_once_def [symmetric] ended_twice_def [symmetric]
    by blast+
  from none p1 cur p2 show ?thesis
    by (simp add: rows)
qed

text \<open>
  C7 as the specification states it fails: the worker ends the session, after which no
  session of the worker is active, and the End handler runs once more from the rendering
  that still holds the session (a second click before the first call has been answered
  and drawn). The second call does not fail: it stores a second end time and inserts a
  second efficiency row.
\<close>

theorem second_end_repeats_the_writes:
  "active_sessions (fst ended_once) 2 = [] \<and>
   length (worker_efficiency_rows (fst ended_once)) = 1 \<and>
   currentSession (snd started_once) = Some demo_session \<and>
   counting_sessions (fst ended_twice) =
     [demo_session\<lparr>end_time := Some 7201000, status := completed\<rparr>] \<and>
   length (worker_efficiency_rows (fst ended_twice)) = 2"
  by (simp add: ended_once_eval ended_twice_eval started_once_eval active_sessions_def
      demo_store_def demo_session_def)


end
